theory Spec2Isabelle
  imports Main
begin

section \<open>Go values used by the job specification adapter\<close>

text \<open>
  A Go function returning \<open>(T, error)\<close> is a pair of the value and an optional error
  (\<open>None\<close> is Go's \<open>nil\<close>): the source returns both, and callers such as
  \<open>prepareWindow\<close> hand the value back together with the error. A run-time panic
  (a failed single-value type assertion, a nil interface method call) is the outcome
  \<open>Panics\<close>.
\<close>

datatype error =
    ErrNotAMonthDuration
  | NumErrorSyntax string
  | NumErrorRange string
  | TimeInvalidDuration string
  | TimeMissingUnit string
  | TimeUnknownUnit string string
  | TimeParseError string string
  | ErrorNew string
  | ContextDeadlineExceeded
  | Wrap error string

datatype 'a outcome = Panics | Returns 'a

text \<open>
  \<open>time.Duration\<close> is an \<open>int64\<close> count of nanoseconds. It is modelled as an
  \<open>int\<close> with the two's complement wrap-around of 64-bit arithmetic written out.
\<close>

type_synonym Duration = int

definition wrap64 :: "int \<Rightarrow> int" where
  "wrap64 x = (x + 9223372036854775808) mod 18446744073709551616 - 9223372036854775808"

definition Nanosecond :: Duration where "Nanosecond = 1"
definition Microsecond :: Duration where "Microsecond = 1000 * Nanosecond"
definition Millisecond :: Duration where "Millisecond = 1000 * Microsecond"
definition Second :: Duration where "Second = 1000 * Millisecond"
definition Minute :: Duration where "Minute = 60 * Second"
definition Hour :: Duration where "Hour = 60 * Minute"

section \<open>Standard library: strings.TrimSpace\<close>

text \<open>
  Go strings are byte sequences (UTF-8), as \<open>string\<close> is here. \<open>strings.TrimSpace\<close>
  removes leading and trailing white space as \<open>unicode.IsSpace\<close> defines it: the six
  ASCII characters tab, newline, vertical tab, form feed, carriage return and space, and
  the code points U+0085, U+00A0, U+1680, U+2000 to U+200A, U+2028, U+2029, U+202F,
  U+205F and U+3000 in their (shortest) UTF-8 encodings. A byte that does not start such
  an encoding decodes to a rune that is no space, and trimming stops there.
\<close>

definition isDigit :: "char \<Rightarrow> bool" where
  "isDigit c = (48 \<le> (of_char c :: nat) \<and> (of_char c :: nat) \<le> 57)"

definition digitVal :: "char \<Rightarrow> nat" where
  "digitVal c = (of_char c :: nat) - 48"

text \<open>The number a string of decimal digits denotes.\<close>

definition decimal :: "string \<Rightarrow> nat" where
  "decimal ds = fold (\<lambda>c n. n * 10 + digitVal c) ds 0"

definition asciiSpace :: "char \<Rightarrow> bool" where
  "asciiSpace c = ((of_char c :: nat) \<in> {9, 10, 11, 12, 13, 32})"

text \<open>The width in bytes of the white space rune that starts the string, 0 if none does.\<close>

fun leadingSpaceWidth :: "string \<Rightarrow> nat" where
  "leadingSpaceWidth [] = 0"
| "leadingSpaceWidth (c # cs) =
     (if asciiSpace c then 1
      else case map of_char (take 3 (c # cs)) :: nat list of
        a # b # r \<Rightarrow>
          if a = 0xC2 \<and> (b = 0x85 \<or> b = 0xA0) then 2
          else (case r of
            [d] \<Rightarrow>
              if a = 0xE1 \<and> b = 0x9A \<and> d = 0x80 then 3
              else if a = 0xE2 \<and> b = 0x80 \<and> (0x80 \<le> d \<and> d \<le> 0x8A \<or> d = 0xA8 \<or> d = 0xA9 \<or> d = 0xAF) then 3
              else if a = 0xE2 \<and> b = 0x81 \<and> d = 0x9F then 3
              else if a = 0xE3 \<and> b = 0x80 \<and> d = 0x80 then 3
              else 0
          | _ \<Rightarrow> 0)
      | _ \<Rightarrow> 0)"

text \<open>The same for the white space rune that ends the string (the argument is the
  string reversed, as \<open>utf8.DecodeLastRuneInString\<close> reads it from its end).\<close>

fun trailingSpaceWidth :: "string \<Rightarrow> nat" where
  "trailingSpaceWidth [] = 0"
| "trailingSpaceWidth (c # cs) =
     (if asciiSpace c then 1
      else if leadingSpaceWidth (rev (take 2 (c # cs))) = 2 then 2
      else if leadingSpaceWidth (rev (take 3 (c # cs))) = 3 then 3
      else 0)"

fun trimLeftSpace :: "nat \<Rightarrow> string \<Rightarrow> string" where
  "trimLeftSpace 0 s = s"
| "trimLeftSpace (Suc n) s =
     (let w = leadingSpaceWidth s in if w = 0 then s else trimLeftSpace n (drop w s))"

fun trimRightSpace :: "nat \<Rightarrow> string \<Rightarrow> string" where
  "trimRightSpace 0 r = r"
| "trimRightSpace (Suc n) r =
     (let w = trailingSpaceWidth r in if w = 0 then r else trimRightSpace n (drop w r))"

text \<open>Each step removes at least one byte, so \<open>length s\<close> steps are enough.\<close>

definition TrimSpace :: "string \<Rightarrow> string" where
  "TrimSpace s =
     (let l = trimLeftSpace (length s) s
      in rev (trimRightSpace (length l) (rev l)))"

section \<open>Standard library: strconv.Atoi\<close>

text \<open>
  \<open>strconv.Atoi\<close> on a 64-bit platform (\<open>int\<close> is \<open>int64\<close>): an optional sign,
  then decimal digits read by the loop of \<open>ParseUint\<close>, which reports a syntax error at
  the first byte that is no digit and a range error as soon as the value leaves
  \<open>uint64\<close>; \<open>ParseInt\<close> then checks the signed range. The value returned beside a
  range error is the nearest bound.
\<close>

fun parseUintLoop :: "string \<Rightarrow> nat \<Rightarrow> string \<Rightarrow> nat \<times> error option" where
  "parseUintLoop s0 n [] = (n, None)"
| "parseUintLoop s0 n (c # cs) =
     (if \<not> isDigit c then (0, Some (NumErrorSyntax s0))
      else if n \<ge> 18446744073709551615 div 10 + 1 then (18446744073709551615, Some (NumErrorRange s0))
      else let n1 = n * 10 + digitVal c in
        if n1 > 18446744073709551615 then (18446744073709551615, Some (NumErrorRange s0))
        else parseUintLoop s0 n1 cs)"

definition ParseUint :: "string \<Rightarrow> nat \<times> error option" where
  "ParseUint s = (if s = [] then (0, Some (NumErrorSyntax s)) else parseUintLoop s 0 s)"

definition Atoi :: "string \<Rightarrow> int \<times> error option" where
  "Atoi s0 =
     (if s0 = [] then (0, Some (NumErrorSyntax s0))
      else
        let neg = (hd s0 = CHR ''-'');
            s = (if hd s0 = CHR ''+'' \<or> hd s0 = CHR ''-'' then tl s0 else s0)
        in case ParseUint s of
             (un, Some (NumErrorRange x)) \<Rightarrow>
               if \<not> neg then (9223372036854775807, Some (NumErrorRange s0))
               else (- 9223372036854775808, Some (NumErrorRange s0))
           | (un, Some e) \<Rightarrow> (0, Some (NumErrorSyntax s0))
           | (un, None) \<Rightarrow>
               if \<not> neg \<and> un \<ge> 9223372036854775808 then (9223372036854775807, Some (NumErrorRange s0))
               else if neg \<and> un > 9223372036854775808 then (- 9223372036854775808, Some (NumErrorRange s0))
               else (if neg then - int un else int un, None))"

section \<open>Standard library: time.ParseDuration\<close>

text \<open>
  The fraction of a duration term is computed in \<open>float64\<close>:
  \<open>uint64(float64(f) * (float64(unit) / scale))\<close>. A non-negative \<open>float64\<close> is
  modelled as the fraction \<open>(n, d)\<close> of two naturals it equals; \<open>roundFloat\<close> rounds a
  fraction to 53 significant bits, ties to even, as every IEEE 754 operation does. The
  exponent is unbounded here: where Go's \<open>scale\<close> overflows to infinity or the quotient
  underflows, the product is below 1 in both and truncates to 0.
\<close>

type_synonym float64 = "nat \<times> nat"

fun bitlen :: "nat \<Rightarrow> nat" where
  "bitlen n = (if n = 0 then 0 else Suc (bitlen (n div 2)))"

declare bitlen.simps [simp del]

definition roundHalfEven :: "nat \<Rightarrow> nat \<Rightarrow> nat" where
  "roundHalfEven n d =
     (let q = n div d; r = n mod d
      in if 2 * r < d then q else if 2 * r > d then q + 1 else if even q then q else q + 1)"

definition roundFloat :: "float64 \<Rightarrow> float64" where
  "roundFloat x =
     (case x of (n, d) \<Rightarrow>
        if n = 0 \<or> d = 0 then (0, 1)
        else
          let k = int (bitlen n) - int (bitlen d);
              e = (if (if k \<ge> 0 then n \<ge> d * 2 ^ nat k else n * 2 ^ nat (- k) \<ge> d) then k else k - 1);
              s = 52 - e
          in if s \<ge> 0 then (roundHalfEven (n * 2 ^ nat s) d, 2 ^ nat s)
             else (roundHalfEven n (d * 2 ^ nat (- s)) * 2 ^ nat (- s), 1))"

definition floatOfNat :: "nat \<Rightarrow> float64" where
  "floatOfNat n = roundFloat (n, 1)"

definition floatMul :: "float64 \<Rightarrow> float64 \<Rightarrow> float64" where
  "floatMul x y = roundFloat (fst x * fst y, snd x * snd y)"

definition floatDiv :: "float64 \<Rightarrow> float64 \<Rightarrow> float64" where
  "floatDiv x y = roundFloat (fst x * snd y, snd x * fst y)"

definition floatTrunc :: "float64 \<Rightarrow> nat" where
  "floatTrunc x = fst x div snd x"

text \<open>\<open>leadingInt\<close>: the digits that start the string, as a \<open>uint64\<close>; \<open>None\<close> is
  \<open>errLeadingInt\<close> (the value passes \<open>1 << 63\<close>).\<close>

fun leadingInt :: "nat \<Rightarrow> string \<Rightarrow> (nat \<times> string) option" where
  "leadingInt x [] = Some (x, [])"
| "leadingInt x (c # cs) =
     (if \<not> isDigit c then Some (x, c # cs)
      else if x > 9223372036854775808 div 10 then None
      else let y = x * 10 + digitVal c in
        if y > 9223372036854775808 then None else leadingInt y cs)"

text \<open>\<open>leadingFraction\<close>: the digits after the period; once the value would overflow,
  the remaining digits are skipped and the scale no longer grows.\<close>

fun leadingFraction :: "nat \<Rightarrow> float64 \<Rightarrow> bool \<Rightarrow> string \<Rightarrow> nat \<times> float64 \<times> string" where
  "leadingFraction x scale overflow [] = (x, scale, [])"
| "leadingFraction x scale overflow (c # cs) =
     (if \<not> isDigit c then (x, scale, c # cs)
      else if overflow then leadingFraction x scale overflow cs
      else if x > (9223372036854775808 - 1) div 10 then leadingFraction x scale True cs
      else let y = x * 10 + digitVal c in
        if y > 9223372036854775808 then leadingFraction x scale True cs
        else leadingFraction y (floatMul scale (10, 1)) overflow cs)"

definition unitMap :: "string \<Rightarrow> nat option" where
  "unitMap u =
     (if u = ''ns'' then Some 1
      else if u = ''us'' then Some 1000
      else if u = [CHR 0xC2, CHR 0xB5, CHR ''s''] then Some 1000
      else if u = [CHR 0xCE, CHR 0xBC, CHR ''s''] then Some 1000
      else if u = ''ms'' then Some 1000000
      else if u = ''s'' then Some 1000000000
      else if u = ''m'' then Some 60000000000
      else if u = ''h'' then Some 3600000000000
      else None)"

definition unitChar :: "char \<Rightarrow> bool" where
  "unitChar c = (\<not> (c = CHR ''.'' \<or> isDigit c))"

text \<open>One pass of the loop of \<open>ParseDuration\<close> over a non-empty rest \<open>s\<close>: a number
  with an optional fraction, then a unit. It yields the term's nanoseconds and what
  follows it, or the error the function returns.\<close>

definition durationTerm :: "string \<Rightarrow> string \<Rightarrow> error + (nat \<times> string)" where
  "durationTerm orig s =
     (if \<not> (s \<noteq> [] \<and> (hd s = CHR ''.'' \<or> isDigit (hd s))) then Inl (TimeInvalidDuration orig)
      else case leadingInt 0 s of
        None \<Rightarrow> Inl (TimeInvalidDuration orig)
      | Some (v, s1) \<Rightarrow>
          let pre = (length s \<noteq> length s1);
              frac = (if s1 \<noteq> [] \<and> hd s1 = CHR ''.''
                      then leadingFraction 0 (1, 1) False (tl s1)
                      else (0, (1, 1), s1));
              f = fst frac; scale = fst (snd frac); s2 = snd (snd frac);
              post = (s1 \<noteq> [] \<and> hd s1 = CHR ''.'' \<and> length (tl s1) \<noteq> length s2)
          in if \<not> pre \<and> \<not> post then Inl (TimeInvalidDuration orig)
             else
               let u = takeWhile unitChar s2; s3 = dropWhile unitChar s2
               in if u = [] then Inl (TimeMissingUnit orig)
                  else case unitMap u of
                    None \<Rightarrow> Inl (TimeUnknownUnit u orig)
                  | Some unit \<Rightarrow>
                      if v > 9223372036854775808 div unit then Inl (TimeInvalidDuration orig)
                      else
                        let v1 = v * unit;
                            v2 = (if f > 0
                                  then v1 + floatTrunc (floatMul (floatOfNat f) (floatDiv (floatOfNat unit) scale))
                                  else v1)
                        in if f > 0 \<and> v2 > 9223372036854775808 then Inl (TimeInvalidDuration orig)
                           else Inr (v2, s3))"

lemma leadingInt_length: "leadingInt x s = Some (v, r) \<Longrightarrow> length r \<le> length s"
  by (induction x s rule: leadingInt.induct) (auto simp: Let_def split: if_splits)

lemma leadingFraction_length: "leadingFraction x sc ov s = (f, sc', r) \<Longrightarrow> length r \<le> length s"
  by (induction x sc ov s rule: leadingFraction.induct) (auto simp: Let_def split: if_splits)

lemma dropWhile_shorter: "takeWhile P xs \<noteq> [] \<Longrightarrow> length (dropWhile P xs) < length xs"
  by (cases xs) (auto simp: less_Suc_eq_le length_dropWhile_le split: if_splits)

lemma durationTerm_shorter:
  assumes "durationTerm orig s = Inr (v, r)"
  shows "length r < length s"
proof -
  from assms obtain w s1 where li: "leadingInt 0 s = Some (w, s1)"
    by (auto simp: durationTerm_def split: if_splits option.splits)
  define frac where "frac = (if s1 \<noteq> [] \<and> hd s1 = CHR ''.''
                      then leadingFraction 0 (1, 1) False (tl s1)
                      else (0, (1, 1), s1))"
  define s2 where "s2 = snd (snd frac)"
  have l1: "length s1 \<le> length s" using li by (rule leadingInt_length)
  have l2: "length s2 \<le> length s1"
  proof (cases "s1 \<noteq> [] \<and> hd s1 = CHR ''.''")
    case True
    obtain f sc r' where lf: "leadingFraction 0 (1, 1) False (tl s1) = (f, sc, r')"
      by (cases "leadingFraction 0 (1, 1) False (tl s1)") auto
    from leadingFraction_length [OF lf] True lf show ?thesis
      by (simp add: s2_def frac_def)
  next
    case False
    then show ?thesis by (auto simp: s2_def frac_def)
  qed
  from assms li have "takeWhile unitChar s2 \<noteq> [] \<and> r = dropWhile unitChar s2"
    unfolding durationTerm_def s2_def frac_def
    by (simp add: Let_def split: if_splits option.splits)
  then have "length r < length s2" by (simp add: dropWhile_shorter)
  with l1 l2 show ?thesis by simp
qed

text \<open>The loop of \<open>ParseDuration\<close>: \<open>d\<close> is the \<open>uint64\<close> sum so far (its addition
  wraps), \<open>neg\<close> the sign read before the loop.\<close>

function parseDurationLoop :: "string \<Rightarrow> bool \<Rightarrow> nat \<Rightarrow> string \<Rightarrow> Duration \<times> error option" where
  "parseDurationLoop orig neg d [] =
     (if neg then (wrap64 (- wrap64 (int d)), None)
      else if d > 9223372036854775808 - 1 then (0, Some (TimeInvalidDuration orig))
      else (wrap64 (int d), None))"
| "parseDurationLoop orig neg d (c # cs) =
     (case durationTerm orig (c # cs) of
        Inl e \<Rightarrow> (0, Some e)
      | Inr (v, rest) \<Rightarrow>
          let d1 = (d + v) mod 18446744073709551616
          in if d1 > 9223372036854775808 then (0, Some (TimeInvalidDuration orig))
             else parseDurationLoop orig neg d1 rest)"
  by pat_completeness auto
termination
  by (relation "measure (\<lambda>(orig, neg, d, s). length s)") (auto dest: durationTerm_shorter)

definition ParseDuration :: "string \<Rightarrow> Duration \<times> error option" where
  "ParseDuration orig =
     (let neg = (orig \<noteq> [] \<and> hd orig = CHR ''-'');
          s = (if orig \<noteq> [] \<and> (hd orig = CHR ''-'' \<or> hd orig = CHR ''+'') then tl orig else orig)
      in if s = ''0'' then (0, None)
         else if s = [] then (0, Some (TimeInvalidDuration orig))
         else parseDurationLoop orig neg 0 s)"

section \<open>The month expression\<close>

text \<open>
  \<open>monthExp = regexp.MustCompile("(\\+|-)?([0-9]+)(M)")\<close>. Go's \<open>regexp\<close> returns the
  leftmost match and, among the matches that start there, the one a backtracking search
  finds first. At a given start this expression has at most one match: the optional sign
  is taken when a sign stands there (without it the next byte, the sign, is no digit),
  \<open>[0-9]+\<close> takes the whole run of digits (giving one back leaves a digit where \<open>M\<close>
  must stand), and \<open>M\<close> follows. \<open>monthExpAt\<close> is that match at the start of the
  string: the text of groups 1 and 2 (an unmatched group is the empty string) and the
  rest of the input after the match. The expression matches ASCII bytes only, so scanning
  bytes and scanning runes find the same matches.
\<close>

definition monthExpAt :: "string \<Rightarrow> (string \<times> string \<times> string) option" where
  "monthExpAt s =
     (let sign = (if s \<noteq> [] \<and> (hd s = CHR ''+'' \<or> hd s = CHR ''-'') then [hd s] else []);
          s1 = drop (length sign) s;
          ds = takeWhile isDigit s1;
          s2 = dropWhile isDigit s1
      in if ds \<noteq> [] \<and> s2 \<noteq> [] \<and> hd s2 = CHR ''M'' then Some (sign, ds, tl s2) else None)"

lemma monthExpAt_shorter:
  assumes "monthExpAt s = Some (g1, g2, rest)"
  shows "length rest < length s"
proof -
  define sg where "sg = (if s \<noteq> [] \<and> (hd s = CHR ''+'' \<or> hd s = CHR ''-'') then [hd s] else [])"
  define ds where "ds = takeWhile isDigit (drop (length sg) s)"
  define s2 where "s2 = dropWhile isDigit (drop (length sg) s)"
  have eq: "monthExpAt s =
      (if ds \<noteq> [] \<and> s2 \<noteq> [] \<and> hd s2 = CHR ''M'' then Some (sg, ds, tl s2) else None)"
    unfolding monthExpAt_def sg_def ds_def s2_def Let_def by (rule refl)
  from assms have "s2 \<noteq> [] \<and> rest = tl s2"
    unfolding eq by (simp split: if_splits)
  then have "length rest < length s2" by (cases s2) auto
  moreover have "length s2 \<le> length s"
    unfolding s2_def by (rule order_trans [OF length_dropWhile_le]) simp
  ultimately show ?thesis by simp
qed

text \<open>\<open>monthExp.FindAllStringSubmatch(str, -1)\<close>: the successive matches, each with its
  four submatches (the whole match and the three groups). A match is never empty, so the
  search resumes right after it.\<close>

function monthExp_FindAllStringSubmatch :: "string \<Rightarrow> string list list" where
  "monthExp_FindAllStringSubmatch [] = []"
| "monthExp_FindAllStringSubmatch (c # cs) =
     (case monthExpAt (c # cs) of
        Some (g1, g2, rest) \<Rightarrow> [g1 @ g2 @ ''M'', g1, g2, ''M''] # monthExp_FindAllStringSubmatch rest
      | None \<Rightarrow> monthExp_FindAllStringSubmatch cs)"
  by pat_completeness auto
termination
  by (relation "measure length") (auto dest: monthExpAt_shorter)

text \<open>\<open>monthExp.ReplaceAllString(str, repl)\<close> for a replacement without \<open>$\<close> (the
  source passes the empty string): every match is replaced, the rest is copied.\<close>

function monthExp_ReplaceAllString :: "string \<Rightarrow> string \<Rightarrow> string" where
  "monthExp_ReplaceAllString [] repl = []"
| "monthExp_ReplaceAllString (c # cs) repl =
     (case monthExpAt (c # cs) of
        Some (g1, g2, rest) \<Rightarrow> repl @ monthExp_ReplaceAllString rest repl
      | None \<Rightarrow> c # monthExp_ReplaceAllString cs repl)"
  by pat_completeness auto
termination
  by (relation "measure (\<lambda>(s, repl). length s)") (auto dest: monthExpAt_shorter)

section \<open>The duration grammar: tryParsingInMonths\<close>

definition HoursInMonth :: Duration where
  "HoursInMonth = 30 * 24 * Hour"

definition tryParsingInMonths :: "string \<Rightarrow> Duration \<times> error option" where
  "tryParsingInMonths str =
     (let sz = 0;
          monthMatches = monthExp_FindAllStringSubmatch str
      in if length monthMatches > 0 \<and> length (monthMatches ! 0) = 4 then
           (case Atoi (monthMatches ! 0 ! 2) of
              (monthsCount, Some err) \<Rightarrow>
                (sz, Some (Wrap err (''failed to parse task configuration of '' @ str)))
            | (monthsCount, None) \<Rightarrow>
                let sz = wrap64 (HoursInMonth * monthsCount);
                    sz = (if monthMatches ! 0 ! 1 = ''-'' then wrap64 (sz * (- 1)) else sz);
                    str = TrimSpace (monthExp_ReplaceAllString str [])
                in if length str > 0 then
                     (case ParseDuration str of
                        (remainingTime, Some err) \<Rightarrow>
                          (sz, Some (Wrap err (''failed to parse task configuration of '' @ str)))
                      | (remainingTime, None) \<Rightarrow> (wrap64 (sz + remainingTime), None))
                   else (sz, None))
         else (sz, Some ErrNotAMonthDuration))"

section \<open>The on-disk job specification\<close>

text \<open>
  A \<open>yaml.MapSlice\<close> is a list of items whose key and value are \<open>interface{}\<close>: what
  the YAML document held. The adapter asserts both to be strings.
\<close>

datatype YamlValue = YamlString string | YamlInt int | YamlBool bool | YamlNull

type_synonym MapSlice = "(YamlValue \<times> YamlValue) list"

record JobSchedule =
  Schedule_StartDate :: string
  Schedule_EndDate :: string
  Schedule_Interval :: string

record JobBehavior =
  Behavior_DependsOnPast :: bool
  Behavior_Catchup :: bool

record JobTaskWindow =
  Window_Size :: string
  Window_Offset :: string
  Window_TruncateTo :: string

record JobTask =
  Task_Name :: string
  Task_Config :: MapSlice
  Task_Window :: JobTaskWindow

record JobHook =
  Hook_Name :: string
  Hook_Config :: MapSlice

record JobDependency =
  Dependency_JobName :: string
  Dependency_Type :: string

record Job =
  Job_Version :: int
  Job_Name :: string
  Job_Owner :: string
  Job_Description :: string
  Job_Schedule :: JobSchedule
  Job_Behavior :: JobBehavior
  Job_Task :: JobTask
  Job_Asset :: "string \<rightharpoonup> string"
  Job_Labels :: "string \<rightharpoonup> string"
  Job_Dependencies :: "JobDependency list"
  Job_Hooks :: "JobHook list"

section \<open>The task window\<close>

text \<open>\<open>models.JobSpecTaskWindow\<close>, as \<open>prepareWindow\<close> fills it.\<close>

record JobSpecTaskWindow =
  SpecWindow_Size :: Duration
  SpecWindow_Offset :: Duration
  SpecWindow_TruncateTo :: string

text \<open>
  \<open>prepareWindow\<close> parses the size and the offset by the same two steps (lines 108 to 112
  and 120 to 124 of the source): \<open>tryParsingInMonths\<close> first and, when it returns an
  error, \<open>time.ParseDuration\<close> on the same string. \<open>monthsOrDuration\<close> is these two
  steps: the value assigned to the window's field and the error left in \<open>err\<close>.
\<close>

definition monthsOrDuration :: "string \<Rightarrow> Duration \<times> error option" where
  "monthsOrDuration str =
     (case tryParsingInMonths str of
        (d, None) \<Rightarrow> (d, None)
      | (d, Some err) \<Rightarrow> ParseDuration str)"

definition prepareWindow :: "Job \<Rightarrow> JobSpecTaskWindow \<times> error option" where
  "prepareWindow conf =
     (let w = Task_Window (Job_Task conf);
          window = \<lparr>SpecWindow_Size = wrap64 (Hour * 24), SpecWindow_Offset = 0,
                    SpecWindow_TruncateTo = ''d''\<rparr>;
          window = (if Window_TruncateTo w \<noteq> []
                    then window\<lparr>SpecWindow_TruncateTo := Window_TruncateTo w\<rparr> else window);
          sized = (if Window_Size w \<noteq> [] then
                     (case monthsOrDuration (Window_Size w) of
                        (d, Some err) \<Rightarrow>
                          (window\<lparr>SpecWindow_Size := d\<rparr>,
                           Some (Wrap err (''failed to parse task window '' @ Job_Name conf
                                           @ '' with size '' @ Window_Size w)))
                      | (d, None) \<Rightarrow> (window\<lparr>SpecWindow_Size := d\<rparr>, None))
                   else (window, None))
      in case sized of
           (window, Some err) \<Rightarrow> (window, Some err)
         | (window, None) \<Rightarrow>
             if Window_Offset w \<noteq> [] then
               (case monthsOrDuration (Window_Offset w) of
                  (d, Some err) \<Rightarrow>
                    (window\<lparr>SpecWindow_Offset := d\<rparr>,
                     Some (Wrap err (''failed to parse task window '' @ Job_Name conf
                                     @ '' with offset '' @ Window_Offset w)))
                | (d, None) \<Rightarrow> (window\<lparr>SpecWindow_Offset := d\<rparr>, None))
             else (window, None))"

section \<open>Standard library: time.Parse and Time.Format on the job date layout\<close>

text \<open>
  Modelled from the spec: \<open>models.JobDatetimeLayout\<close> is declared in package
  \<open>models\<close>, which is not among the sources. The specification gives the schedule dates
  the pattern \<open>YYYY-MM-DD\<close>, Go's layout \<open>"2006-01-02"\<close>; \<open>parseJobDate\<close> and
  \<open>formatJobDate\<close> are \<open>time.Parse\<close> and \<open>Time.Format\<close> at that layout.

  A \<open>time.Time\<close> is modelled by the calendar date it denotes, which is all this layout
  reads or writes. \<open>time.Parse\<close> reads a year of four digits, a hyphen, a month of two
  digits (1 to 12), a hyphen and a day of two digits, refuses any text after them, and
  then checks the day against the length of the month. On an error it returns the zero
  time.
\<close>

record Time =
  Time_Year :: int
  Time_Month :: nat
  Time_Day :: nat

definition zeroTime :: Time where
  "zeroTime = \<lparr>Time_Year = 1, Time_Month = 1, Time_Day = 1\<rparr>"

definition isLeap :: "int \<Rightarrow> bool" where
  "isLeap year = (year mod 4 = 0 \<and> (year mod 100 \<noteq> 0 \<or> year mod 400 = 0))"

definition daysIn :: "nat \<Rightarrow> int \<Rightarrow> nat" where
  "daysIn m year =
     (if m = 2 then (if isLeap year then 29 else 28)
      else if m = 4 \<or> m = 6 \<or> m = 9 \<or> m = 11 then 30 else 31)"

text \<open>\<open>getnum(value, true)\<close>: two digits are required.\<close>

definition twoDigits :: "string \<Rightarrow> bool" where
  "twoDigits v = (length v \<ge> 2 \<and> isDigit (v ! 0) \<and> isDigit (v ! 1))"

definition parseJobDate :: "string \<Rightarrow> Time \<times> error option" where
  "parseJobDate v =
     (if length v < 4 \<or> \<not> isDigit (v ! 0) \<or> \<not> list_all isDigit (take 4 v)
      then (zeroTime, Some (TimeParseError v []))
      else
        let year = int (decimal (take 4 v)); v1 = drop 4 v
        in if v1 = [] \<or> hd v1 \<noteq> CHR ''-'' then (zeroTime, Some (TimeParseError v []))
           else
             let v2 = tl v1
             in if \<not> twoDigits v2 then (zeroTime, Some (TimeParseError v []))
                else
                  let month = decimal (take 2 v2); v3 = drop 2 v2
                  in if month \<le> 0 \<or> 12 < month
                     then (zeroTime, Some (TimeParseError v '': month out of range''))
                     else if v3 = [] \<or> hd v3 \<noteq> CHR ''-'' then (zeroTime, Some (TimeParseError v []))
                     else
                       let v4 = tl v3
                       in if \<not> twoDigits v4 then (zeroTime, Some (TimeParseError v []))
                          else
                            let day = decimal (take 2 v4); v5 = drop 2 v4
                            in if v5 \<noteq> [] then (zeroTime, Some (TimeParseError v ('': extra text: '' @ v5)))
                               else if day < 1 \<or> day > daysIn month year
                               then (zeroTime, Some (TimeParseError v '': day out of range''))
                               else (\<lparr>Time_Year = year, Time_Month = month, Time_Day = day\<rparr>, None))"

definition digitChar :: "nat \<Rightarrow> char" where
  "digitChar n = char_of (48 + n)"

fun decimalString :: "nat \<Rightarrow> string" where
  "decimalString n = (if n < 10 then [digitChar n] else decimalString (n div 10) @ [digitChar (n mod 10)])"

declare decimalString.simps [simp del]

text \<open>\<open>appendInt(b, x, width)\<close>: the decimal form of \<open>x\<close>, padded with zeros to the
  width, after a minus sign when \<open>x\<close> is negative.\<close>

definition appendInt :: "int \<Rightarrow> nat \<Rightarrow> string" where
  "appendInt x width =
     (let ds = decimalString (nat \<bar>x\<bar>)
      in (if x < 0 then ''-'' else []) @ replicate (width - length ds) (CHR ''0'') @ ds)"

definition formatJobDate :: "Time \<Rightarrow> string" where
  "formatJobDate t =
     appendInt (Time_Year t) 4 @ ''-'' @ appendInt (int (Time_Month t)) 2 @ ''-''
       @ appendInt (int (Time_Day t)) 2"

section \<open>The domain model\<close>

text \<open>
  The types of package \<open>models\<close> with the fields the adapter reads and writes (its struct
  literals and selectors in the source name them).

  Modelled from the spec: the constants \<open>JobSpecDependencyTypeIntra\<close>,
  \<open>JobSpecDependencyTypeInter\<close> and \<open>JobSpecDependencyTypeExtra\<close> of the string type
  \<open>JobSpecDependencyType\<close> are declared in package \<open>models\<close>, which is not among the
  sources; the specification names the three kinds intra-project, inter-project and
  extra-project. The adapter converts them with \<open>string(...)\<close> and \<open>String()\<close>, and
  its \<open>switch\<close> compiles only when the three are distinct.
\<close>

datatype JobSpecDependencyType = JobSpecDependencyType string

fun DependencyType_String :: "JobSpecDependencyType \<Rightarrow> string" where
  "DependencyType_String (JobSpecDependencyType s) = s"

definition JobSpecDependencyTypeIntra :: JobSpecDependencyType where
  "JobSpecDependencyTypeIntra = JobSpecDependencyType ''intra''"

definition JobSpecDependencyTypeInter :: JobSpecDependencyType where
  "JobSpecDependencyTypeInter = JobSpecDependencyType ''inter''"

definition JobSpecDependencyTypeExtra :: JobSpecDependencyType where
  "JobSpecDependencyTypeExtra = JobSpecDependencyType ''extra''"

text \<open>A task or hook plugin, an interface value of which the adapter calls \<open>Name()\<close>
  only; a \<open>nil\<close> interface is \<open>None\<close> in the fields below.\<close>

record Plugin =
  Plugin_Name :: string

record JobSpecConfigItem =
  ConfigItem_Name :: string
  ConfigItem_Value :: string

type_synonym JobSpecConfigs = "JobSpecConfigItem list"

record JobSpecHook =
  SpecHook_Config :: JobSpecConfigs
  SpecHook_Unit :: "Plugin option"

record JobSpecDependency =
  SpecDependency_Type :: JobSpecDependencyType

record JobSpecSchedule =
  SpecSchedule_StartDate :: Time
  SpecSchedule_EndDate :: "Time option"
  SpecSchedule_Interval :: string

record JobSpecBehavior =
  SpecBehavior_CatchUp :: bool
  SpecBehavior_DependsOnPast :: bool

record JobSpecTask =
  SpecTask_Unit :: "Plugin option"
  SpecTask_Config :: JobSpecConfigs
  SpecTask_Window :: JobSpecTaskWindow

record 'a JobSpec =
  JobSpec_Version :: int
  JobSpec_Name :: string
  JobSpec_Owner :: string
  JobSpec_Description :: string
  JobSpec_Labels :: "string \<rightharpoonup> string"
  JobSpec_Schedule :: JobSpecSchedule
  JobSpec_Behavior :: JobSpecBehavior
  JobSpec_Task :: JobSpecTask
  JobSpec_Assets :: 'a
  JobSpec_Dependencies :: "string \<rightharpoonup> JobSpecDependency"
  JobSpec_Hooks :: "JobSpecHook list"

text \<open>
  What the adapter calls of package \<open>models\<close> and the sources do not hold is a
  parameter: the type \<open>'a\<close> of \<open>JobAssets\<close> with its zero value and its methods
  \<open>FromMap\<close> and \<open>ToMap\<close>, and the methods \<open>SizeString\<close> and \<open>OffsetString\<close> of a
  task window.
\<close>

record 'a Models =
  JobAssets_zero :: 'a
  JobAssets_FromMap :: "'a \<Rightarrow> (string \<rightharpoonup> string) \<Rightarrow> 'a"
  JobAssets_ToMap :: "'a \<Rightarrow> (string \<rightharpoonup> string)"
  Window_SizeString :: "JobSpecTaskWindow \<Rightarrow> string"
  Window_OffsetString :: "JobSpecTaskWindow \<Rightarrow> string"

text \<open>
  Modelled from the spec: the task and hook registries (\<open>models.TransformationRepo\<close>,
  \<open>models.HookRepo\<close>) are interfaces of package \<open>models\<close>; \<open>GetByName\<close> resolves a
  name to a registered plugin or returns an error.
\<close>

record JobSpecAdapter =
  supportedTaskRepo :: "string \<Rightarrow> error + Plugin"
  supportedHookRepo :: "string \<Rightarrow> error + Plugin"

text \<open>The zero values \<open>models.JobSpec{}\<close>, \<open>models.JobSpecHook{}\<close> and \<open>Job{}\<close>.\<close>

definition JobSpec_zero :: "'a Models \<Rightarrow> 'a JobSpec" where
  "JobSpec_zero M =
     \<lparr>JobSpec_Version = 0, JobSpec_Name = [], JobSpec_Owner = [], JobSpec_Description = [],
      JobSpec_Labels = Map.empty,
      JobSpec_Schedule = \<lparr>SpecSchedule_StartDate = zeroTime, SpecSchedule_EndDate = None,
                           SpecSchedule_Interval = []\<rparr>,
      JobSpec_Behavior = \<lparr>SpecBehavior_CatchUp = False, SpecBehavior_DependsOnPast = False\<rparr>,
      JobSpec_Task = \<lparr>SpecTask_Unit = None, SpecTask_Config = [],
                       SpecTask_Window = \<lparr>SpecWindow_Size = 0, SpecWindow_Offset = 0,
                                           SpecWindow_TruncateTo = []\<rparr>\<rparr>,
      JobSpec_Assets = JobAssets_zero M, JobSpec_Dependencies = Map.empty, JobSpec_Hooks = []\<rparr>"

definition JobSpecHook_zero :: JobSpecHook where
  "JobSpecHook_zero = \<lparr>SpecHook_Config = [], SpecHook_Unit = None\<rparr>"

definition Job_zero :: Job where
  "Job_zero =
     \<lparr>Job_Version = 0, Job_Name = [], Job_Owner = [], Job_Description = [],
      Job_Schedule = \<lparr>Schedule_StartDate = [], Schedule_EndDate = [], Schedule_Interval = []\<rparr>,
      Job_Behavior = \<lparr>Behavior_DependsOnPast = False, Behavior_Catchup = False\<rparr>,
      Job_Task = \<lparr>Task_Name = [], Task_Config = [],
                   Task_Window = \<lparr>Window_Size = [], Window_Offset = [], Window_TruncateTo = []\<rparr>\<rparr>,
      Job_Asset = Map.empty, Job_Labels = Map.empty, Job_Dependencies = [], Job_Hooks = []\<rparr>"

section \<open>The adapter: from the on-disk job to the domain model\<close>

text \<open>\<open>JobSpecConfigFromYamlSlice\<close>: the type assertions \<open>c.Key.(string)\<close> and
  \<open>c.Value.(string)\<close> panic on a key or value that is no string. \<open>ToSpec\<close> runs the
  same loop on the task's configuration.\<close>

fun JobSpecConfigFromYamlSlice :: "MapSlice \<Rightarrow> JobSpecConfigs outcome" where
  "JobSpecConfigFromYamlSlice [] = Returns []"
| "JobSpecConfigFromYamlSlice ((YamlString k, YamlString v) # conf) =
     (case JobSpecConfigFromYamlSlice conf of
        Panics \<Rightarrow> Panics
      | Returns conv \<Rightarrow> Returns (\<lparr>ConfigItem_Name = k, ConfigItem_Value = v\<rparr> # conv))"
| "JobSpecConfigFromYamlSlice (c # conf) = Panics"

definition JobSpecConfigToYamlSlice :: "JobSpecConfigs \<Rightarrow> MapSlice" where
  "JobSpecConfigToYamlSlice conf =
     map (\<lambda>c. (YamlString (ConfigItem_Name c), YamlString (ConfigItem_Value c))) conf"

definition JobHook_ToSpec :: "JobHook \<Rightarrow> (string \<Rightarrow> error + Plugin) \<Rightarrow> (JobSpecHook \<times> error option) outcome" where
  "JobHook_ToSpec a repo =
     (case repo (Hook_Name a) of
        Inl err \<Rightarrow> Returns (JobSpecHook_zero, Some (Wrap err ''spec reading error''))
      | Inr hookUnit \<Rightarrow>
          (case JobSpecConfigFromYamlSlice (Hook_Config a) of
             Panics \<Rightarrow> Panics
           | Returns conf \<Rightarrow>
               Returns (\<lparr>SpecHook_Config = conf, SpecHook_Unit = Some hookUnit\<rparr>, None)))"

text \<open>The \<open>switch\<close> on a dependency's type string.\<close>

definition dependencyType :: "string \<Rightarrow> JobSpecDependencyType" where
  "dependencyType t =
     (if t = DependencyType_String JobSpecDependencyTypeIntra then JobSpecDependencyTypeIntra
      else if t = DependencyType_String JobSpecDependencyTypeInter then JobSpecDependencyTypeInter
      else if t = DependencyType_String JobSpecDependencyTypeExtra then JobSpecDependencyTypeExtra
      else JobSpecDependencyTypeIntra)"

text \<open>The loop that fills the map of dependencies: a later entry of the same job name
  overwrites an earlier one.\<close>

fun prepDependencies :: "JobDependency list \<Rightarrow> (string \<rightharpoonup> JobSpecDependency) \<Rightarrow> (string \<rightharpoonup> JobSpecDependency)" where
  "prepDependencies [] dependencies = dependencies"
| "prepDependencies (dep # deps) dependencies =
     prepDependencies deps
       (dependencies(Dependency_JobName dep \<mapsto>
          \<lparr>SpecDependency_Type = dependencyType (Dependency_Type dep)\<rparr>))"

text \<open>The loop over the hooks: the first hook that fails ends the conversion.\<close>

fun prepHooks :: "(string \<Rightarrow> error + Plugin) \<Rightarrow> JobHook list \<Rightarrow> JobSpecHook list \<Rightarrow> (JobSpecHook list \<times> error option) outcome" where
  "prepHooks repo [] hooks = Returns (hooks, None)"
| "prepHooks repo (hook # rest) hooks =
     (case JobHook_ToSpec hook repo of
        Panics \<Rightarrow> Panics
      | Returns (adaptHook, Some err) \<Rightarrow> Returns (hooks, Some err)
      | Returns (adaptHook, None) \<Rightarrow> prepHooks repo rest (hooks @ [adaptHook]))"

definition ToSpec :: "'a Models \<Rightarrow> JobSpecAdapter \<Rightarrow> Job \<Rightarrow> ('a JobSpec \<times> error option) outcome" where
  "ToSpec M adapt conf =
     (case parseJobDate (Schedule_StartDate (Job_Schedule conf)) of
        (startDate, Some err) \<Rightarrow> Returns (JobSpec_zero M, Some err)
      | (startDate, None) \<Rightarrow>
     (case (if Schedule_EndDate (Job_Schedule conf) \<noteq> []
            then (case parseJobDate (Schedule_EndDate (Job_Schedule conf)) of
                    (end, Some err) \<Rightarrow> Inl err
                  | (end, None) \<Rightarrow> Inr (Some end))
            else Inr None) of
        Inl err \<Rightarrow> Returns (JobSpec_zero M, Some err)
      | Inr endDate \<Rightarrow>
     (let dependencies = prepDependencies (Job_Dependencies conf) Map.empty
      in case prepHooks (supportedHookRepo adapt) (Job_Hooks conf) [] of
        Panics \<Rightarrow> Panics
      | Returns (hooks, Some err) \<Rightarrow> Returns (JobSpec_zero M, Some err)
      | Returns (hooks, None) \<Rightarrow>
     (case prepareWindow conf of
        (window, Some err) \<Rightarrow> Returns (JobSpec_zero M, Some err)
      | (window, None) \<Rightarrow>
     (case supportedTaskRepo adapt (Task_Name (Job_Task conf)) of
        Inl err \<Rightarrow>
          Returns (JobSpec_zero M,
            Some (Wrap err (''spec reading error, failed to find exec unit '' @ Task_Name (Job_Task conf))))
      | Inr execUnit \<Rightarrow>
     (case JobSpecConfigFromYamlSlice (Task_Config (Job_Task conf)) of
        Panics \<Rightarrow> Panics
      | Returns taskConf \<Rightarrow>
          Returns
            (\<lparr>JobSpec_Version = Job_Version conf,
              JobSpec_Name = TrimSpace (Job_Name conf),
              JobSpec_Owner = Job_Owner conf,
              JobSpec_Description = Job_Description conf,
              JobSpec_Labels = Job_Labels conf,
              JobSpec_Schedule =
                \<lparr>SpecSchedule_StartDate = startDate, SpecSchedule_EndDate = endDate,
                 SpecSchedule_Interval = Schedule_Interval (Job_Schedule conf)\<rparr>,
              JobSpec_Behavior =
                \<lparr>SpecBehavior_CatchUp = Behavior_Catchup (Job_Behavior conf),
                 SpecBehavior_DependsOnPast = Behavior_DependsOnPast (Job_Behavior conf)\<rparr>,
              JobSpec_Task =
                \<lparr>SpecTask_Unit = Some execUnit, SpecTask_Config = taskConf,
                 SpecTask_Window = window\<rparr>,
              JobSpec_Assets = JobAssets_FromMap M (JobAssets_zero M) (Job_Asset conf),
              JobSpec_Dependencies = dependencies,
              JobSpec_Hooks = hooks\<rparr>, None)))))))"

section \<open>The adapter: from the domain model to the on-disk job\<close>

text \<open>\<open>JobHook.FromSpec\<close> calls \<open>spec.Unit.Name()\<close>, which panics on a \<open>nil\<close> unit.\<close>

definition JobHook_FromSpec :: "JobSpecHook \<Rightarrow> JobHook outcome" where
  "JobHook_FromSpec spec =
     (case SpecHook_Unit spec of
        None \<Rightarrow> Panics
      | Some unit \<Rightarrow>
          Returns \<lparr>Hook_Name = Plugin_Name unit,
                   Hook_Config = JobSpecConfigToYamlSlice (SpecHook_Config spec)\<rparr>)"

fun hooksFromSpec :: "JobSpecHook list \<Rightarrow> JobHook list outcome" where
  "hooksFromSpec [] = Returns []"
| "hooksFromSpec (hook # rest) =
     (case JobHook_FromSpec hook of
        Panics \<Rightarrow> Panics
      | Returns h \<Rightarrow>
          (case hooksFromSpec rest of Panics \<Rightarrow> Panics | Returns hs \<Rightarrow> Returns (h # hs)))"

text \<open>
  The loop over \<open>spec.Dependencies\<close> visits the keys of a Go map, in an order the
  language leaves open. The order of one run is the argument \<open>visited\<close>: the keys of the
  map, each once.
\<close>

definition visitsKeysOf :: "string list \<Rightarrow> (string \<rightharpoonup> 'v) \<Rightarrow> bool" where
  "visitsKeysOf visited m = (distinct visited \<and> set visited = dom m)"

definition dependenciesFromSpec :: "string list \<Rightarrow> (string \<rightharpoonup> JobSpecDependency) \<Rightarrow> JobDependency list" where
  "dependenciesFromSpec visited deps =
     concat (map (\<lambda>name. case deps name of
                             None \<Rightarrow> []
                           | Some dep \<Rightarrow>
                               [\<lparr>Dependency_JobName = name,
                                 Dependency_Type = DependencyType_String (SpecDependency_Type dep)\<rparr>])
                 visited)"

definition FromSpec :: "'a Models \<Rightarrow> string list \<Rightarrow> 'a JobSpec \<Rightarrow> (Job \<times> error option) outcome" where
  "FromSpec M visited spec =
     (case SpecTask_Unit (JobSpec_Task spec) of
        None \<Rightarrow> Returns (Job_zero, Some (ErrorNew ''exec unit is nil''))
      | Some unit \<Rightarrow>
          (case hooksFromSpec (JobSpec_Hooks spec) of
             Panics \<Rightarrow> Panics
           | Returns hooks \<Rightarrow>
               Returns
                 (\<lparr>Job_Version = JobSpec_Version spec,
                   Job_Name = JobSpec_Name spec,
                   Job_Owner = JobSpec_Owner spec,
                   Job_Description = JobSpec_Description spec,
                   Job_Schedule =
                     \<lparr>Schedule_StartDate = formatJobDate (SpecSchedule_StartDate (JobSpec_Schedule spec)),
                      Schedule_EndDate =
                        (case SpecSchedule_EndDate (JobSpec_Schedule spec) of
                           None \<Rightarrow> [] | Some end \<Rightarrow> formatJobDate end),
                      Schedule_Interval = SpecSchedule_Interval (JobSpec_Schedule spec)\<rparr>,
                   Job_Behavior =
                     \<lparr>Behavior_DependsOnPast = SpecBehavior_DependsOnPast (JobSpec_Behavior spec),
                      Behavior_Catchup = SpecBehavior_CatchUp (JobSpec_Behavior spec)\<rparr>,
                   Job_Task =
                     \<lparr>Task_Name = Plugin_Name unit,
                      Task_Config = JobSpecConfigToYamlSlice (SpecTask_Config (JobSpec_Task spec)),
                      Task_Window =
                        \<lparr>Window_Size = Window_SizeString M (SpecTask_Window (JobSpec_Task spec)),
                         Window_Offset = Window_OffsetString M (SpecTask_Window (JobSpec_Task spec)),
                         Window_TruncateTo = SpecWindow_TruncateTo (SpecTask_Window (JobSpec_Task spec))\<rparr>\<rparr>,
                   Job_Asset = JobAssets_ToMap M (JobSpec_Assets spec),
                   Job_Labels = JobSpec_Labels spec,
                   Job_Dependencies = dependenciesFromSpec visited (JobSpec_Dependencies spec),
                   Job_Hooks = hooks\<rparr>, None)))"

section \<open>The deployment session\<close>

text \<open>
  \<open>postDeploymentRequest\<close> talks to its surroundings: the connection, the remote
  service, the repositories of specifications, the adapter to the wire format and the
  logger. What they answer is the environment of a run, a record of the answers; what the
  function does to them is the list of events it returns beside its result, in the order
  of the calls. The types of the wire format (package \<open>pb\<close>) are parameters; of a
  resource specification only the name is read.

  A response stream is the list of the messages \<open>Recv\<close> hands out and how it ends:
  with \<open>io.EOF\<close> or with an error. The deadline of the call makes every stream end.
  The keys of the map \<open>datastoreSpecFs\<close> are visited in an order the language leaves
  open; the environment gives the order of the run.

  The counters of the two loops are Go \<open>int\<close>s that go up by one for a message read;
  they are natural numbers here, a stream of \<open>2 ^ 63\<close> messages being out of reach. The
  deferred calls, which close the connection and cancel the two contexts when the function
  returns, have no part in what it returns and are left out.
\<close>

record RegisterProjectResponse =
  Register_Success :: bool
  Register_Message :: string

record DeployResourceSpecificationResponse =
  ResourceResp_Ack :: bool
  ResourceResp_Success :: bool
  ResourceResp_ResourceName :: string
  ResourceResp_Message :: string

record DeployJobSpecificationResponse =
  JobResp_Ack :: bool
  JobResp_Success :: bool
  JobResp_JobName :: string
  JobResp_Message :: string

datatype StreamEnd = EOF | RecvError error

record ResourceSpec =
  ResourceSpec_Name :: string

record ('a, 'rp, 'jp) Env =
  createConnection :: "error option"
  RegisterProject :: "string \<Rightarrow> error + RegisterProjectResponse"
  datastoreSpecFs :: "string list"
  Datastore_GetByName :: "string \<Rightarrow> error option"
  Resource_GetAll :: "string \<Rightarrow> error + ResourceSpec list"
  ToResourceProto :: "ResourceSpec \<Rightarrow> error + 'rp"
  DeployResourceSpecification ::
    "'rp list \<Rightarrow> string \<Rightarrow> string \<Rightarrow> error + (DeployResourceSpecificationResponse list \<times> StreamEnd)"
  Job_GetAll :: "error + 'a JobSpec list"
  ToJobProto :: "'a JobSpec \<Rightarrow> error + 'jp"
  DeployJobSpecification ::
    "'jp list \<Rightarrow> string \<Rightarrow> error + (DeployJobSpecificationResponse list \<times> StreamEnd)"

datatype Event =
    Dial
  | Log string
  | LogError error
  | LogDeployed nat nat string
  | LogInfo string string
  | CallRegisterProject string
  | CallDatastoreGetByName string
  | CallResourceGetAll string
  | CallToResourceProto string
  | CallDeployResourceSpecification string nat
  | RecvResource
  | CallJobGetAll
  | CallToJobProto string
  | CallDeployJobSpecification nat
  | RecvJob
  | ExitProcess

datatype Outcome = Returned "error option" | Exited

text \<open>
  Modelled from the spec: \<open>errExit\<close>, a helper of package \<open>commands\<close> that is not
  among the sources. Its caller does not look at a result and goes on to use what failed to
  load, and the spec has every error printed and the process end with a non-zero status:
  called with an error, it prints the error and ends the process.
\<close>

definition errExit :: "error \<Rightarrow> Outcome option \<times> Event list" where
  "errExit err = (Some Exited, [LogError err, ExitProcess])"

text \<open>\<open>errors.Is(err, context.DeadlineExceeded)\<close>: the error or one it wraps.\<close>

fun isDeadlineExceeded :: "error \<Rightarrow> bool" where
  "isDeadlineExceeded ContextDeadlineExceeded = True"
| "isDeadlineExceeded (Wrap err msg) = isDeadlineExceeded err"
| "isDeadlineExceeded err = False"

text \<open>
  The loop that tracks the progress of a resource deployment: the total, the counter of
  deployed specifications, the messages still to come and the end of the stream. It
  returns the error of the function, if any, the counter and the events. Every pass calls
  \<open>Recv\<close> once.
\<close>

fun recvResourceAcks ::
  "nat \<Rightarrow> nat \<Rightarrow> DeployResourceSpecificationResponse list \<Rightarrow> StreamEnd \<Rightarrow> error option \<times> nat \<times> Event list" where
  "recvResourceAcks totalSpecs deployCounter [] EOF = (None, deployCounter, [RecvResource])"
| "recvResourceAcks totalSpecs deployCounter [] (RecvError err) =
     (Some (Wrap err ''failed to receive deployment ack''), deployCounter, [RecvResource])"
| "recvResourceAcks totalSpecs deployCounter (resp # rest) end =
     (if ResourceResp_Ack resp then
        if \<not> ResourceResp_Success resp then
          (Some (ErrorNew (''unable to deploy: '' @ ResourceResp_ResourceName resp @ '' ''
                           @ ResourceResp_Message resp)), deployCounter, [RecvResource])
        else
          (case recvResourceAcks totalSpecs (deployCounter + 1) rest end of
             (err, counter, events) \<Rightarrow>
               (err, counter,
                RecvResource
                  # LogDeployed (deployCounter + 1) totalSpecs (ResourceResp_ResourceName resp)
                  # events))
      else
        (case recvResourceAcks totalSpecs deployCounter rest end of
           (err, counter, events) \<Rightarrow>
             (err, counter,
              RecvResource
                # LogInfo (ResourceResp_ResourceName resp) (ResourceResp_Message resp)
                # events)))"

fun recvJobAcks ::
  "nat \<Rightarrow> nat \<Rightarrow> DeployJobSpecificationResponse list \<Rightarrow> StreamEnd \<Rightarrow> error option \<times> nat \<times> Event list" where
  "recvJobAcks totalJobs jobCounter [] EOF = (None, jobCounter, [RecvJob])"
| "recvJobAcks totalJobs jobCounter [] (RecvError err) =
     (Some (Wrap err ''failed to receive deployment ack''), jobCounter, [RecvJob])"
| "recvJobAcks totalJobs jobCounter (resp # rest) end =
     (if JobResp_Ack resp then
        if \<not> JobResp_Success resp then
          (Some (ErrorNew (''unable to deploy: '' @ JobResp_JobName resp @ '' ''
                           @ JobResp_Message resp)), jobCounter, [RecvJob])
        else
          (case recvJobAcks totalJobs (jobCounter + 1) rest end of
             (err, counter, events) \<Rightarrow>
               (err, counter,
                RecvJob # LogDeployed (jobCounter + 1) totalJobs (JobResp_JobName resp) # events))
      else
        (case recvJobAcks totalJobs jobCounter rest end of
           (err, counter, events) \<Rightarrow>
             (err, counter,
              RecvJob # LogInfo (JobResp_JobName resp) (JobResp_Message resp) # events)))"

text \<open>The loops that prepare the specifications: the first one that fails to adapt ends
  the function.\<close>

fun adaptResourceSpecs ::
  "(ResourceSpec \<Rightarrow> error + 'rp) \<Rightarrow> ResourceSpec list \<Rightarrow> (error + 'rp list) \<times> Event list" where
  "adaptResourceSpecs toProto [] = (Inr [], [])"
| "adaptResourceSpecs toProto (spec # rest) =
     (case toProto spec of
        Inl err \<Rightarrow>
          (Inl (Wrap err (''failed to serialize: '' @ ResourceSpec_Name spec)),
           [CallToResourceProto (ResourceSpec_Name spec)])
      | Inr adapted \<Rightarrow>
          (case adaptResourceSpecs toProto rest of
             (Inl err, events) \<Rightarrow> (Inl err, CallToResourceProto (ResourceSpec_Name spec) # events)
           | (Inr adaptedSpecs, events) \<Rightarrow>
               (Inr (adapted # adaptedSpecs), CallToResourceProto (ResourceSpec_Name spec) # events)))"

fun adaptJobSpecs ::
  "('a JobSpec \<Rightarrow> error + 'jp) \<Rightarrow> 'a JobSpec list \<Rightarrow> (error + 'jp list) \<times> Event list" where
  "adaptJobSpecs toProto [] = (Inr [], [])"
| "adaptJobSpecs toProto (spec # rest) =
     (case toProto spec of
        Inl err \<Rightarrow>
          (Inl (Wrap err (''failed to serialize: '' @ JobSpec_Name spec)),
           [CallToJobProto (JobSpec_Name spec)])
      | Inr adaptJob \<Rightarrow>
          (case adaptJobSpecs toProto rest of
             (Inl err, events) \<Rightarrow> (Inl err, CallToJobProto (JobSpec_Name spec) # events)
           | (Inr adaptedJobSpecs, events) \<Rightarrow>
               (Inr (adaptJob # adaptedJobSpecs), CallToJobProto (JobSpec_Name spec) # events)))"

text \<open>One pass of the loop over the datastores: \<open>None\<close> when the pass ends and the loop
  goes on, the outcome of the function when the pass ends it.\<close>

definition deployDatastore ::
  "('a, 'rp, 'jp) Env \<Rightarrow> string \<Rightarrow> string \<Rightarrow> Outcome option \<times> Event list" where
  "deployDatastore env projectName storeName =
     (case Datastore_GetByName env storeName of
        Some err \<Rightarrow>
          (case errExit (ErrorNew (''unsupported datastore: '' @ storeName @ [CHR 0x0A])) of
             (outcome, events) \<Rightarrow> (outcome, [CallDatastoreGetByName storeName] @ events))
      | None \<Rightarrow>
     (case Resource_GetAll env storeName of
        Inl err \<Rightarrow>
          (case errExit err of
             (outcome, events) \<Rightarrow>
               (outcome, [CallDatastoreGetByName storeName, CallResourceGetAll storeName] @ events))
      | Inr resourceSpecs \<Rightarrow>
     (case adaptResourceSpecs (ToResourceProto env) resourceSpecs of
        (Inl err, adaptEvents) \<Rightarrow>
          (Some (Returned (Some err)),
           [CallDatastoreGetByName storeName, CallResourceGetAll storeName] @ adaptEvents)
      | (Inr adaptedSpecs, adaptEvents) \<Rightarrow>
     (case DeployResourceSpecification env adaptedSpecs projectName storeName of
        Inl err \<Rightarrow>
          (Some (Returned (Some (Wrap err ''deployement failed''))),
           [CallDatastoreGetByName storeName, CallResourceGetAll storeName] @ adaptEvents
             @ [CallDeployResourceSpecification storeName (length adaptedSpecs)]
             @ (if isDeadlineExceeded err then [Log ''deployment process took too long, timing out'']
                else []))
      | Inr (responses, end) \<Rightarrow>
     (case recvResourceAcks (length adaptedSpecs) 0 responses end of
        (Some err, counter, recvEvents) \<Rightarrow>
          (Some (Returned (Some err)),
           [CallDatastoreGetByName storeName, CallResourceGetAll storeName] @ adaptEvents
             @ [CallDeployResourceSpecification storeName (length adaptedSpecs)] @ recvEvents)
      | (None, counter, recvEvents) \<Rightarrow>
          (None,
           [CallDatastoreGetByName storeName, CallResourceGetAll storeName] @ adaptEvents
             @ [CallDeployResourceSpecification storeName (length adaptedSpecs)] @ recvEvents))))))"

fun deployDatastores ::
  "('a, 'rp, 'jp) Env \<Rightarrow> string \<Rightarrow> string list \<Rightarrow> Outcome option \<times> Event list" where
  "deployDatastores env projectName [] = (None, [])"
| "deployDatastores env projectName (storeName # stores) =
     (case deployDatastore env projectName storeName of
        (Some outcome, events) \<Rightarrow> (Some outcome, events)
      | (None, events) \<Rightarrow>
          (case deployDatastores env projectName stores of
             (outcome, later) \<Rightarrow> (outcome, events @ later)))"

text \<open>The deployment of the job specifications, from the line \<open>deploying jobs\<close> to
  the line \<open>deployed jobs\<close>: the error the function returns, if any.\<close>

definition deployJobs :: "('a, 'rp, 'jp) Env \<Rightarrow> string \<Rightarrow> error option \<times> Event list" where
  "deployJobs env projectName =
     (case Job_GetAll env of
        Inl err \<Rightarrow> (Some err, [Log ''deploying jobs'', CallJobGetAll])
      | Inr jobSpecs \<Rightarrow>
     (case adaptJobSpecs (ToJobProto env) jobSpecs of
        (Inl err, adaptEvents) \<Rightarrow> (Some err, [Log ''deploying jobs'', CallJobGetAll] @ adaptEvents)
      | (Inr adaptedJobSpecs, adaptEvents) \<Rightarrow>
     (case DeployJobSpecification env adaptedJobSpecs projectName of
        Inl err \<Rightarrow>
          (Some (Wrap err ''deployement failed''),
           [Log ''deploying jobs'', CallJobGetAll] @ adaptEvents
             @ [CallDeployJobSpecification (length adaptedJobSpecs)]
             @ (if isDeadlineExceeded err then [Log ''deployment process took too long, timing out'']
                else []))
      | Inr (responses, end) \<Rightarrow>
     (case recvJobAcks (length jobSpecs) 0 responses end of
        (Some err, counter, recvEvents) \<Rightarrow>
          (Some err,
           [Log ''deploying jobs'', CallJobGetAll] @ adaptEvents
             @ [CallDeployJobSpecification (length adaptedJobSpecs)] @ recvEvents)
      | (None, counter, recvEvents) \<Rightarrow>
          (None,
           [Log ''deploying jobs'', CallJobGetAll] @ adaptEvents
             @ [CallDeployJobSpecification (length adaptedJobSpecs)] @ recvEvents
             @ [Log ''deployed jobs''])))))"

definition postDeploymentRequest ::
  "('a, 'rp, 'jp) Env \<Rightarrow> string \<Rightarrow> bool \<Rightarrow> bool \<Rightarrow> Outcome \<times> Event list" where
  "postDeploymentRequest env projectName ignoreJobDeployment ignoreResources =
     (case createConnection env of
        Some err \<Rightarrow>
          (Returned (Some err),
           Dial # (if isDeadlineExceeded err then [Log ''can't reach optimus service''] else []))
      | None \<Rightarrow>
     (case RegisterProject env projectName of
        Inl err \<Rightarrow>
          (Returned (Some (Wrap err ''failed to update project configurations'')),
           [Dial, CallRegisterProject projectName])
      | Inr registerResponse \<Rightarrow>
          if \<not> Register_Success registerResponse then
            (Returned (Some (ErrorNew (''failed to update project configurations, ''
                                        @ Register_Message registerResponse))),
             [Dial, CallRegisterProject projectName])
          else
     (case (if \<not> ignoreResources then
              (case deployDatastores env projectName (datastoreSpecFs env) of
                 (Some outcome, events) \<Rightarrow> (Some outcome, events)
               | (None, events) \<Rightarrow> (None, events @ [Log ''deployed resources'']))
            else (None, [Log ''skipping resource deployment''])) of
        (Some outcome, resourceEvents) \<Rightarrow>
          (outcome,
           [Dial, CallRegisterProject projectName, Log ''updated project configuration'']
             @ resourceEvents)
      | (None, resourceEvents) \<Rightarrow>
     (case (if \<not> ignoreJobDeployment then deployJobs env projectName
            else (None, [Log ''skipping job deployment''])) of
        (Some err, jobEvents) \<Rightarrow>
          (Returned (Some err),
           [Dial, CallRegisterProject projectName, Log ''updated project configuration'']
             @ resourceEvents @ jobEvents)
      | (None, jobEvents) \<Rightarrow>
          (Returned None,
           [Dial, CallRegisterProject projectName, Log ''updated project configuration'']
             @ resourceEvents @ jobEvents @ [Log ''deployment completed successfully''])))))"

section \<open>Notions used to state the properties\<close>

text \<open>A job that differs from the empty one in its name and its window strings only.\<close>

definition jobWithWindow :: "string \<Rightarrow> string \<Rightarrow> string \<Rightarrow> Job" where
  "jobWithWindow sz off tr =
     \<lparr>Job_Version = 1, Job_Name = ''job'', Job_Owner = ''owner'', Job_Description = [],
      Job_Schedule = \<lparr>Schedule_StartDate = ''2021-01-01'', Schedule_EndDate = [],
                       Schedule_Interval = ''@daily''\<rparr>,
      Job_Behavior = \<lparr>Behavior_DependsOnPast = False, Behavior_Catchup = False\<rparr>,
      Job_Task = \<lparr>Task_Name = ''task'', Task_Config = [],
                   Task_Window = \<lparr>Window_Size = sz, Window_Offset = off,
                                   Window_TruncateTo = tr\<rparr>\<rparr>,
      Job_Asset = Map.empty, Job_Labels = Map.empty, Job_Dependencies = [], Job_Hooks = []\<rparr>"

text \<open>The dependencies of a job as a set of pairs of a job name and a type string.\<close>

definition dependencyPairs :: "JobDependency list \<Rightarrow> (string \<times> string) set" where
  "dependencyPairs deps = (\<lambda>d. (Dependency_JobName d, Dependency_Type d)) ` set deps"

text \<open>The entries of a dependency list that no later entry of the same job name
  overwrites.\<close>

fun lastEntries :: "JobDependency list \<Rightarrow> JobDependency list" where
  "lastEntries [] = []"
| "lastEntries (d # ds) =
     (if Dependency_JobName d \<in> Dependency_JobName ` set ds then lastEntries ds
      else d # lastEntries ds)"

text \<open>A registry hands out, under a name, a plugin of that name.\<close>

definition namesAgree :: "(string \<Rightarrow> error + Plugin) \<Rightarrow> bool" where
  "namesAgree repo = (\<forall>n u. repo n = Inr u \<longrightarrow> Plugin_Name u = n)"

text \<open>The configuration holds string keys and string values only.\<close>

definition stringConfig :: "MapSlice \<Rightarrow> bool" where
  "stringConfig conf = list_all (\<lambda>c. (\<exists>k. fst c = YamlString k) \<and> (\<exists>v. snd c = YamlString v)) conf"

text \<open>An adapter whose registries know one task, \<open>task\<close>, and one hook, \<open>hook\<close>;
  an instance of the missing parts of package \<open>models\<close> that keeps the assets as the map
  they come from; jobs built on \<open>jobWithWindow\<close>.\<close>

definition exampleAdapter :: JobSpecAdapter where
  "exampleAdapter =
     \<lparr>supportedTaskRepo =
        (\<lambda>n. if n = ''task'' then Inr \<lparr>Plugin_Name = ''task''\<rparr> else Inl (ErrorNew (''task not found: '' @ n))),
      supportedHookRepo =
        (\<lambda>n. if n = ''hook'' then Inr \<lparr>Plugin_Name = ''hook''\<rparr> else Inl (ErrorNew (''hook not found: '' @ n)))\<rparr>"

definition exampleModels :: "(string \<rightharpoonup> string) Models" where
  "exampleModels =
     \<lparr>JobAssets_zero = Map.empty, JobAssets_FromMap = (\<lambda>a m. m), JobAssets_ToMap = (\<lambda>a. a),
      Window_SizeString = (\<lambda>w. []), Window_OffsetString = (\<lambda>w. [])\<rparr>"

definition exampleJob :: "JobDependency list \<Rightarrow> JobHook list \<Rightarrow> Job" where
  "exampleJob deps hooks =
     (jobWithWindow ''24h'' ''0'' ''d'')\<lparr>Job_Dependencies := deps, Job_Hooks := hooks\<rparr>"

text \<open>The round trip \<open>FromSpec(ToSpec(m))\<close>; an error of \<open>ToSpec\<close> ends it.\<close>

definition roundTrip :: "'a Models \<Rightarrow> JobSpecAdapter \<Rightarrow> string list \<Rightarrow> Job \<Rightarrow> (Job \<times> error option) outcome" where
  "roundTrip M adapt visited m =
     (case ToSpec M adapt m of
        Panics \<Rightarrow> Panics
      | Returns (spec, Some err) \<Rightarrow> Returns (Job_zero, Some err)
      | Returns (spec, None) \<Rightarrow> FromSpec M visited spec)"

text \<open>The type string is one of the three known ones.\<close>

definition knownType :: "string \<Rightarrow> bool" where
  "knownType t =
     (t = DependencyType_String JobSpecDependencyTypeIntra \<or>
      t = DependencyType_String JobSpecDependencyTypeInter \<or>
      t = DependencyType_String JobSpecDependencyTypeExtra)"

text \<open>The events of the deployment of resources and those of the deployment of jobs.\<close>

fun resourceEvent :: "Event \<Rightarrow> bool" where
  "resourceEvent (CallDatastoreGetByName storeName) = True"
| "resourceEvent (CallResourceGetAll storeName) = True"
| "resourceEvent (CallToResourceProto name) = True"
| "resourceEvent (CallDeployResourceSpecification storeName n) = True"
| "resourceEvent RecvResource = True"
| "resourceEvent e = False"

fun jobEvent :: "Event \<Rightarrow> bool" where
  "jobEvent CallJobGetAll = True"
| "jobEvent (CallToJobProto name) = True"
| "jobEvent (CallDeployJobSpecification n) = True"
| "jobEvent RecvJob = True"
| "jobEvent e = False"









text \<open>A run against a service that answers the registration, the request for the one
  datastore and the request for the one job as given.\<close>

definition exampleEnv ::
  "(error + RegisterProjectResponse) \<Rightarrow> (DeployResourceSpecificationResponse list \<times> StreamEnd)
     \<Rightarrow> (DeployJobSpecificationResponse list \<times> StreamEnd) \<Rightarrow> (string \<rightharpoonup> string, string, string) Env" where
  "exampleEnv registered resourceAcks jobAcks =
     \<lparr>createConnection = None,
      RegisterProject = (\<lambda>projectName. registered),
      datastoreSpecFs = [''bigquery''],
      Datastore_GetByName = (\<lambda>storeName. None),
      Resource_GetAll = (\<lambda>storeName. Inr [\<lparr>ResourceSpec_Name = ''table''\<rparr>]),
      ToResourceProto = (\<lambda>spec. Inr (ResourceSpec_Name spec)),
      DeployResourceSpecification = (\<lambda>resources projectName storeName. Inr resourceAcks),
      Job_GetAll = Inr [(JobSpec_zero exampleModels)\<lparr>JobSpec_Name := ''job''\<rparr>],
      ToJobProto = (\<lambda>spec. Inr (JobSpec_Name spec)),
      DeployJobSpecification = (\<lambda>jobs projectName. Inr jobAcks)\<rparr>"



text \<open>The text made of the given pieces with the given words between them, in turn.\<close>

fun interleave :: "string list \<Rightarrow> string list \<Rightarrow> string" where
  "interleave (g # gs) (w # ws) = g @ w @ interleave gs ws"
| "interleave gs [] = concat gs"
| "interleave [] ws = concat ws"


section \<open>Evaluation and arithmetic facts\<close>

lemmas eval_defs =
  tryParsingInMonths_def monthsOrDuration_def monthExpAt_def Atoi_def ParseUint_def
  ParseDuration_def durationTerm_def isDigit_def digitVal_def unitChar_def unitMap_def
  wrap64_def Let_def TrimSpace_def asciiSpace_def HoursInMonth_def Hour_def Minute_def
  Second_def Millisecond_def Microsecond_def Nanosecond_def decimal_def

lemma Hour_val: "Hour = 3600000000000"
  by (simp add: Hour_def Minute_def Second_def Millisecond_def Microsecond_def Nanosecond_def)

lemma HoursInMonth_val: "HoursInMonth = 2592000000000000"
  by (simp add: HoursInMonth_def Hour_val)

lemma wrap64_id: "- 9223372036854775808 \<le> x \<Longrightarrow> x < 9223372036854775808 \<Longrightarrow> wrap64 x = x"
  by (simp add: wrap64_def)

lemma default_size: "wrap64 (Hour * 24) = 24 * Hour"
  by (simp add: wrap64_def Hour_val)

lemma month_no_overflow:
  assumes "n \<le> 3558"
  shows "wrap64 (HoursInMonth * int n) = int n * (720 * Hour)"
    and "wrap64 (wrap64 (HoursInMonth * int n) * (- 1)) = - (int n * (720 * Hour))"
proof -
  have b: "HoursInMonth * int n \<le> 2592000000000000 * 3558" using assms by (simp add: HoursInMonth_val)
  have c: "0 \<le> HoursInMonth * int n" by (simp add: HoursInMonth_val)
  from b c show 1: "wrap64 (HoursInMonth * int n) = int n * (720 * Hour)"
    by (subst wrap64_id) (simp_all add: HoursInMonth_val Hour_val)
  from b c show "wrap64 (wrap64 (HoursInMonth * int n) * (- 1)) = - (int n * (720 * Hour))"
    unfolding 1 by (subst wrap64_id) (simp_all add: HoursInMonth_val Hour_val)
qed

section \<open>A month token at the start of the input\<close>

lemma isDigit_not_sign: "isDigit c \<Longrightarrow> c \<noteq> CHR ''+'' \<and> c \<noteq> CHR ''-'' \<and> c \<noteq> CHR ''M''"
  by (auto simp: isDigit_def)

lemma takeWhile_digits_M:
  "list_all isDigit ds \<Longrightarrow>
     takeWhile isDigit (ds @ CHR ''M'' # r) = ds \<and> dropWhile isDigit (ds @ CHR ''M'' # r) = CHR ''M'' # r"
  by (induction ds) (auto simp: isDigit_def)

lemma monthExpAt_unfold:
  "monthExpAt s =
     (if takeWhile isDigit (drop (length (if s \<noteq> [] \<and> (hd s = CHR ''+'' \<or> hd s = CHR ''-'') then [hd s] else [])) s) \<noteq> [] \<and>
         (case dropWhile isDigit (drop (length (if s \<noteq> [] \<and> (hd s = CHR ''+'' \<or> hd s = CHR ''-'') then [hd s] else [])) s) of
            [] \<Rightarrow> False | c # cs \<Rightarrow> c = CHR ''M'')
      then Some (if s \<noteq> [] \<and> (hd s = CHR ''+'' \<or> hd s = CHR ''-'') then [hd s] else [],
                 takeWhile isDigit (drop (length (if s \<noteq> [] \<and> (hd s = CHR ''+'' \<or> hd s = CHR ''-'') then [hd s] else [])) s),
                 tl (dropWhile isDigit (drop (length (if s \<noteq> [] \<and> (hd s = CHR ''+'' \<or> hd s = CHR ''-'') then [hd s] else [])) s)))
      else None)"
  unfolding monthExpAt_def Let_def
  by (cases "dropWhile isDigit (drop (length (if s \<noteq> [] \<and> (hd s = CHR ''+'' \<or> hd s = CHR ''-'') then [hd s] else [])) s)")
     (simp_all del: dropWhile_eq_Nil_conv)

lemma monthExpAt_token:
  assumes "sg = [] \<or> sg = ''+'' \<or> sg = ''-''" "ds \<noteq> []" "list_all isDigit ds"
  shows "monthExpAt (sg @ ds @ CHR ''M'' # r) = Some (sg, ds, r)"
proof -
  obtain d ds' where ds: "ds = d # ds'" using assms(2) by (cases ds) auto
  with assms(3) have d: "isDigit d" by simp
  note tw = takeWhile_digits_M [OF assms(3), of r]
  from assms(1) show ?thesis
  proof (elim disjE)
    assume sg: "sg = []"
    have h: "hd (sg @ ds @ CHR ''M'' # r) = d" by (simp add: sg ds)
    show ?thesis
      unfolding monthExpAt_unfold h using isDigit_not_sign [OF d] tw assms(2)
      by (simp add: sg)
  next
    assume sg: "sg = ''+''"
    show ?thesis
      unfolding monthExpAt_unfold using tw assms(2) by (simp add: sg)
  next
    assume sg: "sg = ''-''"
    show ?thesis
      unfolding monthExpAt_unfold using tw assms(2) by (simp add: sg)
  qed
qed

lemma token_nonempty: "ds \<noteq> [] \<Longrightarrow> \<exists>c cs. sg @ ds @ CHR ''M'' # r = c # cs"
  by (cases sg; cases ds) auto

lemma FindAll_token:
  assumes "sg = [] \<or> sg = ''+'' \<or> sg = ''-''" "ds \<noteq> []" "list_all isDigit ds"
  shows "monthExp_FindAllStringSubmatch (sg @ ds @ CHR ''M'' # r) =
           [sg @ ds @ ''M'', sg, ds, ''M''] # monthExp_FindAllStringSubmatch r"
proof -
  obtain c cs where e: "sg @ ds @ CHR ''M'' # r = c # cs" using token_nonempty [OF assms(2)] by blast
  have "monthExpAt (c # cs) = Some (sg, ds, r)" using monthExpAt_token [OF assms, of r] e by simp
  then show ?thesis unfolding e by simp
qed

lemma ReplaceAll_token:
  assumes "sg = [] \<or> sg = ''+'' \<or> sg = ''-''" "ds \<noteq> []" "list_all isDigit ds"
  shows "monthExp_ReplaceAllString (sg @ ds @ CHR ''M'' # r) repl = repl @ monthExp_ReplaceAllString r repl"
proof -
  obtain c cs where e: "sg @ ds @ CHR ''M'' # r = c # cs" using token_nonempty [OF assms(2)] by blast
  have "monthExpAt (c # cs) = Some (sg, ds, r)" using monthExpAt_token [OF assms, of r] e by simp
  then show ?thesis unfolding e by simp
qed

lemma fold_decimal_ge: "n \<le> fold (\<lambda>c n. n * 10 + digitVal c) ds n"
proof (induction ds arbitrary: n)
  case Nil
  then show ?case by simp
next
  case (Cons c cs)
  have "n \<le> n * 10 + digitVal c" by simp
  also have "\<dots> \<le> fold (\<lambda>c n. n * 10 + digitVal c) cs (n * 10 + digitVal c)" by (rule Cons.IH)
  finally show ?case by simp
qed

lemma parseUintLoop_digits:
  "list_all isDigit ds \<Longrightarrow> fold (\<lambda>c n. n * 10 + digitVal c) ds n < 18446744073709551616 \<Longrightarrow>
   parseUintLoop s0 n ds = (fold (\<lambda>c n. n * 10 + digitVal c) ds n, None)"
proof (induction ds arbitrary: n)
  case Nil
  then show ?case by simp
next
  case (Cons c cs)
  have "n * 10 + digitVal c \<le> fold (\<lambda>c n. n * 10 + digitVal c) cs (n * 10 + digitVal c)"
    by (rule fold_decimal_ge)
  with Cons.prems(2) have b: "n * 10 + digitVal c < 18446744073709551616" by simp
  then have "n < 1844674407370955162" by linarith
  with b Cons show ?case by (simp add: Let_def)
qed

lemma Atoi_digits:
  assumes "ds \<noteq> []" "list_all isDigit ds" "decimal ds < 9223372036854775808"
  shows "Atoi ds = (int (decimal ds), None)"
proof -
  obtain d ds' where ds: "ds = d # ds'" using assms(1) by (cases ds) auto
  with assms(2) have d: "isDigit d" by simp
  have "parseUintLoop ds 0 ds = (decimal ds, None)"
    using parseUintLoop_digits [OF assms(2), of 0 ds] assms(3) by (simp add: decimal_def)
  then show ?thesis using assms(1,3) isDigit_not_sign [OF d]
    by (simp add: Atoi_def ParseUint_def Let_def ds)
qed

lemma TrimSpace_Nil: "TrimSpace [] = []"
  by (simp add: TrimSpace_def)

lemma tryParsingInMonths_token:
  assumes "sg = [] \<or> sg = ''+'' \<or> sg = ''-''" "ds \<noteq> []" "list_all isDigit ds"
    "decimal ds < 9223372036854775808"
  shows "tryParsingInMonths (sg @ ds @ ''M'') =
           (if sg = ''-'' then wrap64 (wrap64 (HoursInMonth * int (decimal ds)) * (- 1))
            else wrap64 (HoursInMonth * int (decimal ds)), None)"
  using FindAll_token [OF assms(1-3), of "[]"] ReplaceAll_token [OF assms(1-3), of "[]" "[]"]
    Atoi_digits [OF assms(2-4)]
  by (simp add: tryParsingInMonths_def Let_def TrimSpace_Nil)

lemma tryParsingInMonths_two_tokens:
  assumes "a \<noteq> []" "list_all isDigit a" "decimal a < 9223372036854775808"
    "b \<noteq> []" "list_all isDigit b"
  shows "tryParsingInMonths (a @ ''M'' @ b @ ''M'') = (wrap64 (HoursInMonth * int (decimal a)), None)"
proof -
  have f: "monthExp_FindAllStringSubmatch (a @ ''M'' @ b @ ''M'') =
             [[a @ ''M'', [], a, ''M''], [b @ ''M'', [], b, ''M'']]"
    using FindAll_token [of "[]" a "b @ ''M''"] FindAll_token [of "[]" b "[]"] assms by simp
  have r: "monthExp_ReplaceAllString (a @ ''M'' @ b @ ''M'') [] = []"
    using ReplaceAll_token [of "[]" a "b @ ''M''" "[]"] ReplaceAll_token [of "[]" b "[]" "[]"] assms by simp
  show ?thesis using f r Atoi_digits [OF assms(1-3)]
    by (simp add: tryParsingInMonths_def Let_def TrimSpace_Nil)
qed

lemma tryParsingInMonths_rate:
  assumes "sg = [] \<or> sg = ''+'' \<or> sg = ''-''" "ds \<noteq> []" "list_all isDigit ds" "decimal ds \<le> 3558"
  shows "tryParsingInMonths (sg @ ds @ ''M'') =
           ((if sg = ''-'' then - 1 else 1) * (int (decimal ds) * (720 * Hour)), None)"
proof -
  have "decimal ds < 9223372036854775808" using assms(4) by simp
  from tryParsingInMonths_token [OF assms(1-3) this] month_no_overflow [OF assms(4)]
  show ?thesis by simp
qed

lemma monthExpAt_groups:
  assumes "monthExpAt s = Some (g1, g2, rest)"
  shows "(g1 = [] \<or> g1 = ''+'' \<or> g1 = ''-'') \<and> g2 \<noteq> [] \<and> list_all isDigit g2 \<and>
         s = g1 @ g2 @ CHR ''M'' # rest"
proof -
  define sg where "sg = (if s \<noteq> [] \<and> (hd s = CHR ''+'' \<or> hd s = CHR ''-'') then [hd s] else [])"
  define s1 where "s1 = drop (length sg) s"
  define ds where "ds = takeWhile isDigit s1"
  define s2 where "s2 = dropWhile isDigit s1"
  have eq: "monthExpAt s = (if ds \<noteq> [] \<and> s2 \<noteq> [] \<and> hd s2 = CHR ''M'' then Some (sg, ds, tl s2) else None)"
    unfolding monthExpAt_def Let_def sg_def s1_def ds_def s2_def by (rule refl)
  from assms have c: "ds \<noteq> []" "s2 \<noteq> []" "hd s2 = CHR ''M''" and g: "g1 = sg" "g2 = ds" "rest = tl s2"
    unfolding eq by (simp_all split: if_splits)
  have sg: "sg = [] \<or> sg = ''+'' \<or> sg = ''-''" unfolding sg_def by auto
  have tk: "take (length sg) s = sg" unfolding sg_def by (cases s) auto
  have "s = take (length sg) s @ s1" unfolding s1_def by simp
  also have "s1 = ds @ s2" unfolding ds_def s2_def by simp
  also have "s2 = CHR ''M'' # tl s2" using c(2,3) by (cases s2) auto
  finally have s: "s = sg @ ds @ CHR ''M'' # tl s2" unfolding tk .
  have d: "list_all isDigit ds" unfolding ds_def list_all_iff by (auto dest: set_takeWhileD)
  show ?thesis using sg c(1) d s unfolding g by blast
qed

lemma FindAll_first:
  assumes "monthExp_FindAllStringSubmatch str = [w, sg, ds, m] # others"
  shows "(sg = [] \<or> sg = ''+'' \<or> sg = ''-'') \<and> ds \<noteq> [] \<and> list_all isDigit ds \<and>
         w = sg @ ds @ ''M'' \<and> m = ''M''"
  using assms
proof (induction str rule: monthExp_FindAllStringSubmatch.induct)
  case 1
  then show ?case by simp
next
  case (2 c cs)
  show ?case
  proof (cases "monthExpAt (c # cs)")
    case None
    with 2 show ?thesis by simp
  next
    case (Some t)
    obtain g1 g2 rest where t: "t = (g1, g2, rest)" by (cases t) auto
    from "2.prems" Some t have "g1 = sg" "g2 = ds" "w = g1 @ g2 @ ''M''" "m = ''M''" by auto
    with monthExpAt_groups [OF Some [unfolded t]] show ?thesis by simp
  qed
qed

lemma tryParsingInMonths_first:
  assumes "monthExp_FindAllStringSubmatch str = [w, sg, ds, m] # others"
  shows "tryParsingInMonths str =
     (case Atoi ds of
        (monthsCount, Some err) \<Rightarrow> (0, Some (Wrap err (''failed to parse task configuration of '' @ str)))
      | (monthsCount, None) \<Rightarrow>
          (if TrimSpace (monthExp_ReplaceAllString str []) = []
           then (if sg = ''-'' then wrap64 (wrap64 (HoursInMonth * monthsCount) * (- 1))
                 else wrap64 (HoursInMonth * monthsCount), None)
           else (case ParseDuration (TrimSpace (monthExp_ReplaceAllString str [])) of
                   (remainingTime, Some err) \<Rightarrow>
                     (if sg = ''-'' then wrap64 (wrap64 (HoursInMonth * monthsCount) * (- 1))
                      else wrap64 (HoursInMonth * monthsCount),
                      Some (Wrap err (''failed to parse task configuration of ''
                                      @ TrimSpace (monthExp_ReplaceAllString str []))))
                 | (remainingTime, None) \<Rightarrow>
                     (wrap64 ((if sg = ''-'' then wrap64 (wrap64 (HoursInMonth * monthsCount) * (- 1))
                               else wrap64 (HoursInMonth * monthsCount)) + remainingTime), None))))"
  unfolding tryParsingInMonths_def Let_def assms
  by (simp split: prod.splits option.splits)


lemma tryParsingInMonths_first_rate:
  assumes "monthExp_FindAllStringSubmatch str = [w, sg, ds, m] # others" and "decimal ds \<le> 3558"
  shows "tryParsingInMonths str =
     (if TrimSpace (monthExp_ReplaceAllString str []) = []
      then ((if sg = ''-'' then - 1 else 1) * (int (decimal ds) * (720 * Hour)), None)
      else (case ParseDuration (TrimSpace (monthExp_ReplaceAllString str [])) of
              (remainingTime, Some err) \<Rightarrow>
                ((if sg = ''-'' then - 1 else 1) * (int (decimal ds) * (720 * Hour)),
                 Some (Wrap err (''failed to parse task configuration of ''
                                 @ TrimSpace (monthExp_ReplaceAllString str []))))
            | (remainingTime, None) \<Rightarrow>
                (wrap64 ((if sg = ''-'' then - 1 else 1) * (int (decimal ds) * (720 * Hour))
                         + remainingTime), None)))"
proof -
  note f = FindAll_first [OF assms(1)]
  have "decimal ds < 9223372036854775808" using assms(2) by simp
  with f have a: "Atoi ds = (int (decimal ds), None)" by (simp add: Atoi_digits)
  have s: "(if sg = ''-'' then wrap64 (wrap64 (HoursInMonth * int (decimal ds)) * (- 1))
            else wrap64 (HoursInMonth * int (decimal ds))) =
           (if sg = ''-'' then - 1 else 1) * (int (decimal ds) * (720 * Hour))"
    using month_no_overflow [OF assms(2)] by simp
  show ?thesis
    unfolding tryParsingInMonths_first [OF assms(1)] a prod.case option.case s by (rule refl)
qed

lemma tryParsingInMonths_leading_rate:
  assumes "sg = [] \<or> sg = ''+'' \<or> sg = ''-''" "ds \<noteq> []" "list_all isDigit ds" "decimal ds \<le> 3558"
  shows "tryParsingInMonths (sg @ ds @ ''M'' @ rest) =
     (if TrimSpace (monthExp_ReplaceAllString rest []) = []
      then ((if sg = ''-'' then - 1 else 1) * (int (decimal ds) * (720 * Hour)), None)
      else (case ParseDuration (TrimSpace (monthExp_ReplaceAllString rest [])) of
              (remainingTime, Some err) \<Rightarrow>
                ((if sg = ''-'' then - 1 else 1) * (int (decimal ds) * (720 * Hour)),
                 Some (Wrap err (''failed to parse task configuration of ''
                                 @ TrimSpace (monthExp_ReplaceAllString rest []))))
            | (remainingTime, None) \<Rightarrow>
                (wrap64 ((if sg = ''-'' then - 1 else 1) * (int (decimal ds) * (720 * Hour))
                         + remainingTime), None)))"
proof -
  have f: "monthExp_FindAllStringSubmatch (sg @ ds @ ''M'' @ rest) =
             [sg @ ds @ ''M'', sg, ds, ''M''] # monthExp_FindAllStringSubmatch rest"
    using FindAll_token [OF assms(1-3), of rest] by simp
  have r: "monthExp_ReplaceAllString (sg @ ds @ ''M'' @ rest) [] = monthExp_ReplaceAllString rest []"
    using ReplaceAll_token [OF assms(1-3), of rest "[]"] by simp
  show ?thesis unfolding tryParsingInMonths_first_rate [OF f assms(4)] r by (rule refl)
qed

lemma interleave_gap: "interleave ((c # g) # gs) ws = c # interleave (g # gs) ws"
  by (cases ws) simp_all

lemma ReplaceAll_strips:
  "\<exists>gaps. length gaps = length (monthExp_FindAllStringSubmatch str) + 1 \<and>
          str = interleave gaps (map hd (monthExp_FindAllStringSubmatch str)) \<and>
          monthExp_ReplaceAllString str [] = concat gaps"
proof (induction str rule: monthExp_FindAllStringSubmatch.induct)
  case 1
  have "length [[]::string] = length (monthExp_FindAllStringSubmatch []) + 1 \<and>
        [] = interleave [[]] (map hd (monthExp_FindAllStringSubmatch [])) \<and>
        monthExp_ReplaceAllString [] [] = concat [[]::string]" by simp
  then show ?case by (rule exI)
next
  case (2 c cs)
  show ?case
  proof (cases "monthExpAt (c # cs)")
    case None
    from "2.IH"(1) [OF None] obtain gaps where
      g: "length gaps = length (monthExp_FindAllStringSubmatch cs) + 1"
        "cs = interleave gaps (map hd (monthExp_FindAllStringSubmatch cs))"
        "monthExp_ReplaceAllString cs [] = concat gaps"
      by (elim exE conjE) (rule that, assumption+)
    from g(1) obtain g0 gs where gs: "gaps = g0 # gs" by (cases gaps) auto
    have "length ((c # g0) # gs) = length (monthExp_FindAllStringSubmatch (c # cs)) + 1 \<and>
          c # cs = interleave ((c # g0) # gs) (map hd (monthExp_FindAllStringSubmatch (c # cs))) \<and>
          monthExp_ReplaceAllString (c # cs) [] = concat ((c # g0) # gs)"
      using g None unfolding gs interleave_gap by simp
    then show ?thesis by (rule exI)
  next
    case (Some t)
    obtain g1 g2 rest where t: "t = (g1, g2, rest)" by (cases t) auto
    note m = Some [unfolded t]
    from "2.IH"(2) [OF Some t [symmetric] refl] obtain gaps where
      g: "length gaps = length (monthExp_FindAllStringSubmatch rest) + 1"
        "rest = interleave gaps (map hd (monthExp_FindAllStringSubmatch rest))"
        "monthExp_ReplaceAllString rest [] = concat gaps"
      by (elim exE conjE) (rule that, assumption+)
    have s: "c # cs = g1 @ g2 @ ''M'' @ rest" using monthExpAt_groups [OF m] by simp
    have F: "monthExp_FindAllStringSubmatch (c # cs) =
               [g1 @ g2 @ ''M'', g1, g2, ''M''] # monthExp_FindAllStringSubmatch rest"
      using m by simp
    have R: "monthExp_ReplaceAllString (c # cs) [] = monthExp_ReplaceAllString rest []"
      using m by simp
    have I: "interleave ([] # gaps) (map hd (monthExp_FindAllStringSubmatch (c # cs))) =
               g1 @ g2 @ ''M'' @ interleave gaps (map hd (monthExp_FindAllStringSubmatch rest))"
      unfolding F by simp
    have "length ([] # gaps) = length (monthExp_FindAllStringSubmatch (c # cs)) + 1 \<and>
          c # cs = interleave ([] # gaps) (map hd (monthExp_FindAllStringSubmatch (c # cs))) \<and>
          monthExp_ReplaceAllString (c # cs) [] = concat ([] # gaps)"
      unfolding I R g(2) [symmetric] using g(1,3) s F by simp
    then show ?thesis by (rule exI)
  qed
qed

lemma second_token_dropped:
  assumes "sg = [] \<or> sg = ''+'' \<or> sg = ''-''" "ds \<noteq> []" "list_all isDigit ds"
    "decimal ds < 9223372036854775808"
    "sg' = [] \<or> sg' = ''+'' \<or> sg' = ''-''" "ds' \<noteq> []" "list_all isDigit ds'"
  shows "tryParsingInMonths (sg @ ds @ ''M'' @ sg' @ ds' @ ''M'' @ rest) =
         tryParsingInMonths (sg @ ds @ ''M'' @ rest)"
proof -
  have a: "Atoi ds = (int (decimal ds), None)" using assms(2-4) by (rule Atoi_digits)
  have f1: "monthExp_FindAllStringSubmatch (sg @ ds @ ''M'' @ sg' @ ds' @ ''M'' @ rest) =
             [sg @ ds @ ''M'', sg, ds, ''M''] # monthExp_FindAllStringSubmatch (sg' @ ds' @ ''M'' @ rest)"
    using FindAll_token [OF assms(1-3), of "sg' @ ds' @ ''M'' @ rest"] by simp
  have f2: "monthExp_FindAllStringSubmatch (sg @ ds @ ''M'' @ rest) =
             [sg @ ds @ ''M'', sg, ds, ''M''] # monthExp_FindAllStringSubmatch rest"
    using FindAll_token [OF assms(1-3), of rest] by simp
  have r1: "monthExp_ReplaceAllString (sg @ ds @ ''M'' @ sg' @ ds' @ ''M'' @ rest) [] =
            monthExp_ReplaceAllString rest []"
    using ReplaceAll_token [OF assms(1-3), of "sg' @ ds' @ ''M'' @ rest" "[]"]
      ReplaceAll_token [OF assms(5-7), of rest "[]"] by simp
  have r2: "monthExp_ReplaceAllString (sg @ ds @ ''M'' @ rest) [] = monthExp_ReplaceAllString rest []"
    using ReplaceAll_token [OF assms(1-3), of rest "[]"] by simp
  show ?thesis
    unfolding tryParsingInMonths_first [OF f1] tryParsingInMonths_first [OF f2] a r1 r2
    by simp
qed

section \<open>The duration grammar on the specification's examples\<close>

lemma vector_2M: "monthsOrDuration ''2M'' = (1440 * Hour, None)"
  by (simp add: eval_defs)

lemma vector_minus_1M: "monthsOrDuration ''-1M'' = (- 720 * Hour, None)"
  by (simp add: eval_defs)

lemma vector_1M12h: "monthsOrDuration ''1M12h'' = (732 * Hour, None)"
  by (simp add: eval_defs)

lemma vector_24h_months: "tryParsingInMonths ''24h'' = (0, Some ErrNotAMonthDuration)"
  by (simp add: eval_defs)

lemma vector_24h: "monthsOrDuration ''24h'' = (24 * Hour, None)"
  by (simp add: eval_defs)

lemma vector_empty: "monthsOrDuration [] = (0, Some (TimeInvalidDuration []))"
  by (simp add: eval_defs)

lemma vector_garbage_months:
  "tryParsingInMonths ''2M garbage'' =
     (1440 * Hour, Some (Wrap (TimeInvalidDuration ''garbage'') ''failed to parse task configuration of garbage''))"
  by (simp add: eval_defs)

lemma vector_garbage:
  "monthsOrDuration ''2M garbage'' = (0, Some (TimeUnknownUnit ''M garbage'' ''2M garbage''))"
  by (simp add: eval_defs)

lemma matches_minus_1M12h:
  "monthExp_FindAllStringSubmatch ''-1M12h'' = [[''-1M'', ''-'', ''1'', ''M'']]"
  by (simp add: eval_defs)

lemma vector_3559M: "tryParsingInMonths ''3559M'' = (- 9221816073709551616, None)"
  by (simp add: eval_defs)

lemma vector_3559M_fallback: "monthsOrDuration ''3559M'' = (- 9221816073709551616, None)"
  by (simp add: eval_defs)

text \<open>
  Claim C1, as the code has it. The two-step duration parse of the adapter
  (\<open>tryParsingInMonths\<close>, then \<open>time.ParseDuration\<close> when the former returns an error)
  gives 1440 hours for "2M", minus 720 hours for "-1M", 732 hours for "1M12h" and 24 hours
  for "24h", the latter through the fallback since the month grammar answers
  \<open>ErrNotAMonthDuration\<close>; on the empty string and on "2M garbage" both steps fail and an
  error is what remains. A month count of at most 3558 is converted at 720 hours a month,
  negated under a minus sign: in a string that is one month token, in a string that begins
  with one, and in any string whose first match of the month expression has that count.
  There the result is that span when nothing but white space is left once the month tokens
  are removed, the span plus the duration of what is left (in 64-bit arithmetic) when that
  parses, and an error beside the span when it does not. The product
  \<open>HoursInMonth * time.Duration(monthsCount)\<close> is not checked: from 3559 months on it
  leaves the 64-bit range, which is what the second statement below shows.
\<close>

theorem duration_grammar_vectors:
  "monthsOrDuration ''2M'' = (1440 * Hour, None) \<and>
   monthsOrDuration ''-1M'' = (- 720 * Hour, None) \<and>
   monthsOrDuration ''1M12h'' = (732 * Hour, None) \<and>
   tryParsingInMonths ''24h'' = (0, Some ErrNotAMonthDuration) \<and>
   monthsOrDuration ''24h'' = (24 * Hour, None) \<and>
   monthsOrDuration [] = (0, Some (TimeInvalidDuration [])) \<and>
   tryParsingInMonths ''2M garbage'' =
     (1440 * Hour, Some (Wrap (TimeInvalidDuration ''garbage'') ''failed to parse task configuration of garbage'')) \<and>
   monthsOrDuration ''2M garbage'' = (0, Some (TimeUnknownUnit ''M garbage'' ''2M garbage'')) \<and>
   (\<forall>sg ds. (sg = [] \<or> sg = ''+'' \<or> sg = ''-'') \<and> ds \<noteq> [] \<and> list_all isDigit ds \<and> decimal ds \<le> 3558 \<longrightarrow>
      tryParsingInMonths (sg @ ds @ ''M'') =
        ((if sg = ''-'' then - 1 else 1) * (int (decimal ds) * (720 * Hour)), None)) \<and>
   (\<forall>sg ds rest. (sg = [] \<or> sg = ''+'' \<or> sg = ''-'') \<and> ds \<noteq> [] \<and> list_all isDigit ds \<and> decimal ds \<le> 3558 \<longrightarrow>
      tryParsingInMonths (sg @ ds @ ''M'' @ rest) =
        (if TrimSpace (monthExp_ReplaceAllString rest []) = []
         then ((if sg = ''-'' then - 1 else 1) * (int (decimal ds) * (720 * Hour)), None)
         else (case ParseDuration (TrimSpace (monthExp_ReplaceAllString rest [])) of
                 (remainingTime, Some err) \<Rightarrow>
                   ((if sg = ''-'' then - 1 else 1) * (int (decimal ds) * (720 * Hour)),
                    Some (Wrap err (''failed to parse task configuration of ''
                                    @ TrimSpace (monthExp_ReplaceAllString rest []))))
               | (remainingTime, None) \<Rightarrow>
                   (wrap64 ((if sg = ''-'' then - 1 else 1) * (int (decimal ds) * (720 * Hour))
                            + remainingTime), None)))) \<and>
   (\<forall>str w sg ds m others.
      monthExp_FindAllStringSubmatch str = [w, sg, ds, m] # others \<and> decimal ds \<le> 3558 \<longrightarrow>
      tryParsingInMonths str =
        (if TrimSpace (monthExp_ReplaceAllString str []) = []
         then ((if sg = ''-'' then - 1 else 1) * (int (decimal ds) * (720 * Hour)), None)
         else (case ParseDuration (TrimSpace (monthExp_ReplaceAllString str [])) of
                 (remainingTime, Some err) \<Rightarrow>
                   ((if sg = ''-'' then - 1 else 1) * (int (decimal ds) * (720 * Hour)),
                    Some (Wrap err (''failed to parse task configuration of ''
                                    @ TrimSpace (monthExp_ReplaceAllString str []))))
               | (remainingTime, None) \<Rightarrow>
                   (wrap64 ((if sg = ''-'' then - 1 else 1) * (int (decimal ds) * (720 * Hour))
                            + remainingTime), None))))"
proof (intro conjI allI impI)
  fix sg ds
  assume "(sg = [] \<or> sg = ''+'' \<or> sg = ''-'') \<and> ds \<noteq> [] \<and> list_all isDigit ds \<and> decimal ds \<le> 3558"
  then show "tryParsingInMonths (sg @ ds @ ''M'') =
        ((if sg = ''-'' then - 1 else 1) * (int (decimal ds) * (720 * Hour)), None)"
    by (elim conjE) (rule tryParsingInMonths_rate)
next
  fix sg ds rest
  assume "(sg = [] \<or> sg = ''+'' \<or> sg = ''-'') \<and> ds \<noteq> [] \<and> list_all isDigit ds \<and> decimal ds \<le> 3558"
  then show "tryParsingInMonths (sg @ ds @ ''M'' @ rest) =
        (if TrimSpace (monthExp_ReplaceAllString rest []) = []
         then ((if sg = ''-'' then - 1 else 1) * (int (decimal ds) * (720 * Hour)), None)
         else (case ParseDuration (TrimSpace (monthExp_ReplaceAllString rest [])) of
                 (remainingTime, Some err) \<Rightarrow>
                   ((if sg = ''-'' then - 1 else 1) * (int (decimal ds) * (720 * Hour)),
                    Some (Wrap err (''failed to parse task configuration of ''
                                    @ TrimSpace (monthExp_ReplaceAllString rest []))))
               | (remainingTime, None) \<Rightarrow>
                   (wrap64 ((if sg = ''-'' then - 1 else 1) * (int (decimal ds) * (720 * Hour))
                            + remainingTime), None)))"
    by (elim conjE) (rule tryParsingInMonths_leading_rate)
next
  fix str :: string and w sg ds m others
  assume "monthExp_FindAllStringSubmatch str = [w, sg, ds, m] # others \<and> decimal ds \<le> 3558"
  then show "tryParsingInMonths str =
        (if TrimSpace (monthExp_ReplaceAllString str []) = []
         then ((if sg = ''-'' then - 1 else 1) * (int (decimal ds) * (720 * Hour)), None)
         else (case ParseDuration (TrimSpace (monthExp_ReplaceAllString str [])) of
                 (remainingTime, Some err) \<Rightarrow>
                   ((if sg = ''-'' then - 1 else 1) * (int (decimal ds) * (720 * Hour)),
                    Some (Wrap err (''failed to parse task configuration of ''
                                    @ TrimSpace (monthExp_ReplaceAllString str []))))
               | (remainingTime, None) \<Rightarrow>
                   (wrap64 ((if sg = ''-'' then - 1 else 1) * (int (decimal ds) * (720 * Hour))
                            + remainingTime), None)))"
    by (elim conjE) (rule tryParsingInMonths_first_rate)
qed (rule vector_2M vector_minus_1M vector_1M12h vector_24h_months vector_24h vector_empty
       vector_garbage_months vector_garbage)+

theorem duration_grammar_vectors_witness:
  "list_all isDigit ''3'' \<and> decimal ''3'' \<le> 3558 \<and>
   tryParsingInMonths (''-'' @ ''3'' @ ''M'') = (- 1 * (int (decimal ''3'') * (720 * Hour)), None) \<and>
   list_all isDigit ''1'' \<and> decimal ''1'' \<le> 3558 \<and>
   tryParsingInMonths ([] @ ''1'' @ ''M'' @ ''12h'') = (732 * Hour, None) \<and>
   monthExp_FindAllStringSubmatch ''-1M12h'' = [[''-1M'', ''-'', ''1'', ''M'']] \<and>
   tryParsingInMonths ''-1M12h'' = (- 708 * Hour, None)"
proof -
  have h: "(''-'' = [] \<or> ''-'' = ''+'' \<or> ''-'' = ''-'') \<and> ''3'' \<noteq> [] \<and> list_all isDigit ''3'' \<and> decimal ''3'' \<le> 3558"
    by (simp add: isDigit_def decimal_def digitVal_def)
  have "\<forall>sg ds. (sg = [] \<or> sg = ''+'' \<or> sg = ''-'') \<and> ds \<noteq> [] \<and> list_all isDigit ds \<and> decimal ds \<le> 3558 \<longrightarrow>
      tryParsingInMonths (sg @ ds @ ''M'') =
        ((if sg = ''-'' then - 1 else 1) * (int (decimal ds) * (720 * Hour)), None)"
    using duration_grammar_vectors by (elim conjE)
  then have "tryParsingInMonths (''-'' @ ''3'' @ ''M'') =
        ((if ''-'' = ''-'' then - 1 else 1) * (int (decimal ''3'') * (720 * Hour)), None)"
    using h by blast
  with h have 1: "list_all isDigit ''3'' \<and> decimal ''3'' \<le> 3558 \<and>
     tryParsingInMonths (''-'' @ ''3'' @ ''M'') = (- 1 * (int (decimal ''3'') * (720 * Hour)), None)"
    by simp
  have k: "(([]::string) = [] \<or> [] = ''+'' \<or> [] = ''-'') \<and> ''1'' \<noteq> [] \<and> list_all isDigit ''1'' \<and> decimal ''1'' \<le> 3558"
    by (simp add: isDigit_def decimal_def digitVal_def)
  have "\<forall>sg ds rest. (sg = [] \<or> sg = ''+'' \<or> sg = ''-'') \<and> ds \<noteq> [] \<and> list_all isDigit ds \<and> decimal ds \<le> 3558 \<longrightarrow>
      tryParsingInMonths (sg @ ds @ ''M'' @ rest) =
        (if TrimSpace (monthExp_ReplaceAllString rest []) = []
         then ((if sg = ''-'' then - 1 else 1) * (int (decimal ds) * (720 * Hour)), None)
         else (case ParseDuration (TrimSpace (monthExp_ReplaceAllString rest [])) of
                 (remainingTime, Some err) \<Rightarrow>
                   ((if sg = ''-'' then - 1 else 1) * (int (decimal ds) * (720 * Hour)),
                    Some (Wrap err (''failed to parse task configuration of ''
                                    @ TrimSpace (monthExp_ReplaceAllString rest []))))
               | (remainingTime, None) \<Rightarrow>
                   (wrap64 ((if sg = ''-'' then - 1 else 1) * (int (decimal ds) * (720 * Hour))
                            + remainingTime), None)))"
    using duration_grammar_vectors by (elim conjE)
  from this [rule_format, OF k]
  have 2: "tryParsingInMonths ([] @ ''1'' @ ''M'' @ ''12h'') = (732 * Hour, None)"
    by (simp add: eval_defs)
  have l: "monthExp_FindAllStringSubmatch ''-1M12h'' = [[''-1M'', ''-'', ''1'', ''M'']] \<and> decimal ''1'' \<le> 3558"
    using matches_minus_1M12h by (simp add: decimal_def digitVal_def)
  have "\<forall>str w sg ds m others.
      monthExp_FindAllStringSubmatch str = [w, sg, ds, m] # others \<and> decimal ds \<le> 3558 \<longrightarrow>
      tryParsingInMonths str =
        (if TrimSpace (monthExp_ReplaceAllString str []) = []
         then ((if sg = ''-'' then - 1 else 1) * (int (decimal ds) * (720 * Hour)), None)
         else (case ParseDuration (TrimSpace (monthExp_ReplaceAllString str [])) of
                 (remainingTime, Some err) \<Rightarrow>
                   ((if sg = ''-'' then - 1 else 1) * (int (decimal ds) * (720 * Hour)),
                    Some (Wrap err (''failed to parse task configuration of ''
                                    @ TrimSpace (monthExp_ReplaceAllString str []))))
               | (remainingTime, None) \<Rightarrow>
                   (wrap64 ((if sg = ''-'' then - 1 else 1) * (int (decimal ds) * (720 * Hour))
                            + remainingTime), None)))"
    using duration_grammar_vectors by (elim conjE)
  from this [rule_format, OF l]
  have 3: "tryParsingInMonths ''-1M12h'' = (- 708 * Hour, None)"
    by (simp add: eval_defs)
  from 1 k 2 l 3 show ?thesis by simp
qed

text \<open>
  The claim as stated, without a bound on the count, fails: on "3559M" the product wraps
  around and the month grammar returns a negative span of 9221816073709551616 nanoseconds
  with no error, which is not 3559 times 720 hours, and \<open>prepareWindow\<close> takes it as the
  size of the window.
\<close>

theorem month_count_3559_wraps:
  "tryParsingInMonths ''3559M'' = (- 9221816073709551616, None) \<and>
   monthsOrDuration ''3559M'' = (- 9221816073709551616, None) \<and>
   (- 9221816073709551616 :: int) \<noteq> 3559 * (720 * Hour) \<and>
   prepareWindow (jobWithWindow ''3559M'' [] []) =
     (\<lparr>SpecWindow_Size = - 9221816073709551616, SpecWindow_Offset = 0,
       SpecWindow_TruncateTo = ''d''\<rparr>, None)"
  using vector_3559M vector_3559M_fallback
  by (simp add: prepareWindow_def jobWithWindow_def Let_def Hour_val default_size)

section \<open>Several month tokens\<close>

lemma vector_2M3M: "tryParsingInMonths ''2M3M'' = (1440 * Hour, None)"
  by (simp add: eval_defs)

lemma matches_2M3M:
  "monthExp_FindAllStringSubmatch ''2M3M'' = [[''2M'', [], ''2'', ''M''], [''3M'', [], ''3'', ''M'']]"
  by (simp add: eval_defs)

lemma residual_2M3M: "monthExp_ReplaceAllString ''2M3M'' [] = []"
  by (simp add: eval_defs)

lemma residual_2M3M1h: "monthExp_ReplaceAllString ''2M3M1h'' [] = ''1h''"
  by (simp add: eval_defs)

lemma matches_2M3M1h:
  "monthExp_FindAllStringSubmatch ''2M3M1h'' = [[''2M'', [], ''2'', ''M''], [''3M'', [], ''3'', ''M'']]"
  by (simp add: eval_defs)

lemma vector_2M3M1h: "tryParsingInMonths ''2M3M1h'' = (1441 * Hour, None)"
  by (simp add: eval_defs)

lemma vector_minus_2M3M: "tryParsingInMonths ''-2M3M'' = (- 1440 * Hour, None)"
  by (simp add: eval_defs)

lemma vector_2M_minus_3M: "tryParsingInMonths ''2M-3M'' = (1440 * Hour, None)"
  by (simp add: eval_defs)

lemma vector_2M_space_3M: "tryParsingInMonths ''2M 3M'' = (1440 * Hour, None)"
  by (simp add: eval_defs)

lemma vector_2M1h: "tryParsingInMonths ''2M1h'' = (1441 * Hour, None)"
  by (simp add: eval_defs)

text \<open>
  Claim C10. When the input holds more than one month token, \<open>tryParsingInMonths\<close>
  converts the count of the first match only, while \<open>ReplaceAllString\<close> removes every
  match before the rest is parsed. "2M3M" has the two matches "2M" and "3M", an empty
  rest, and parses without error to 1440 hours, which is neither the 3600 hours of five
  months nor an error; "2M3M1h" leaves "1h" and is worth 1441 hours; "-2M3M", "2M-3M" and
  "2M 3M" are worth the first token. For every input: the input is the matches of the
  month expression, in their order, with pieces of text before, between and after them,
  and what is left for the standard parse is these pieces joined; whatever follows the
  first match in the list of matches, the result is computed from the sign and the count
  of the first match and from what is left, the count being the number its digits write
  whenever that fits a 64-bit integer; and a second token right after the first changes
  nothing in the result.
\<close>

theorem several_month_tokens_first_counts:
  "monthExp_FindAllStringSubmatch ''2M3M'' = [[''2M'', [], ''2'', ''M''], [''3M'', [], ''3'', ''M'']] \<and>
   monthExp_ReplaceAllString ''2M3M'' [] = [] \<and>
   tryParsingInMonths ''2M3M'' = (1440 * Hour, None) \<and>
   1440 * Hour \<noteq> 3600 * Hour \<and>
   monthExp_ReplaceAllString ''2M3M1h'' [] = ''1h'' \<and>
   tryParsingInMonths ''2M3M1h'' = (1441 * Hour, None) \<and>
   tryParsingInMonths ''-2M3M'' = (- 1440 * Hour, None) \<and>
   tryParsingInMonths ''2M-3M'' = (1440 * Hour, None) \<and>
   tryParsingInMonths ''2M 3M'' = (1440 * Hour, None) \<and>
   (\<forall>str. \<exists>gaps. length gaps = length (monthExp_FindAllStringSubmatch str) + 1 \<and>
                 str = interleave gaps (map hd (monthExp_FindAllStringSubmatch str)) \<and>
                 monthExp_ReplaceAllString str [] = concat gaps) \<and>
   (\<forall>str w sg ds m others.
      monthExp_FindAllStringSubmatch str = [w, sg, ds, m] # others \<longrightarrow>
        (sg = [] \<or> sg = ''+'' \<or> sg = ''-'') \<and> ds \<noteq> [] \<and> list_all isDigit ds \<and>
        w = sg @ ds @ ''M'' \<and> m = ''M'' \<and>
        (decimal ds < 9223372036854775808 \<longrightarrow> Atoi ds = (int (decimal ds), None)) \<and>
        tryParsingInMonths str =
          (case Atoi ds of
             (monthsCount, Some err) \<Rightarrow>
               (0, Some (Wrap err (''failed to parse task configuration of '' @ str)))
           | (monthsCount, None) \<Rightarrow>
               (if TrimSpace (monthExp_ReplaceAllString str []) = []
                then (if sg = ''-'' then wrap64 (wrap64 (HoursInMonth * monthsCount) * (- 1))
                      else wrap64 (HoursInMonth * monthsCount), None)
                else (case ParseDuration (TrimSpace (monthExp_ReplaceAllString str [])) of
                        (remainingTime, Some err) \<Rightarrow>
                          (if sg = ''-'' then wrap64 (wrap64 (HoursInMonth * monthsCount) * (- 1))
                           else wrap64 (HoursInMonth * monthsCount),
                           Some (Wrap err (''failed to parse task configuration of ''
                                           @ TrimSpace (monthExp_ReplaceAllString str []))))
                      | (remainingTime, None) \<Rightarrow>
                          (wrap64 ((if sg = ''-'' then wrap64 (wrap64 (HoursInMonth * monthsCount) * (- 1))
                                    else wrap64 (HoursInMonth * monthsCount)) + remainingTime),
                           None))))) \<and>
   (\<forall>sg ds sg' ds' rest.
      (sg = [] \<or> sg = ''+'' \<or> sg = ''-'') \<and> ds \<noteq> [] \<and> list_all isDigit ds \<and>
      decimal ds < 9223372036854775808 \<and>
      (sg' = [] \<or> sg' = ''+'' \<or> sg' = ''-'') \<and> ds' \<noteq> [] \<and> list_all isDigit ds' \<longrightarrow>
      tryParsingInMonths (sg @ ds @ ''M'' @ sg' @ ds' @ ''M'' @ rest) =
        tryParsingInMonths (sg @ ds @ ''M'' @ rest)) \<and>
   (\<forall>a b. a \<noteq> [] \<and> list_all isDigit a \<and> decimal a < 9223372036854775808 \<and> b \<noteq> [] \<and> list_all isDigit b \<longrightarrow>
      tryParsingInMonths (a @ ''M'' @ b @ ''M'') = (wrap64 (HoursInMonth * int (decimal a)), None))"
proof (intro conjI allI impI)
  show "1440 * Hour \<noteq> 3600 * Hour" by (simp add: Hour_val)
next
  fix str :: string
  show "\<exists>gaps. length gaps = length (monthExp_FindAllStringSubmatch str) + 1 \<and>
               str = interleave gaps (map hd (monthExp_FindAllStringSubmatch str)) \<and>
               monthExp_ReplaceAllString str [] = concat gaps"
    by (rule ReplaceAll_strips)
next
  fix str :: string and w sg ds m others
  assume f: "monthExp_FindAllStringSubmatch str = [w, sg, ds, m] # others"
  note g = FindAll_first [OF f]
  from g show "sg = [] \<or> sg = ''+'' \<or> sg = ''-''" by (elim conjE)
  from g show "ds \<noteq> []" by (elim conjE)
  from g show "list_all isDigit ds" by (elim conjE)
  from g show "w = sg @ ds @ ''M''" by (elim conjE)
  from g show "m = ''M''" by (elim conjE)
  show "tryParsingInMonths str =
          (case Atoi ds of
             (monthsCount, Some err) \<Rightarrow>
               (0, Some (Wrap err (''failed to parse task configuration of '' @ str)))
           | (monthsCount, None) \<Rightarrow>
               (if TrimSpace (monthExp_ReplaceAllString str []) = []
                then (if sg = ''-'' then wrap64 (wrap64 (HoursInMonth * monthsCount) * (- 1))
                      else wrap64 (HoursInMonth * monthsCount), None)
                else (case ParseDuration (TrimSpace (monthExp_ReplaceAllString str [])) of
                        (remainingTime, Some err) \<Rightarrow>
                          (if sg = ''-'' then wrap64 (wrap64 (HoursInMonth * monthsCount) * (- 1))
                           else wrap64 (HoursInMonth * monthsCount),
                           Some (Wrap err (''failed to parse task configuration of ''
                                           @ TrimSpace (monthExp_ReplaceAllString str []))))
                      | (remainingTime, None) \<Rightarrow>
                          (wrap64 ((if sg = ''-'' then wrap64 (wrap64 (HoursInMonth * monthsCount) * (- 1))
                                    else wrap64 (HoursInMonth * monthsCount)) + remainingTime),
                           None))))"
    by (rule tryParsingInMonths_first [OF f])
  assume "decimal ds < 9223372036854775808"
  with g show "Atoi ds = (int (decimal ds), None)" by (simp add: Atoi_digits)
next
  fix sg ds sg' ds' rest
  assume "(sg = [] \<or> sg = ''+'' \<or> sg = ''-'') \<and> ds \<noteq> [] \<and> list_all isDigit ds \<and>
      decimal ds < 9223372036854775808 \<and>
      (sg' = [] \<or> sg' = ''+'' \<or> sg' = ''-'') \<and> ds' \<noteq> [] \<and> list_all isDigit ds'"
  then show "tryParsingInMonths (sg @ ds @ ''M'' @ sg' @ ds' @ ''M'' @ rest) =
        tryParsingInMonths (sg @ ds @ ''M'' @ rest)"
    by (elim conjE) (rule second_token_dropped)
next
  fix a b :: string
  assume "a \<noteq> [] \<and> list_all isDigit a \<and> decimal a < 9223372036854775808 \<and> b \<noteq> [] \<and> list_all isDigit b"
  then show "tryParsingInMonths (a @ ''M'' @ b @ ''M'') = (wrap64 (HoursInMonth * int (decimal a)), None)"
    by (elim conjE) (rule tryParsingInMonths_two_tokens)
qed (rule matches_2M3M residual_2M3M vector_2M3M residual_2M3M1h vector_2M3M1h vector_minus_2M3M
       vector_2M_minus_3M vector_2M_space_3M)+

theorem several_month_tokens_first_counts_witness:
  "list_all isDigit ''1'' \<and> list_all isDigit ''7'' \<and> decimal ''1'' < 9223372036854775808 \<and>
   tryParsingInMonths (''1'' @ ''M'' @ ''7'' @ ''M'') = (wrap64 (HoursInMonth * int (decimal ''1'')), None) \<and>
   wrap64 (HoursInMonth * int (decimal ''1'')) = 720 * Hour \<and>
   monthExp_FindAllStringSubmatch ''2M3M1h'' = [[''2M'', [], ''2'', ''M''], [''3M'', [], ''3'', ''M'']] \<and>
   decimal ''2'' < 9223372036854775808 \<and> Atoi ''2'' = (2, None) \<and>
   list_all isDigit ''2'' \<and> list_all isDigit ''3'' \<and>
   tryParsingInMonths ([] @ ''2'' @ ''M'' @ ''-'' @ ''3'' @ ''M'' @ ''1h'') = (1441 * Hour, None)"
proof -
  have h: "''1'' \<noteq> [] \<and> list_all isDigit ''1'' \<and> decimal ''1'' < 9223372036854775808 \<and> ''7'' \<noteq> [] \<and> list_all isDigit ''7''"
    by (simp add: isDigit_def decimal_def digitVal_def)
  have "\<forall>a b. a \<noteq> [] \<and> list_all isDigit a \<and> decimal a < 9223372036854775808 \<and> b \<noteq> [] \<and> list_all isDigit b \<longrightarrow>
      tryParsingInMonths (a @ ''M'' @ b @ ''M'') = (wrap64 (HoursInMonth * int (decimal a)), None)"
    using several_month_tokens_first_counts by (elim conjE)
  then have "tryParsingInMonths (''1'' @ ''M'' @ ''7'' @ ''M'') = (wrap64 (HoursInMonth * int (decimal ''1'')), None)"
    using h by blast
  moreover have "wrap64 (HoursInMonth * int (decimal ''1'')) = 720 * Hour"
    by (simp add: eval_defs)
  ultimately have 1: "list_all isDigit ''1'' \<and> list_all isDigit ''7'' \<and> decimal ''1'' < 9223372036854775808 \<and>
     tryParsingInMonths (''1'' @ ''M'' @ ''7'' @ ''M'') = (wrap64 (HoursInMonth * int (decimal ''1'')), None) \<and>
     wrap64 (HoursInMonth * int (decimal ''1'')) = 720 * Hour"
    using h by simp
  have d: "decimal ''2'' < 9223372036854775808" by (simp add: decimal_def digitVal_def)
  have "\<forall>str w sg ds m others.
      monthExp_FindAllStringSubmatch str = [w, sg, ds, m] # others \<longrightarrow>
        (decimal ds < 9223372036854775808 \<longrightarrow> Atoi ds = (int (decimal ds), None))"
    using several_month_tokens_first_counts by (elim conjE) blast
  from this [rule_format, OF matches_2M3M1h d]
  have 2: "Atoi ''2'' = (2, None)" by (simp add: decimal_def digitVal_def)
  have k: "(([]::string) = [] \<or> [] = ''+'' \<or> [] = ''-'') \<and> ''2'' \<noteq> [] \<and> list_all isDigit ''2'' \<and>
      decimal ''2'' < 9223372036854775808 \<and>
      (''-'' = [] \<or> ''-'' = ''+'' \<or> ''-'' = ''-'') \<and> ''3'' \<noteq> [] \<and> list_all isDigit ''3''"
    by (simp add: isDigit_def decimal_def digitVal_def)
  have "\<forall>sg ds sg' ds' rest.
      (sg = [] \<or> sg = ''+'' \<or> sg = ''-'') \<and> ds \<noteq> [] \<and> list_all isDigit ds \<and>
      decimal ds < 9223372036854775808 \<and>
      (sg' = [] \<or> sg' = ''+'' \<or> sg' = ''-'') \<and> ds' \<noteq> [] \<and> list_all isDigit ds' \<longrightarrow>
      tryParsingInMonths (sg @ ds @ ''M'' @ sg' @ ds' @ ''M'' @ rest) =
        tryParsingInMonths (sg @ ds @ ''M'' @ rest)"
    using several_month_tokens_first_counts by (elim conjE)
  from this [rule_format, OF k, of "''1h''"]
  have 3: "tryParsingInMonths ([] @ ''2'' @ ''M'' @ ''-'' @ ''3'' @ ''M'' @ ''1h'') = (1441 * Hour, None)"
    using vector_2M1h by simp
  from 1 matches_2M3M1h d 2 k 3 show ?thesis by simp
qed

section \<open>The task window\<close>

lemma prepareWindow_truncate:
  "SpecWindow_TruncateTo (fst (prepareWindow conf)) =
     (if Window_TruncateTo (Task_Window (Job_Task conf)) = [] then ''d''
      else Window_TruncateTo (Task_Window (Job_Task conf)))"
  by (simp add: prepareWindow_def Let_def split: prod.splits option.splits)

lemma prepareWindow_size:
  "SpecWindow_Size (fst (prepareWindow conf)) =
     (if Window_Size (Task_Window (Job_Task conf)) = [] then 24 * Hour
      else fst (monthsOrDuration (Window_Size (Task_Window (Job_Task conf)))))"
  by (simp add: prepareWindow_def Let_def default_size split: prod.splits option.splits)

lemma prepareWindow_offset:
  "SpecWindow_Offset (fst (prepareWindow conf)) =
     (if Window_Offset (Task_Window (Job_Task conf)) = [] \<or>
         (Window_Size (Task_Window (Job_Task conf)) \<noteq> [] \<and>
          snd (monthsOrDuration (Window_Size (Task_Window (Job_Task conf)))) \<noteq> None)
      then 0
      else fst (monthsOrDuration (Window_Offset (Task_Window (Job_Task conf)))))"
  by (auto simp add: prepareWindow_def Let_def split: prod.splits option.splits)

lemma prepareWindow_error:
  "snd (prepareWindow conf) =
     (if Window_Size (Task_Window (Job_Task conf)) \<noteq> [] \<and>
         snd (monthsOrDuration (Window_Size (Task_Window (Job_Task conf)))) \<noteq> None
      then Some (Wrap (the (snd (monthsOrDuration (Window_Size (Task_Window (Job_Task conf))))))
                   (''failed to parse task window '' @ Job_Name conf @ '' with size ''
                    @ Window_Size (Task_Window (Job_Task conf))))
      else if Window_Offset (Task_Window (Job_Task conf)) \<noteq> [] \<and>
         snd (monthsOrDuration (Window_Offset (Task_Window (Job_Task conf)))) \<noteq> None
      then Some (Wrap (the (snd (monthsOrDuration (Window_Offset (Task_Window (Job_Task conf))))))
                   (''failed to parse task window '' @ Job_Name conf @ '' with offset ''
                    @ Window_Offset (Task_Window (Job_Task conf))))
      else None)"
  by (auto simp add: prepareWindow_def Let_def split: prod.splits option.splits)

lemma prepareWindow_absent:
  assumes "Window_Size (Task_Window (Job_Task conf)) = []"
    "Window_Offset (Task_Window (Job_Task conf)) = []"
    "Window_TruncateTo (Task_Window (Job_Task conf)) = []"
  shows "prepareWindow conf =
           (\<lparr>SpecWindow_Size = 24 * Hour, SpecWindow_Offset = 0, SpecWindow_TruncateTo = ''d''\<rparr>, None)"
  using assms by (simp add: prepareWindow_def Let_def default_size)

text \<open>
  Claim C3. A job whose window block is absent (its size, offset and truncate_to strings
  are all empty) gets from \<open>prepareWindow\<close>, without error, the window of 24 hours,
  offset 0 and truncation "d". Each field is decided by its own string: the truncation is
  "d" when the string is empty and the string otherwise; the size is 24 hours when its
  string is empty and what the string parses to otherwise; in every call that returns no
  error the offset is 0 when its string is empty and what the string parses to otherwise;
  and empty size and offset strings never cause an error.
\<close>

theorem prepareWindow_defaults:
  "(Window_Size (Task_Window (Job_Task conf)) = [] \<and>
    Window_Offset (Task_Window (Job_Task conf)) = [] \<and>
    Window_TruncateTo (Task_Window (Job_Task conf)) = [] \<longrightarrow>
      prepareWindow conf =
        (\<lparr>SpecWindow_Size = 24 * Hour, SpecWindow_Offset = 0, SpecWindow_TruncateTo = ''d''\<rparr>, None)) \<and>
   SpecWindow_TruncateTo (fst (prepareWindow conf)) =
     (if Window_TruncateTo (Task_Window (Job_Task conf)) = [] then ''d''
      else Window_TruncateTo (Task_Window (Job_Task conf))) \<and>
   SpecWindow_Size (fst (prepareWindow conf)) =
     (if Window_Size (Task_Window (Job_Task conf)) = [] then 24 * Hour
      else fst (monthsOrDuration (Window_Size (Task_Window (Job_Task conf))))) \<and>
   (snd (prepareWindow conf) = None \<longrightarrow>
      SpecWindow_Offset (fst (prepareWindow conf)) =
        (if Window_Offset (Task_Window (Job_Task conf)) = [] then 0
         else fst (monthsOrDuration (Window_Offset (Task_Window (Job_Task conf)))))) \<and>
   (Window_Size (Task_Window (Job_Task conf)) = [] \<and>
    Window_Offset (Task_Window (Job_Task conf)) = [] \<longrightarrow> snd (prepareWindow conf) = None)"
proof (intro conjI impI)
  assume "Window_Size (Task_Window (Job_Task conf)) = [] \<and>
    Window_Offset (Task_Window (Job_Task conf)) = [] \<and>
    Window_TruncateTo (Task_Window (Job_Task conf)) = []"
  then show "prepareWindow conf =
        (\<lparr>SpecWindow_Size = 24 * Hour, SpecWindow_Offset = 0, SpecWindow_TruncateTo = ''d''\<rparr>, None)"
    by (simp add: prepareWindow_absent)
next
  show "SpecWindow_TruncateTo (fst (prepareWindow conf)) =
     (if Window_TruncateTo (Task_Window (Job_Task conf)) = [] then ''d''
      else Window_TruncateTo (Task_Window (Job_Task conf)))"
    by (rule prepareWindow_truncate)
next
  show "SpecWindow_Size (fst (prepareWindow conf)) =
     (if Window_Size (Task_Window (Job_Task conf)) = [] then 24 * Hour
      else fst (monthsOrDuration (Window_Size (Task_Window (Job_Task conf)))))"
    by (rule prepareWindow_size)
next
  assume "snd (prepareWindow conf) = None"
  then have "\<not> (Window_Size (Task_Window (Job_Task conf)) \<noteq> [] \<and>
          snd (monthsOrDuration (Window_Size (Task_Window (Job_Task conf)))) \<noteq> None)"
    unfolding prepareWindow_error by (simp split: if_splits)
  then show "SpecWindow_Offset (fst (prepareWindow conf)) =
        (if Window_Offset (Task_Window (Job_Task conf)) = [] then 0
         else fst (monthsOrDuration (Window_Offset (Task_Window (Job_Task conf)))))"
    unfolding prepareWindow_offset by auto
next
  assume "Window_Size (Task_Window (Job_Task conf)) = [] \<and>
    Window_Offset (Task_Window (Job_Task conf)) = []"
  then show "snd (prepareWindow conf) = None"
    unfolding prepareWindow_error by simp
qed

theorem prepareWindow_defaults_witness:
  "prepareWindow (jobWithWindow [] [] []) =
     (\<lparr>SpecWindow_Size = 24 * Hour, SpecWindow_Offset = 0, SpecWindow_TruncateTo = ''d''\<rparr>, None) \<and>
   SpecWindow_Offset (fst (prepareWindow (jobWithWindow [] [] []))) = 0"
  using prepareWindow_defaults [of "jobWithWindow [] [] []"]
  by (simp add: jobWithWindow_def)

lemma monthsOrDuration_cases:
  "monthsOrDuration s =
     (if snd (tryParsingInMonths s) = None then (fst (tryParsingInMonths s), None) else ParseDuration s)"
  by (simp add: monthsOrDuration_def split: prod.splits option.splits)

text \<open>
  Claim C4. For a non-empty size string \<open>prepareWindow\<close> takes the value of
  \<open>tryParsingInMonths\<close> when that returns no error; only when it returns an error does
  the value come from \<open>time.ParseDuration\<close> on the same string; and only when both
  return an error does \<open>prepareWindow\<close> return one, the wrapped error of
  \<open>time.ParseDuration\<close>. The same holds for a non-empty offset string once the size has
  been accepted. \<open>prepareWindow\<close> returns an error exactly when a non-empty size or
  offset string is rejected by both parsers.
\<close>

theorem prepareWindow_months_before_duration:
  "(Window_Size (Task_Window (Job_Task conf)) \<noteq> [] \<and>
    snd (tryParsingInMonths (Window_Size (Task_Window (Job_Task conf)))) = None \<longrightarrow>
      SpecWindow_Size (fst (prepareWindow conf)) =
        fst (tryParsingInMonths (Window_Size (Task_Window (Job_Task conf))))) \<and>
   (Window_Size (Task_Window (Job_Task conf)) \<noteq> [] \<and>
    snd (tryParsingInMonths (Window_Size (Task_Window (Job_Task conf)))) \<noteq> None \<longrightarrow>
      SpecWindow_Size (fst (prepareWindow conf)) =
        fst (ParseDuration (Window_Size (Task_Window (Job_Task conf))))) \<and>
   (Window_Size (Task_Window (Job_Task conf)) \<noteq> [] \<and>
    snd (tryParsingInMonths (Window_Size (Task_Window (Job_Task conf)))) \<noteq> None \<and>
    snd (ParseDuration (Window_Size (Task_Window (Job_Task conf)))) \<noteq> None \<longrightarrow>
      snd (prepareWindow conf) =
        Some (Wrap (the (snd (ParseDuration (Window_Size (Task_Window (Job_Task conf))))))
                (''failed to parse task window '' @ Job_Name conf @ '' with size ''
                 @ Window_Size (Task_Window (Job_Task conf))))) \<and>
   (Window_Offset (Task_Window (Job_Task conf)) \<noteq> [] \<and>
    (Window_Size (Task_Window (Job_Task conf)) = [] \<or>
     snd (monthsOrDuration (Window_Size (Task_Window (Job_Task conf)))) = None) \<and>
    snd (tryParsingInMonths (Window_Offset (Task_Window (Job_Task conf)))) = None \<longrightarrow>
      SpecWindow_Offset (fst (prepareWindow conf)) =
        fst (tryParsingInMonths (Window_Offset (Task_Window (Job_Task conf))))) \<and>
   (Window_Offset (Task_Window (Job_Task conf)) \<noteq> [] \<and>
    (Window_Size (Task_Window (Job_Task conf)) = [] \<or>
     snd (monthsOrDuration (Window_Size (Task_Window (Job_Task conf)))) = None) \<and>
    snd (tryParsingInMonths (Window_Offset (Task_Window (Job_Task conf)))) \<noteq> None \<longrightarrow>
      SpecWindow_Offset (fst (prepareWindow conf)) =
        fst (ParseDuration (Window_Offset (Task_Window (Job_Task conf))))) \<and>
   (Window_Offset (Task_Window (Job_Task conf)) \<noteq> [] \<and>
    (Window_Size (Task_Window (Job_Task conf)) = [] \<or>
     snd (monthsOrDuration (Window_Size (Task_Window (Job_Task conf)))) = None) \<and>
    snd (tryParsingInMonths (Window_Offset (Task_Window (Job_Task conf)))) \<noteq> None \<and>
    snd (ParseDuration (Window_Offset (Task_Window (Job_Task conf)))) \<noteq> None \<longrightarrow>
      snd (prepareWindow conf) =
        Some (Wrap (the (snd (ParseDuration (Window_Offset (Task_Window (Job_Task conf))))))
                (''failed to parse task window '' @ Job_Name conf @ '' with offset ''
                 @ Window_Offset (Task_Window (Job_Task conf))))) \<and>
   ((snd (prepareWindow conf) \<noteq> None) =
      ((Window_Size (Task_Window (Job_Task conf)) \<noteq> [] \<and>
        snd (tryParsingInMonths (Window_Size (Task_Window (Job_Task conf)))) \<noteq> None \<and>
        snd (ParseDuration (Window_Size (Task_Window (Job_Task conf)))) \<noteq> None) \<or>
       (Window_Offset (Task_Window (Job_Task conf)) \<noteq> [] \<and>
        snd (tryParsingInMonths (Window_Offset (Task_Window (Job_Task conf)))) \<noteq> None \<and>
        snd (ParseDuration (Window_Offset (Task_Window (Job_Task conf)))) \<noteq> None)))"
  unfolding prepareWindow_size prepareWindow_offset prepareWindow_error
  by (intro conjI impI) (auto simp add: monthsOrDuration_cases)

theorem prepareWindow_months_before_duration_witness:
  "SpecWindow_Size (fst (prepareWindow (jobWithWindow ''2M'' ''-1M'' []))) = 1440 * Hour \<and>
   SpecWindow_Offset (fst (prepareWindow (jobWithWindow ''2M'' ''-1M'' []))) = - 720 * Hour \<and>
   SpecWindow_Size (fst (prepareWindow (jobWithWindow ''24h'' ''24h'' []))) = 24 * Hour \<and>
   SpecWindow_Offset (fst (prepareWindow (jobWithWindow ''24h'' ''24h'' []))) = 24 * Hour \<and>
   snd (prepareWindow (jobWithWindow ''2M garbage'' [] [])) =
     Some (Wrap (TimeUnknownUnit ''M garbage'' ''2M garbage'')
             ''failed to parse task window job with size 2M garbage'') \<and>
   snd (prepareWindow (jobWithWindow ''2M'' ''2M garbage'' [])) =
     Some (Wrap (TimeUnknownUnit ''M garbage'' ''2M garbage'')
             ''failed to parse task window job with offset 2M garbage'')"
proof -
  have m: "tryParsingInMonths ''2M'' = (1440 * Hour, None)"
    "tryParsingInMonths ''-1M'' = (- 720 * Hour, None)"
    "tryParsingInMonths ''24h'' = (0, Some ErrNotAMonthDuration)"
    "ParseDuration ''24h'' = (24 * Hour, None)"
    "tryParsingInMonths ''2M garbage'' =
       (1440 * Hour, Some (Wrap (TimeInvalidDuration ''garbage'') ''failed to parse task configuration of garbage''))"
    "ParseDuration ''2M garbage'' = (0, Some (TimeUnknownUnit ''M garbage'' ''2M garbage''))"
    by (simp_all add: eval_defs)
  have d: "monthsOrDuration ''2M'' = (1440 * Hour, None)"
    by (simp add: monthsOrDuration_def m)
  show ?thesis
    using prepareWindow_months_before_duration [of "jobWithWindow ''2M'' ''-1M'' []"]
      prepareWindow_months_before_duration [of "jobWithWindow ''24h'' ''24h'' []"]
      prepareWindow_months_before_duration [of "jobWithWindow ''2M garbage'' [] []"]
      prepareWindow_months_before_duration [of "jobWithWindow ''2M'' ''2M garbage'' []"]
    by (simp add: jobWithWindow_def m d monthsOrDuration_def)
qed


section \<open>Parsing a job date and formatting it again\<close>

lemma digitChar_digitVal: "isDigit c \<Longrightarrow> digitChar (digitVal c) = c"
  by (simp add: digitChar_def digitVal_def isDigit_def)

lemma digitVal_less: "isDigit c \<Longrightarrow> digitVal c < 10"
  unfolding digitVal_def isDigit_def by linarith

lemma decimalString_small: "n < 10 \<Longrightarrow> decimalString n = [digitChar n]"
  by (simp add: decimalString.simps)

lemma decimalString_step:
  assumes "1 \<le> n" "d < 10"
  shows "decimalString (n * 10 + d) = decimalString n @ [digitChar d]"
proof -
  have "\<not> n * 10 + d < 10" using assms by simp
  moreover have "(n * 10 + d) div 10 = n" "(n * 10 + d) mod 10 = d" using assms by simp_all
  ultimately show ?thesis by (subst decimalString.simps) simp
qed

lemma decimal_snoc: "decimal (ds @ [c]) = decimal ds * 10 + digitVal c"
  by (simp add: decimal_def)

lemma digitChar_zero: "digitChar 0 = CHR ''0''"
proof -
  have "isDigit (CHR ''0'')" "digitVal (CHR ''0'') = 0" by (simp_all add: isDigit_def digitVal_def)
  with digitChar_digitVal [of "CHR ''0''"] show ?thesis by simp
qed

lemma decimalString_decimal:
  "list_all isDigit ds \<Longrightarrow> ds \<noteq> [] \<Longrightarrow>
     length (decimalString (decimal ds)) \<le> length ds \<and>
     replicate (length ds - length (decimalString (decimal ds))) (CHR ''0'') @ decimalString (decimal ds) = ds"
proof (induction ds rule: rev_induct)
  case Nil
  then show ?case by simp
next
  case (snoc c ds)
  from snoc.prems have c: "isDigit c" and dsd: "list_all isDigit ds" by simp_all
  show ?case
  proof (cases "ds = []")
    case True
    then show ?thesis
      using c by (simp add: decimal_def decimalString_small digitVal_less digitChar_digitVal)
  next
    case False
    from snoc.IH [OF dsd False]
    have len: "length (decimalString (decimal ds)) \<le> length ds"
      and pad: "replicate (length ds - length (decimalString (decimal ds))) (CHR ''0'') @ decimalString (decimal ds) = ds"
      by simp_all
    show ?thesis
    proof (cases "decimal ds = 0")
      case True
      with pad have "replicate (length ds - 1) (CHR ''0'') @ ''0'' = ds"
        by (simp add: decimalString_small digitChar_zero)
      moreover have "length ds \<ge> 1" using False by (cases ds) auto
      ultimately have z: "replicate (length ds) (CHR ''0'') = ds"
        by (metis Suc_pred' less_eq_Suc_le One_nat_def replicate_Suc replicate_append_same)
      show ?thesis
        using True c z
        by (simp add: decimal_snoc decimalString_small digitVal_less digitChar_digitVal)
    next
      case False
      then have "1 \<le> decimal ds" by simp
      from decimalString_step [OF this digitVal_less [OF c]] len pad
      show ?thesis
        by (simp add: decimal_snoc digitChar_digitVal [OF c] Suc_diff_le)
    qed
  qed
qed

lemma appendInt_decimal:
  assumes "list_all isDigit ds" "ds \<noteq> []" "length ds = w"
  shows "appendInt (int (decimal ds)) w = ds"
  using decimalString_decimal [OF assms(1,2)] assms(3)
  by (simp add: appendInt_def Let_def)

lemma parseJobDate_shape:
  assumes "parseJobDate v = (t, None)"
  shows "\<exists>y m d. v = y @ ''-'' @ m @ ''-'' @ d \<and> length y = 4 \<and> length m = 2 \<and> length d = 2 \<and>
           list_all isDigit y \<and> list_all isDigit m \<and> list_all isDigit d \<and>
           t = \<lparr>Time_Year = int (decimal y), Time_Month = decimal m, Time_Day = decimal d\<rparr>"
proof -
  define v1 where "v1 = drop 4 v"
  define v2 where "v2 = tl v1"
  define v3 where "v3 = drop 2 v2"
  define v4 where "v4 = tl v3"
  define v5 where "v5 = drop 2 v4"
  have eq: "parseJobDate v =
     (if length v < 4 \<or> \<not> isDigit (v ! 0) \<or> \<not> list_all isDigit (take 4 v)
      then (zeroTime, Some (TimeParseError v []))
      else if v1 = [] \<or> hd v1 \<noteq> CHR ''-'' then (zeroTime, Some (TimeParseError v []))
      else if \<not> twoDigits v2 then (zeroTime, Some (TimeParseError v []))
      else if decimal (take 2 v2) \<le> 0 \<or> 12 < decimal (take 2 v2)
           then (zeroTime, Some (TimeParseError v '': month out of range''))
      else if v3 = [] \<or> hd v3 \<noteq> CHR ''-'' then (zeroTime, Some (TimeParseError v []))
      else if \<not> twoDigits v4 then (zeroTime, Some (TimeParseError v []))
      else if v5 \<noteq> [] then (zeroTime, Some (TimeParseError v ('': extra text: '' @ v5)))
      else if decimal (take 2 v4) < 1 \<or> decimal (take 2 v4) > daysIn (decimal (take 2 v2)) (int (decimal (take 4 v)))
           then (zeroTime, Some (TimeParseError v '': day out of range''))
      else (\<lparr>Time_Year = int (decimal (take 4 v)), Time_Month = decimal (take 2 v2),
             Time_Day = decimal (take 2 v4)\<rparr>, None))"
    unfolding parseJobDate_def Let_def v1_def v2_def v3_def v4_def v5_def by (rule refl)
  from assms have f: "4 \<le> length v" "list_all isDigit (take 4 v)" "v1 \<noteq> []" "hd v1 = CHR ''-''"
      "twoDigits v2" "v3 \<noteq> []" "hd v3 = CHR ''-''" "twoDigits v4" "v5 = []"
      and t: "t = \<lparr>Time_Year = int (decimal (take 4 v)), Time_Month = decimal (take 2 v2),
             Time_Day = decimal (take 2 v4)\<rparr>"
    unfolding eq by (simp_all split: if_splits)
  have a: "v = take 4 v @ v1" by (simp add: v1_def)
  have b: "v1 = CHR ''-'' # v2" using f(3,4) by (cases v1) (auto simp: v2_def)
  have c: "v2 = take 2 v2 @ v3" by (simp add: v3_def)
  have d: "v3 = CHR ''-'' # v4" using f(6,7) by (cases v3) (auto simp: v4_def)
  have e: "v4 = take 2 v4" using f(9) by (simp add: v5_def)
  have l2: "length (take 2 v2) = 2" using f(5) by (simp add: twoDigits_def)
  have l4: "length (take 2 v4) = 2" using f(8) by (simp add: twoDigits_def)
  have d2: "list_all isDigit (take 2 v2)"
    using f(5) by (cases v2; cases "tl v2") (auto simp: twoDigits_def)
  have d4: "list_all isDigit (take 2 v4)"
    using f(8) by (cases v4; cases "tl v4") (auto simp: twoDigits_def)
  have "v = take 4 v @ ''-'' @ take 2 v2 @ ''-'' @ take 2 v4"
    using a b c d e by (metis append_Cons append_Nil)
  moreover have "length (take 4 v) = 4" using f(1) by simp
  ultimately show ?thesis using l2 l4 d2 d4 f(2) t by blast
qed

lemma formatJobDate_parseJobDate:
  assumes "parseJobDate v = (t, None)"
  shows "formatJobDate t = v"
proof -
  from parseJobDate_shape [OF assms] obtain y m d where
    v: "v = y @ ''-'' @ m @ ''-'' @ d" and l: "length y = 4" "length m = 2" "length d = 2"
    and dg: "list_all isDigit y" "list_all isDigit m" "list_all isDigit d"
    and t: "t = \<lparr>Time_Year = int (decimal y), Time_Month = decimal m, Time_Day = decimal d\<rparr>"
    by blast
  have "y \<noteq> []" "m \<noteq> []" "d \<noteq> []" using l by auto
  then show ?thesis
    using appendInt_decimal [OF dg(1) _ l(1)] appendInt_decimal [OF dg(2) _ l(2)]
      appendInt_decimal [OF dg(3) _ l(3)]
    by (simp add: formatJobDate_def t v)
qed


section \<open>Hooks and the errors of ToSpec\<close>

lemma stringConfig_no_panic: "stringConfig conf \<Longrightarrow> \<exists>r. JobSpecConfigFromYamlSlice conf = Returns r"
proof (induction conf)
  case Nil
  then show ?case by simp
next
  case (Cons c conf)
  then obtain k v r where "c = (YamlString k, YamlString v)" "JobSpecConfigFromYamlSlice conf = Returns r"
    by (cases c) (auto simp: stringConfig_def)
  then show ?case by simp
qed

lemma JobHook_ToSpec_unregistered:
  "repo (Hook_Name h) = Inl e \<Longrightarrow>
     JobHook_ToSpec h repo = Returns (JobSpecHook_zero, Some (Wrap e ''spec reading error''))"
  by (simp add: JobHook_ToSpec_def)

lemma JobHook_ToSpec_cases:
  "JobHook_ToSpec h repo = Panics \<or>
   (\<exists>e. repo (Hook_Name h) = Inl e \<and>
         JobHook_ToSpec h repo = Returns (JobSpecHook_zero, Some (Wrap e ''spec reading error''))) \<or>
   (\<exists>u conf. repo (Hook_Name h) = Inr u \<and>
         JobHook_ToSpec h repo = Returns (\<lparr>SpecHook_Config = conf, SpecHook_Unit = Some u\<rparr>, None))"
  by (auto simp: JobHook_ToSpec_def split: sum.splits outcome.splits)

lemma JobHook_ToSpec_string:
  "stringConfig (Hook_Config h) \<Longrightarrow> JobHook_ToSpec h repo \<noteq> Panics"
  using stringConfig_no_panic [of "Hook_Config h"]
  by (auto simp: JobHook_ToSpec_def split: sum.splits)

lemma prepHooks_unregistered:
  "\<exists>h\<in>set hs. \<exists>e. repo (Hook_Name h) = Inl e \<Longrightarrow>
     prepHooks repo hs acc = Panics \<or> (\<exists>r err. prepHooks repo hs acc = Returns (r, Some err))"
proof (induction hs arbitrary: acc)
  case Nil
  then show ?case by simp
next
  case (Cons h hs)
  from JobHook_ToSpec_cases [of h repo] show ?case
  proof (elim disjE exE conjE)
    assume "JobHook_ToSpec h repo = Panics"
    then show ?thesis by simp
  next
    fix e assume "JobHook_ToSpec h repo = Returns (JobSpecHook_zero, Some (Wrap e ''spec reading error''))"
    then show ?thesis by simp
  next
    fix u conf
    assume r: "repo (Hook_Name h) = Inr u"
      and s: "JobHook_ToSpec h repo = Returns (\<lparr>SpecHook_Config = conf, SpecHook_Unit = Some u\<rparr>, None)"
    from Cons.prems r have "\<exists>h\<in>set hs. \<exists>e. repo (Hook_Name h) = Inl e" by auto
    from Cons.IH [OF this] s show ?thesis by simp
  qed
qed

lemma prepHooks_string:
  "\<forall>h\<in>set hs. stringConfig (Hook_Config h) \<Longrightarrow> prepHooks repo hs acc \<noteq> Panics"
proof (induction hs arbitrary: acc)
  case Nil
  then show ?case by simp
next
  case (Cons h hs)
  then have "JobHook_ToSpec h repo \<noteq> Panics" by (simp add: JobHook_ToSpec_string)
  with Cons show ?case
    by (cases "JobHook_ToSpec h repo") (auto split: option.splits)
qed

lemma prepHooks_first_unregistered:
  assumes "\<forall>h\<in>set pre. stringConfig (Hook_Config h) \<and> (\<exists>u. repo (Hook_Name h) = Inr u)"
    "repo (Hook_Name h) = Inl e"
  shows "\<exists>r. prepHooks repo (pre @ h # post) acc = Returns (r, Some (Wrap e ''spec reading error''))"
  using assms(1)
proof (induction pre arbitrary: acc)
  case Nil
  then show ?case using assms(2) by (simp add: JobHook_ToSpec_unregistered)
next
  case (Cons p pre)
  then obtain u where u: "repo (Hook_Name p) = Inr u" and sc: "stringConfig (Hook_Config p)" by auto
  from stringConfig_no_panic [OF sc] obtain c where "JobSpecConfigFromYamlSlice (Hook_Config p) = Returns c" by blast
  with u have "JobHook_ToSpec p repo = Returns (\<lparr>SpecHook_Config = c, SpecHook_Unit = Some u\<rparr>, None)"
    by (simp add: JobHook_ToSpec_def)
  with Cons show ?case by simp
qed

lemma ToSpec_error_zero:
  "ToSpec M adapt conf = Returns (spec, Some err) \<Longrightarrow> spec = JobSpec_zero M"
  by (auto simp: ToSpec_def Let_def split: prod.splits option.splits sum.splits outcome.splits if_splits)

lemma ToSpec_unregistered_task:
  assumes "supportedTaskRepo adapt (Task_Name (Job_Task conf)) = Inl e"
  shows "ToSpec M adapt conf = Panics \<or> (\<exists>err. ToSpec M adapt conf = Returns (JobSpec_zero M, Some err))"
  using assms
  by (auto simp: ToSpec_def Let_def split: prod.splits option.splits sum.splits outcome.splits if_splits)

lemma ToSpec_unregistered_hook:
  assumes "\<exists>h\<in>set (Job_Hooks conf). \<exists>e. supportedHookRepo adapt (Hook_Name h) = Inl e"
  shows "ToSpec M adapt conf = Panics \<or> (\<exists>err. ToSpec M adapt conf = Returns (JobSpec_zero M, Some err))"
  using prepHooks_unregistered [OF assms, of "[]"]
  by (auto simp: ToSpec_def Let_def split: prod.splits option.splits sum.splits outcome.splits if_splits)

lemma ToSpec_no_panic_before_task:
  assumes "\<forall>h\<in>set (Job_Hooks conf). stringConfig (Hook_Config h)"
    "supportedTaskRepo adapt (Task_Name (Job_Task conf)) = Inl e"
  shows "ToSpec M adapt conf \<noteq> Panics"
  using prepHooks_string [OF assms(1), of "supportedHookRepo adapt" "[]"] assms(2)
  by (auto simp: ToSpec_def Let_def split: prod.splits option.splits sum.splits outcome.splits if_splits)

lemma ToSpec_no_panic_hook:
  assumes "\<forall>h\<in>set (Job_Hooks conf). stringConfig (Hook_Config h)"
    "\<exists>h\<in>set (Job_Hooks conf). \<exists>e. supportedHookRepo adapt (Hook_Name h) = Inl e"
  shows "ToSpec M adapt conf \<noteq> Panics"
  using prepHooks_string [OF assms(1), of "supportedHookRepo adapt" "[]"]
    prepHooks_unregistered [OF assms(2), of "[]"]
  by (auto simp: ToSpec_def Let_def split: prod.splits option.splits sum.splits outcome.splits if_splits)


section \<open>Unregistered plugins\<close>

text \<open>
  Claim C6, as the code has it. When the task name or a hook name is not registered,
  \<open>ToSpec\<close> never returns a domain object: it returns the zero \<open>JobSpec\<close> with an
  error, unless the type assertion on a hook's configuration panics first. When every
  hook configuration of the job holds string keys and values only, it returns the zero
  \<open>JobSpec\<close> with an error. When the dates parse and a hook is not registered while the
  hooks before it are registered and have string configurations, the error is the
  wrapped error of that first unregistered hook, whatever follows it.
\<close>

theorem ToSpec_unregistered_plugin:
  "((\<exists>e. supportedTaskRepo adapt (Task_Name (Job_Task conf)) = Inl e) \<or>
    (\<exists>h\<in>set (Job_Hooks conf). \<exists>e. supportedHookRepo adapt (Hook_Name h) = Inl e) \<longrightarrow>
      (ToSpec M adapt conf = Panics \<or> (\<exists>err. ToSpec M adapt conf = Returns (JobSpec_zero M, Some err))) \<and>
      ((\<forall>h\<in>set (Job_Hooks conf). stringConfig (Hook_Config h)) \<longrightarrow>
         (\<exists>err. ToSpec M adapt conf = Returns (JobSpec_zero M, Some err)))) \<and>
   (snd (parseJobDate (Schedule_StartDate (Job_Schedule conf))) = None \<and>
    (Schedule_EndDate (Job_Schedule conf) = [] \<or>
     snd (parseJobDate (Schedule_EndDate (Job_Schedule conf))) = None) \<and>
    Job_Hooks conf = pre @ h # post \<and>
    (\<forall>p\<in>set pre. stringConfig (Hook_Config p) \<and> (\<exists>u. supportedHookRepo adapt (Hook_Name p) = Inr u)) \<and>
    supportedHookRepo adapt (Hook_Name h) = Inl e \<longrightarrow>
      ToSpec M adapt conf = Returns (JobSpec_zero M, Some (Wrap e ''spec reading error'')))"
proof (intro conjI impI)
  assume a: "(\<exists>e. supportedTaskRepo adapt (Task_Name (Job_Task conf)) = Inl e) \<or>
    (\<exists>h\<in>set (Job_Hooks conf). \<exists>e. supportedHookRepo adapt (Hook_Name h) = Inl e)"
  then show b: "ToSpec M adapt conf = Panics \<or> (\<exists>err. ToSpec M adapt conf = Returns (JobSpec_zero M, Some err))"
    using ToSpec_unregistered_task ToSpec_unregistered_hook by blast
  assume "\<forall>h\<in>set (Job_Hooks conf). stringConfig (Hook_Config h)"
  with a have "ToSpec M adapt conf \<noteq> Panics"
    using ToSpec_no_panic_before_task ToSpec_no_panic_hook by blast
  with b show "\<exists>err. ToSpec M adapt conf = Returns (JobSpec_zero M, Some err)" by blast
next
  assume a: "snd (parseJobDate (Schedule_StartDate (Job_Schedule conf))) = None \<and>
    (Schedule_EndDate (Job_Schedule conf) = [] \<or>
     snd (parseJobDate (Schedule_EndDate (Job_Schedule conf))) = None) \<and>
    Job_Hooks conf = pre @ h # post \<and>
    (\<forall>p\<in>set pre. stringConfig (Hook_Config p) \<and> (\<exists>u. supportedHookRepo adapt (Hook_Name p) = Inr u)) \<and>
    supportedHookRepo adapt (Hook_Name h) = Inl e"
  then obtain r where
    "prepHooks (supportedHookRepo adapt) (Job_Hooks conf) [] = Returns (r, Some (Wrap e ''spec reading error''))"
    using prepHooks_first_unregistered [of pre "supportedHookRepo adapt" h e post "[]"] by auto
  with a show "ToSpec M adapt conf = Returns (JobSpec_zero M, Some (Wrap e ''spec reading error''))"
    by (auto simp: ToSpec_def Let_def split: prod.splits option.splits)
qed

theorem ToSpec_unregistered_plugin_witness:
  "ToSpec exampleModels exampleAdapter
     (exampleJob [] [\<lparr>Hook_Name = ''hook'', Hook_Config = [(YamlString ''k'', YamlString ''v'')]\<rparr>,
                     \<lparr>Hook_Name = ''missing'', Hook_Config = []\<rparr>,
                     \<lparr>Hook_Name = ''absent'', Hook_Config = []\<rparr>]) =
     Returns (JobSpec_zero exampleModels, Some (Wrap (ErrorNew ''hook not found: missing'') ''spec reading error'')) \<and>
   (\<exists>err. ToSpec exampleModels exampleAdapter
             ((exampleJob [] [])\<lparr>Job_Task := \<lparr>Task_Name = ''unknown'', Task_Config = [],
                 Task_Window = \<lparr>Window_Size = [], Window_Offset = [], Window_TruncateTo = []\<rparr>\<rparr>\<rparr>) =
           Returns (JobSpec_zero exampleModels, Some err))"
proof -
  have d: "parseJobDate ''2021-01-01'' = (\<lparr>Time_Year = 2021, Time_Month = 1, Time_Day = 1\<rparr>, None)"
    by (simp add: parseJobDate_def twoDigits_def daysIn_def isLeap_def isDigit_def decimal_def digitVal_def)
  have 1: "ToSpec exampleModels exampleAdapter
     (exampleJob [] [\<lparr>Hook_Name = ''hook'', Hook_Config = [(YamlString ''k'', YamlString ''v'')]\<rparr>,
                     \<lparr>Hook_Name = ''missing'', Hook_Config = []\<rparr>,
                     \<lparr>Hook_Name = ''absent'', Hook_Config = []\<rparr>]) =
     Returns (JobSpec_zero exampleModels, Some (Wrap (ErrorNew ''hook not found: missing'') ''spec reading error''))"
    using ToSpec_unregistered_plugin [of exampleAdapter
        "exampleJob [] [\<lparr>Hook_Name = ''hook'', Hook_Config = [(YamlString ''k'', YamlString ''v'')]\<rparr>,
                     \<lparr>Hook_Name = ''missing'', Hook_Config = []\<rparr>,
                     \<lparr>Hook_Name = ''absent'', Hook_Config = []\<rparr>]"
        exampleModels "[\<lparr>Hook_Name = ''hook'', Hook_Config = [(YamlString ''k'', YamlString ''v'')]\<rparr>]"
        "\<lparr>Hook_Name = ''missing'', Hook_Config = []\<rparr>" "[\<lparr>Hook_Name = ''absent'', Hook_Config = []\<rparr>]"
        "ErrorNew ''hook not found: missing''"]
    by (simp add: exampleJob_def jobWithWindow_def exampleAdapter_def stringConfig_def d)
  have 2: "\<exists>err. ToSpec exampleModels exampleAdapter
             ((exampleJob [] [])\<lparr>Job_Task := \<lparr>Task_Name = ''unknown'', Task_Config = [],
                 Task_Window = \<lparr>Window_Size = [], Window_Offset = [], Window_TruncateTo = []\<rparr>\<rparr>\<rparr>) =
           Returns (JobSpec_zero exampleModels, Some err)"
    using ToSpec_unregistered_plugin [of exampleAdapter
        "(exampleJob [] [])\<lparr>Job_Task := \<lparr>Task_Name = ''unknown'', Task_Config = [],
                 Task_Window = \<lparr>Window_Size = [], Window_Offset = [], Window_TruncateTo = []\<rparr>\<rparr>\<rparr>"
        exampleModels]
    by (simp add: exampleJob_def jobWithWindow_def exampleAdapter_def)
  from 1 2 show ?thesis by blast
qed

lemma JobSpecConfig_panic_example:
  "JobSpecConfigFromYamlSlice [(YamlString ''k'', YamlInt 5)] = Panics"
  by simp

theorem ToSpec_panics_before_unregistered_hook:
  "supportedHookRepo exampleAdapter ''missing'' = Inl (ErrorNew ''hook not found: missing'') \<and>
   ToSpec exampleModels exampleAdapter
     (exampleJob [] [\<lparr>Hook_Name = ''hook'', Hook_Config = [(YamlString ''k'', YamlInt 5)]\<rparr>,
                     \<lparr>Hook_Name = ''missing'', Hook_Config = []\<rparr>]) = Panics"
proof -
  have d: "parseJobDate ''2021-01-01'' = (\<lparr>Time_Year = 2021, Time_Month = 1, Time_Day = 1\<rparr>, None)"
    by (simp add: parseJobDate_def twoDigits_def daysIn_def isLeap_def isDigit_def decimal_def digitVal_def)
  show ?thesis
    by (simp add: ToSpec_def exampleJob_def jobWithWindow_def exampleAdapter_def d JobHook_ToSpec_def)
qed


section \<open>Dependency types\<close>

lemma dependencyType_strings:
  "DependencyType_String JobSpecDependencyTypeIntra = ''intra''"
  "DependencyType_String JobSpecDependencyTypeInter = ''inter''"
  "DependencyType_String JobSpecDependencyTypeExtra = ''extra''"
  by (simp_all add: JobSpecDependencyTypeIntra_def JobSpecDependencyTypeInter_def
      JobSpecDependencyTypeExtra_def)

lemma dependencyType_distinct:
  "JobSpecDependencyTypeIntra \<noteq> JobSpecDependencyTypeInter"
  "JobSpecDependencyTypeIntra \<noteq> JobSpecDependencyTypeExtra"
  "JobSpecDependencyTypeInter \<noteq> JobSpecDependencyTypeExtra"
  by (simp_all add: JobSpecDependencyTypeIntra_def JobSpecDependencyTypeInter_def
      JobSpecDependencyTypeExtra_def)

lemma dependencyType_unknown:
  "t \<noteq> DependencyType_String JobSpecDependencyTypeIntra \<Longrightarrow>
   t \<noteq> DependencyType_String JobSpecDependencyTypeInter \<Longrightarrow>
   t \<noteq> DependencyType_String JobSpecDependencyTypeExtra \<Longrightarrow>
   dependencyType t = JobSpecDependencyTypeIntra"
  by (simp add: dependencyType_def)

lemma dependencyType_known:
  "dependencyType (DependencyType_String JobSpecDependencyTypeIntra) = JobSpecDependencyTypeIntra"
  "dependencyType (DependencyType_String JobSpecDependencyTypeInter) = JobSpecDependencyTypeInter"
  "dependencyType (DependencyType_String JobSpecDependencyTypeExtra) = JobSpecDependencyTypeExtra"
  by (simp_all add: dependencyType_def dependencyType_strings)

lemma dependencyType_inter_iff:
  "(dependencyType t = JobSpecDependencyTypeInter) = (t = DependencyType_String JobSpecDependencyTypeInter)"
  using dependencyType_distinct by (auto simp: dependencyType_def dependencyType_strings)

lemma dependencyType_extra_iff:
  "(dependencyType t = JobSpecDependencyTypeExtra) = (t = DependencyType_String JobSpecDependencyTypeExtra)"
  using dependencyType_distinct by (auto simp: dependencyType_def dependencyType_strings)

lemma dependencyType_String_known:
  "t = DependencyType_String JobSpecDependencyTypeIntra \<or>
   t = DependencyType_String JobSpecDependencyTypeInter \<or>
   t = DependencyType_String JobSpecDependencyTypeExtra \<Longrightarrow>
   DependencyType_String (dependencyType t) = t"
  by (auto simp: dependencyType_def dependencyType_strings)

lemma prepDependencies_append:
  "prepDependencies (xs @ ys) m = prepDependencies ys (prepDependencies xs m)"
  by (induction xs arbitrary: m) auto

lemma prepDependencies_other:
  "n \<notin> Dependency_JobName ` set ds \<Longrightarrow> prepDependencies ds m n = m n"
  by (induction ds arbitrary: m) auto

lemma prepDependencies_last:
  assumes "Dependency_JobName d \<notin> Dependency_JobName ` set post"
  shows "prepDependencies (pre @ d # post) m (Dependency_JobName d) =
           Some \<lparr>SpecDependency_Type = dependencyType (Dependency_Type d)\<rparr>"
  using assms by (simp add: prepDependencies_append prepDependencies_other)

lemma prepareWindow_dependencies:
  "prepareWindow (conf\<lparr>Job_Dependencies := ds\<rparr>) = prepareWindow conf"
  by (simp add: prepareWindow_def Let_def)

lemma ToSpec_dependencies:
  "ToSpec M adapt conf = Returns (spec, None) \<Longrightarrow>
     JobSpec_Dependencies spec = prepDependencies (Job_Dependencies conf) Map.empty"
  by (auto simp: ToSpec_def Let_def split: prod.splits option.splits sum.splits outcome.splits if_splits)

lemma ToSpec_dependencies_frame:
  "ToSpec M adapt (conf\<lparr>Job_Dependencies := ds\<rparr>) =
     (case ToSpec M adapt conf of
        Panics \<Rightarrow> Panics
      | Returns (spec, Some err) \<Rightarrow> Returns (spec, Some err)
      | Returns (spec, None) \<Rightarrow>
          Returns (spec\<lparr>JobSpec_Dependencies := prepDependencies ds Map.empty\<rparr>, None))"
  by (auto simp: ToSpec_def Let_def prepareWindow_dependencies
      split: prod.splits option.splits sum.splits outcome.splits if_splits)

text \<open>
  Claim C5. The \<open>switch\<close> of \<open>ToSpec\<close> resolves every type string that is none of the
  three known ones, the empty string and "bogus" among them, to the intra-project type;
  each of the three known strings resolves to its own type, and the inter-project and
  extra-project types come from their own strings only. In a conversion that returns no
  error every dependency entry that no later entry of the same job overwrites is in the
  map under its job name with the type so resolved. The dependency entries raise no
  error: replacing them changes neither whether \<open>ToSpec\<close> panics nor the error it
  returns, and changes in a successful result the map of dependencies only.
\<close>

theorem dependency_type_fallback:
  "(t \<noteq> DependencyType_String JobSpecDependencyTypeIntra \<and>
    t \<noteq> DependencyType_String JobSpecDependencyTypeInter \<and>
    t \<noteq> DependencyType_String JobSpecDependencyTypeExtra \<longrightarrow>
      dependencyType t = JobSpecDependencyTypeIntra) \<and>
   dependencyType [] = JobSpecDependencyTypeIntra \<and>
   dependencyType ''bogus'' = JobSpecDependencyTypeIntra \<and>
   dependencyType (DependencyType_String JobSpecDependencyTypeIntra) = JobSpecDependencyTypeIntra \<and>
   dependencyType (DependencyType_String JobSpecDependencyTypeInter) = JobSpecDependencyTypeInter \<and>
   dependencyType (DependencyType_String JobSpecDependencyTypeExtra) = JobSpecDependencyTypeExtra \<and>
   (dependencyType t = JobSpecDependencyTypeInter) = (t = DependencyType_String JobSpecDependencyTypeInter) \<and>
   (dependencyType t = JobSpecDependencyTypeExtra) = (t = DependencyType_String JobSpecDependencyTypeExtra) \<and>
   (ToSpec M adapt conf = Returns (spec, None) \<and> Job_Dependencies conf = pre @ d # post \<and>
    Dependency_JobName d \<notin> Dependency_JobName ` set post \<longrightarrow>
      JobSpec_Dependencies spec (Dependency_JobName d) =
        Some \<lparr>SpecDependency_Type = dependencyType (Dependency_Type d)\<rparr>) \<and>
   ToSpec M adapt (conf\<lparr>Job_Dependencies := ds\<rparr>) =
     (case ToSpec M adapt conf of
        Panics \<Rightarrow> Panics
      | Returns (spec, Some err) \<Rightarrow> Returns (spec, Some err)
      | Returns (spec, None) \<Rightarrow>
          Returns (spec\<lparr>JobSpec_Dependencies := prepDependencies ds Map.empty\<rparr>, None))"
proof (intro conjI impI)
  show "dependencyType [] = JobSpecDependencyTypeIntra"
    by (simp add: dependencyType_def dependencyType_strings)
  show "dependencyType ''bogus'' = JobSpecDependencyTypeIntra"
    by (simp add: dependencyType_def dependencyType_strings)
  assume "ToSpec M adapt conf = Returns (spec, None) \<and> Job_Dependencies conf = pre @ d # post \<and>
    Dependency_JobName d \<notin> Dependency_JobName ` set post"
  then show "JobSpec_Dependencies spec (Dependency_JobName d) =
        Some \<lparr>SpecDependency_Type = dependencyType (Dependency_Type d)\<rparr>"
    using ToSpec_dependencies [of M adapt conf spec] prepDependencies_last [of d post pre Map.empty]
    by simp
qed (simp_all add: dependencyType_unknown dependencyType_known dependencyType_inter_iff
      dependencyType_extra_iff ToSpec_dependencies_frame)

lemma parseJobDate_example:
  "parseJobDate ''2021-01-01'' = (\<lparr>Time_Year = 2021, Time_Month = 1, Time_Day = 1\<rparr>, None)"
  by (simp add: parseJobDate_def twoDigits_def daysIn_def isLeap_def isDigit_def decimal_def digitVal_def)

lemma prepareWindow_example:
  "prepareWindow (exampleJob deps hooks) =
     (\<lparr>SpecWindow_Size = 24 * Hour, SpecWindow_Offset = 0, SpecWindow_TruncateTo = ''d''\<rparr>, None)"
proof -
  have "monthsOrDuration ''24h'' = (24 * Hour, None)" "monthsOrDuration ''0'' = (0, None)"
    by (simp_all add: eval_defs)
  then show ?thesis
    by (simp add: prepareWindow_def exampleJob_def jobWithWindow_def)
qed

lemma ToSpec_example:
  "\<exists>spec. ToSpec exampleModels exampleAdapter (exampleJob deps []) = Returns (spec, None)"
  unfolding ToSpec_def prepareWindow_example
  by (simp add: exampleJob_def jobWithWindow_def exampleAdapter_def parseJobDate_example)

theorem dependency_type_fallback_witness:
  "''bogus'' \<noteq> DependencyType_String JobSpecDependencyTypeIntra \<and>
   ''bogus'' \<noteq> DependencyType_String JobSpecDependencyTypeInter \<and>
   ''bogus'' \<noteq> DependencyType_String JobSpecDependencyTypeExtra \<and>
   (\<exists>spec. ToSpec exampleModels exampleAdapter
             (exampleJob [\<lparr>Dependency_JobName = ''x'', Dependency_Type = ''bogus''\<rparr>] []) =
             Returns (spec, None) \<and>
           JobSpec_Dependencies spec ''x'' = Some \<lparr>SpecDependency_Type = JobSpecDependencyTypeIntra\<rparr>)"
proof -
  obtain spec where s: "ToSpec exampleModels exampleAdapter
             (exampleJob [\<lparr>Dependency_JobName = ''x'', Dependency_Type = ''bogus''\<rparr>] []) =
             Returns (spec, None)"
    using ToSpec_example by blast
  have "JobSpec_Dependencies spec ''x'' = Some \<lparr>SpecDependency_Type = JobSpecDependencyTypeIntra\<rparr>"
    using dependency_type_fallback [of "''bogus''" exampleModels exampleAdapter
        "exampleJob [\<lparr>Dependency_JobName = ''x'', Dependency_Type = ''bogus''\<rparr>] []" spec
        "[]" "\<lparr>Dependency_JobName = ''x'', Dependency_Type = ''bogus''\<rparr>" "[]"] s
    by (simp add: exampleJob_def dependencyType_strings)
  with s show ?thesis by (auto simp: dependencyType_strings)
qed


section \<open>The round trip through the domain model\<close>

lemma prepHooks_success:
  "prepHooks repo hs acc = Returns (hooks, None) \<Longrightarrow>
     \<exists>new. hooks = acc @ new \<and>
       list_all2 (\<lambda>h a. \<exists>u c. repo (Hook_Name h) = Inr u \<and>
                    a = \<lparr>SpecHook_Config = c, SpecHook_Unit = Some u\<rparr>) hs new"
proof (induction hs arbitrary: acc)
  case Nil
  then show ?case by simp
next
  case (Cons h hs)
  from JobHook_ToSpec_cases [of h repo] show ?case
  proof (elim disjE exE conjE)
    assume "JobHook_ToSpec h repo = Panics"
    with Cons.prems show ?thesis by simp
  next
    fix e assume "JobHook_ToSpec h repo = Returns (JobSpecHook_zero, Some (Wrap e ''spec reading error''))"
    with Cons.prems show ?thesis by simp
  next
    fix u conf
    assume r: "repo (Hook_Name h) = Inr u"
      and s: "JobHook_ToSpec h repo = Returns (\<lparr>SpecHook_Config = conf, SpecHook_Unit = Some u\<rparr>, None)"
    with Cons.prems
    have "prepHooks repo hs (acc @ [\<lparr>SpecHook_Config = conf, SpecHook_Unit = Some u\<rparr>]) = Returns (hooks, None)"
      by simp
    from Cons.IH [OF this] obtain new where
      "hooks = (acc @ [\<lparr>SpecHook_Config = conf, SpecHook_Unit = Some u\<rparr>]) @ new"
      "list_all2 (\<lambda>h a. \<exists>u c. repo (Hook_Name h) = Inr u \<and>
                    a = \<lparr>SpecHook_Config = c, SpecHook_Unit = Some u\<rparr>) hs new"
      by blast
    with r show ?thesis
      by (intro exI [of _ "\<lparr>SpecHook_Config = conf, SpecHook_Unit = Some u\<rparr> # new"]) auto
  qed
qed

lemma hooksFromSpec_names:
  assumes "list_all2 (\<lambda>h a. \<exists>u c. repo (Hook_Name h) = Inr u \<and>
                    a = \<lparr>SpecHook_Config = c, SpecHook_Unit = Some u\<rparr>) hs new"
    "namesAgree repo"
  shows "\<exists>hs'. hooksFromSpec new = Returns hs' \<and> map Hook_Name hs' = map Hook_Name hs"
  using assms(1)
proof (induction rule: list_all2_induct)
  case Nil
  then show ?case by simp
next
  case (Cons h hs a new)
  then obtain u c hs' where "repo (Hook_Name h) = Inr u" "a = \<lparr>SpecHook_Config = c, SpecHook_Unit = Some u\<rparr>"
    "hooksFromSpec new = Returns hs'" "map Hook_Name hs' = map Hook_Name hs"
    by blast
  moreover from this assms(2) have "Plugin_Name u = Hook_Name h" by (simp add: namesAgree_def)
  ultimately show ?case by (simp add: JobHook_FromSpec_def)
qed

lemma dependenciesFromSpec_pairs:
  assumes "visitsKeysOf visited m"
  shows "dependencyPairs (dependenciesFromSpec visited m) =
           {(n, DependencyType_String (SpecDependency_Type dep)) | n dep. m n = Some dep}"
proof -
  have "set visited = dom m" using assms by (simp add: visitsKeysOf_def)
  then show ?thesis
    unfolding dependencyPairs_def dependenciesFromSpec_def
    by (auto simp: image_iff split: option.splits) force+
qed

lemma lastEntries_names: "Dependency_JobName ` set (lastEntries ds) = Dependency_JobName ` set ds"
  by (induction ds) auto

lemma lastEntries_distinct: "distinct (map Dependency_JobName (lastEntries ds))"
proof (induction ds)
  case Nil
  then show ?case by simp
next
  case (Cons d ds)
  then show ?case using lastEntries_names [of ds] by auto
qed

lemma lastEntries_id: "distinct (map Dependency_JobName ds) \<Longrightarrow> lastEntries ds = ds"
  by (induction ds) auto

lemma prepDependencies_lastEntries:
  "prepDependencies ds m =
     m ++ map_of (map (\<lambda>d. (Dependency_JobName d,
                             \<lparr>SpecDependency_Type = dependencyType (Dependency_Type d)\<rparr>))
                      (lastEntries ds))"
proof (induction ds arbitrary: m)
  case Nil
  then show ?case by simp
next
  case (Cons d ds)
  define L where "L = map (\<lambda>d. (Dependency_JobName d, \<lparr>SpecDependency_Type = dependencyType (Dependency_Type d)\<rparr>))
                (lastEntries ds)"
  define k where "k = Dependency_JobName d"
  define v where "v = \<lparr>SpecDependency_Type = dependencyType (Dependency_Type d)\<rparr>"
  have dom: "dom (map_of L) = Dependency_JobName ` set ds"
    using lastEntries_names [of ds] by (simp add: L_def dom_map_of_conv_image_fst image_image)
  have step: "prepDependencies (d # ds) m = m(k \<mapsto> v) ++ map_of L"
    unfolding k_def v_def L_def prepDependencies.simps by (rule Cons.IH)
  show ?case
  proof (cases "k \<in> Dependency_JobName ` set ds")
    case True
    then have "k \<in> dom (map_of L)" using dom by simp
    then have e: "m(k \<mapsto> v) ++ map_of L = m ++ map_of L"
      by (auto simp: map_add_def fun_eq_iff split: option.splits)
    have le: "lastEntries (d # ds) = lastEntries ds" using True by (simp add: k_def)
    have "prepDependencies (d # ds) m = m(k \<mapsto> v) ++ map_of L" by (rule step)
    also have "\<dots> = m ++ map_of L" by (rule e)
    finally show ?thesis unfolding le L_def .
  next
    case False
    then have "k \<notin> dom (map_of L)" using dom by simp
    then have e: "m(k \<mapsto> v) ++ map_of L = m ++ (map_of L)(k \<mapsto> v)"
      by (auto simp: map_add_def fun_eq_iff domIff split: option.splits)
    have le: "map (\<lambda>d. (Dependency_JobName d, \<lparr>SpecDependency_Type = dependencyType (Dependency_Type d)\<rparr>))
                (lastEntries (d # ds)) = (k, v) # L"
      using False by (simp add: k_def v_def L_def)
    have "prepDependencies (d # ds) m = m(k \<mapsto> v) ++ map_of L" by (rule step)
    also have "\<dots> = m ++ (map_of L)(k \<mapsto> v)" by (rule e)
    also have "\<dots> = m ++ map_of ((k, v) # L)" by (simp only: map_of.simps fst_conv snd_conv)
    finally show ?thesis unfolding le .
  qed
qed

lemma prepDependencies_pairs:
  "{(n, DependencyType_String (SpecDependency_Type dep)) | n dep.
      prepDependencies ds Map.empty n = Some dep} =
   (\<lambda>d. (Dependency_JobName d, DependencyType_String (dependencyType (Dependency_Type d)))) `
     set (lastEntries ds)"
proof -
  let ?L = "map (\<lambda>d. (Dependency_JobName d, \<lparr>SpecDependency_Type = dependencyType (Dependency_Type d)\<rparr>))
                (lastEntries ds)"
  have d: "distinct (map fst ?L)" using lastEntries_distinct [of ds] by (simp add: comp_def)
  have "\<And>n dep. (prepDependencies ds Map.empty n = Some dep) = ((n, dep) \<in> set ?L)"
    unfolding prepDependencies_lastEntries using d by simp
  then show ?thesis by (auto simp: image_iff) force
qed

lemma ToSpec_success:
  assumes "ToSpec M adapt conf = Returns (spec, None)"
  shows "JobSpec_Name spec = TrimSpace (Job_Name conf)"
    and "JobSpec_Owner spec = Job_Owner conf"
    and "parseJobDate (Schedule_StartDate (Job_Schedule conf)) =
           (SpecSchedule_StartDate (JobSpec_Schedule spec), None)"
    and "(Schedule_EndDate (Job_Schedule conf) = [] \<and> SpecSchedule_EndDate (JobSpec_Schedule spec) = None) \<or>
         (\<exists>e. parseJobDate (Schedule_EndDate (Job_Schedule conf)) = (e, None) \<and>
              SpecSchedule_EndDate (JobSpec_Schedule spec) = Some e)"
    and "SpecBehavior_CatchUp (JobSpec_Behavior spec) = Behavior_Catchup (Job_Behavior conf)"
    and "SpecBehavior_DependsOnPast (JobSpec_Behavior spec) = Behavior_DependsOnPast (Job_Behavior conf)"
    and "\<exists>u. SpecTask_Unit (JobSpec_Task spec) = Some u"
    and "prepHooks (supportedHookRepo adapt) (Job_Hooks conf) [] = Returns (JobSpec_Hooks spec, None)"
    and "JobSpec_Dependencies spec = prepDependencies (Job_Dependencies conf) Map.empty"
  using assms
  by (auto simp: ToSpec_def Let_def split: prod.splits option.splits sum.splits outcome.splits if_splits)

lemma round_trip_core:
  assumes t: "ToSpec M adapt m = Returns (spec, None)"
    and n: "namesAgree (supportedHookRepo adapt)"
    and v: "visitsKeysOf visited (JobSpec_Dependencies spec)"
  shows "\<exists>m'. FromSpec M visited spec = Returns (m', None) \<and>
      Job_Name m' = TrimSpace (Job_Name m) \<and>
      Job_Owner m' = Job_Owner m \<and>
      Schedule_StartDate (Job_Schedule m') = Schedule_StartDate (Job_Schedule m) \<and>
      Schedule_EndDate (Job_Schedule m') = Schedule_EndDate (Job_Schedule m) \<and>
      Job_Behavior m' = Job_Behavior m \<and>
      dependencyPairs (Job_Dependencies m') =
        (\<lambda>d. (Dependency_JobName d, DependencyType_String (dependencyType (Dependency_Type d)))) `
          set (lastEntries (Job_Dependencies m)) \<and>
      map Hook_Name (Job_Hooks m') = map Hook_Name (Job_Hooks m)"
proof -
  note s = ToSpec_success [OF t]
  from s(7) obtain u where u: "SpecTask_Unit (JobSpec_Task spec) = Some u" by blast
  from prepHooks_success [OF s(8)] obtain new where
    "JobSpec_Hooks spec = new"
    "list_all2 (\<lambda>h a. \<exists>u c. supportedHookRepo adapt (Hook_Name h) = Inr u \<and>
                    a = \<lparr>SpecHook_Config = c, SpecHook_Unit = Some u\<rparr>) (Job_Hooks m) new"
    by auto
  with hooksFromSpec_names [OF _ n] obtain hs' where
    h: "hooksFromSpec (JobSpec_Hooks spec) = Returns hs'" "map Hook_Name hs' = map Hook_Name (Job_Hooks m)"
    by blast
  have sd: "formatJobDate (SpecSchedule_StartDate (JobSpec_Schedule spec)) = Schedule_StartDate (Job_Schedule m)"
    using formatJobDate_parseJobDate [OF s(3)] .
  have ed: "(case SpecSchedule_EndDate (JobSpec_Schedule spec) of None \<Rightarrow> [] | Some e \<Rightarrow> formatJobDate e)
             = Schedule_EndDate (Job_Schedule m)"
    using s(4) formatJobDate_parseJobDate by auto
  have dp: "dependencyPairs (dependenciesFromSpec visited (JobSpec_Dependencies spec)) =
        (\<lambda>d. (Dependency_JobName d, DependencyType_String (dependencyType (Dependency_Type d)))) `
          set (lastEntries (Job_Dependencies m))"
  proof -
    have "dependencyPairs (dependenciesFromSpec visited (JobSpec_Dependencies spec)) =
            {(n, DependencyType_String (SpecDependency_Type dep)) | n dep.
               JobSpec_Dependencies spec n = Some dep}"
      by (rule dependenciesFromSpec_pairs [OF v])
    also have "\<dots> = (\<lambda>d. (Dependency_JobName d, DependencyType_String (dependencyType (Dependency_Type d)))) `
          set (lastEntries (Job_Dependencies m))"
      unfolding s(9) by (rule prepDependencies_pairs)
    finally show ?thesis .
  qed
  have bh: "\<lparr>Behavior_DependsOnPast = SpecBehavior_DependsOnPast (JobSpec_Behavior spec),
             Behavior_Catchup = SpecBehavior_CatchUp (JobSpec_Behavior spec)\<rparr> = Job_Behavior m"
    using s(5,6) by simp
  show ?thesis
    unfolding FromSpec_def u h(1)
    by (simp add: s(1,2) sd ed dp bh h(2))
qed

lemma dependencyPairs_known:
  assumes "distinct (map Dependency_JobName ds)" "\<forall>d\<in>set ds. knownType (Dependency_Type d)"
  shows "(\<lambda>d. (Dependency_JobName d, DependencyType_String (dependencyType (Dependency_Type d)))) `
          set (lastEntries ds) = dependencyPairs ds"
proof -
  have "\<And>d. d \<in> set ds \<Longrightarrow> DependencyType_String (dependencyType (Dependency_Type d)) = Dependency_Type d"
    using assms(2) dependencyType_String_known by (auto simp: knownType_def)
  then show ?thesis
    unfolding lastEntries_id [OF assms(1)] dependencyPairs_def by (auto simp: image_iff)
qed


text \<open>
  Claim C2, as the code has it. For every on-disk job \<open>m\<close> that \<open>ToSpec\<close> converts
  without error, with a hook registry that hands out plugins under their own names and
  whatever the order in which the map of dependencies is visited, \<open>FromSpec\<close> succeeds
  on the result and gives back the owner, the start and end date strings, both behavior
  flags and the hook names, in their order. The name comes back with its leading and
  trailing white space trimmed, so unchanged when it has none. The dependencies come back
  as the set of the pairs of job name and resolved type of the entries that no later
  entry of the same job overwrites, an unknown type string being resolved to the
  intra-project type; when the job names are distinct and every type string is one of the
  three known ones, this is the set of pairs of \<open>m\<close>.
\<close>

theorem adapter_round_trip:
  "ToSpec M adapt m = Returns (spec, None) \<and> namesAgree (supportedHookRepo adapt) \<and>
   visitsKeysOf visited (JobSpec_Dependencies spec) \<longrightarrow>
     (\<exists>m'. FromSpec M visited spec = Returns (m', None) \<and>
        Job_Name m' = TrimSpace (Job_Name m) \<and>
        (TrimSpace (Job_Name m) = Job_Name m \<longrightarrow> Job_Name m' = Job_Name m) \<and>
        Job_Owner m' = Job_Owner m \<and>
        Schedule_StartDate (Job_Schedule m') = Schedule_StartDate (Job_Schedule m) \<and>
        Schedule_EndDate (Job_Schedule m') = Schedule_EndDate (Job_Schedule m) \<and>
        Job_Behavior m' = Job_Behavior m \<and>
        dependencyPairs (Job_Dependencies m') =
          (\<lambda>d. (Dependency_JobName d, DependencyType_String (dependencyType (Dependency_Type d)))) `
            set (lastEntries (Job_Dependencies m)) \<and>
        (distinct (map Dependency_JobName (Job_Dependencies m)) \<and>
         (\<forall>d\<in>set (Job_Dependencies m). knownType (Dependency_Type d)) \<longrightarrow>
           dependencyPairs (Job_Dependencies m') = dependencyPairs (Job_Dependencies m)) \<and>
        map Hook_Name (Job_Hooks m') = map Hook_Name (Job_Hooks m))"
proof
  assume a: "ToSpec M adapt m = Returns (spec, None) \<and> namesAgree (supportedHookRepo adapt) \<and>
   visitsKeysOf visited (JobSpec_Dependencies spec)"
  then obtain m' where m': "FromSpec M visited spec = Returns (m', None)"
      "Job_Name m' = TrimSpace (Job_Name m)"
      "Job_Owner m' = Job_Owner m"
      "Schedule_StartDate (Job_Schedule m') = Schedule_StartDate (Job_Schedule m)"
      "Schedule_EndDate (Job_Schedule m') = Schedule_EndDate (Job_Schedule m)"
      "Job_Behavior m' = Job_Behavior m"
      "dependencyPairs (Job_Dependencies m') =
        (\<lambda>d. (Dependency_JobName d, DependencyType_String (dependencyType (Dependency_Type d)))) `
          set (lastEntries (Job_Dependencies m))"
      "map Hook_Name (Job_Hooks m') = map Hook_Name (Job_Hooks m)"
    using round_trip_core [of M adapt m spec visited] by blast
  have "distinct (map Dependency_JobName (Job_Dependencies m)) \<and>
         (\<forall>d\<in>set (Job_Dependencies m). knownType (Dependency_Type d)) \<longrightarrow>
           dependencyPairs (Job_Dependencies m') = dependencyPairs (Job_Dependencies m)"
    unfolding m'(7) using dependencyPairs_known by blast
  with m' show "\<exists>m'. FromSpec M visited spec = Returns (m', None) \<and>
        Job_Name m' = TrimSpace (Job_Name m) \<and>
        (TrimSpace (Job_Name m) = Job_Name m \<longrightarrow> Job_Name m' = Job_Name m) \<and>
        Job_Owner m' = Job_Owner m \<and>
        Schedule_StartDate (Job_Schedule m') = Schedule_StartDate (Job_Schedule m) \<and>
        Schedule_EndDate (Job_Schedule m') = Schedule_EndDate (Job_Schedule m) \<and>
        Job_Behavior m' = Job_Behavior m \<and>
        dependencyPairs (Job_Dependencies m') =
          (\<lambda>d. (Dependency_JobName d, DependencyType_String (dependencyType (Dependency_Type d)))) `
            set (lastEntries (Job_Dependencies m)) \<and>
        (distinct (map Dependency_JobName (Job_Dependencies m)) \<and>
         (\<forall>d\<in>set (Job_Dependencies m). knownType (Dependency_Type d)) \<longrightarrow>
           dependencyPairs (Job_Dependencies m') = dependencyPairs (Job_Dependencies m)) \<and>
        map Hook_Name (Job_Hooks m') = map Hook_Name (Job_Hooks m)"
    by (intro exI [of _ m']) simp
qed

lemma parseJobDate_leap_example:
  "parseJobDate ''2024-02-29'' = (\<lparr>Time_Year = 2024, Time_Month = 2, Time_Day = 29\<rparr>, None)"
  by (simp add: parseJobDate_def twoDigits_def daysIn_def isLeap_def isDigit_def decimal_def digitVal_def)

lemma prepareWindow_schedule:
  "prepareWindow (conf\<lparr>Job_Schedule := s\<rparr>) = prepareWindow conf"
  by (simp add: prepareWindow_def Let_def)

lemma ToSpec_example_full:
  "\<exists>spec. ToSpec exampleModels exampleAdapter
      ((exampleJob deps [\<lparr>Hook_Name = ''hook'', Hook_Config = [(YamlString ''k'', YamlString ''v'')]\<rparr>])
         \<lparr>Job_Schedule := \<lparr>Schedule_StartDate = ''2021-01-01'', Schedule_EndDate = ''2024-02-29'',
                            Schedule_Interval = ''0 2 * * *''\<rparr>\<rparr>) = Returns (spec, None)"
  unfolding ToSpec_def prepareWindow_schedule prepareWindow_example
  by (simp add: exampleJob_def jobWithWindow_def exampleAdapter_def parseJobDate_example
      parseJobDate_leap_example JobHook_ToSpec_def)

lemma namesAgree_example: "namesAgree (supportedHookRepo exampleAdapter)"
  by (auto simp: namesAgree_def exampleAdapter_def split: if_splits)

theorem adapter_round_trip_witness:
  "\<exists>spec m'.
     ToSpec exampleModels exampleAdapter
      ((exampleJob [\<lparr>Dependency_JobName = ''x'', Dependency_Type = ''inter''\<rparr>,
                    \<lparr>Dependency_JobName = ''y'', Dependency_Type = ''intra''\<rparr>]
                   [\<lparr>Hook_Name = ''hook'', Hook_Config = [(YamlString ''k'', YamlString ''v'')]\<rparr>])
         \<lparr>Job_Schedule := \<lparr>Schedule_StartDate = ''2021-01-01'', Schedule_EndDate = ''2024-02-29'',
                            Schedule_Interval = ''0 2 * * *''\<rparr>\<rparr>) = Returns (spec, None) \<and>
     namesAgree (supportedHookRepo exampleAdapter) \<and>
     visitsKeysOf [''y'', ''x''] (JobSpec_Dependencies spec) \<and>
     FromSpec exampleModels [''y'', ''x''] spec = Returns (m', None) \<and>
     Job_Name m' = ''job'' \<and> Job_Owner m' = ''owner'' \<and>
     Schedule_StartDate (Job_Schedule m') = ''2021-01-01'' \<and>
     Schedule_EndDate (Job_Schedule m') = ''2024-02-29'' \<and>
     dependencyPairs (Job_Dependencies m') = {(''x'', ''inter''), (''y'', ''intra'')} \<and>
     map Hook_Name (Job_Hooks m') = [''hook'']"
proof -
  define W where "W = (exampleJob [\<lparr>Dependency_JobName = ''x'', Dependency_Type = ''inter''\<rparr>,
                    \<lparr>Dependency_JobName = ''y'', Dependency_Type = ''intra''\<rparr>]
                   [\<lparr>Hook_Name = ''hook'', Hook_Config = [(YamlString ''k'', YamlString ''v'')]\<rparr>])
         \<lparr>Job_Schedule := \<lparr>Schedule_StartDate = ''2021-01-01'', Schedule_EndDate = ''2024-02-29'',
                            Schedule_Interval = ''0 2 * * *''\<rparr>\<rparr>"
  obtain spec where s: "ToSpec exampleModels exampleAdapter W = Returns (spec, None)"
    unfolding W_def using ToSpec_example_full by blast
  have deps: "Job_Dependencies W = [\<lparr>Dependency_JobName = ''x'', Dependency_Type = ''inter''\<rparr>,
                    \<lparr>Dependency_JobName = ''y'', Dependency_Type = ''intra''\<rparr>]"
    by (simp add: W_def exampleJob_def)
  have v: "visitsKeysOf [''y'', ''x''] (JobSpec_Dependencies spec)"
    unfolding ToSpec_dependencies [OF s] deps by (auto simp: visitsKeysOf_def)
  have t: "TrimSpace ''job'' = ''job''" by (simp add: TrimSpace_def asciiSpace_def)
  have k: "distinct (map Dependency_JobName (Job_Dependencies W)) \<and>
         (\<forall>d\<in>set (Job_Dependencies W). knownType (Dependency_Type d))"
    unfolding deps by (simp add: knownType_def dependencyType_strings)
  from adapter_round_trip [of exampleModels exampleAdapter W spec "[''y'', ''x'']", THEN mp,
      OF conjI [OF s conjI [OF namesAgree_example v]]]
  obtain m' where p: "FromSpec exampleModels [''y'', ''x''] spec = Returns (m', None)"
    "Job_Name m' = TrimSpace (Job_Name W)"
    "TrimSpace (Job_Name W) = Job_Name W \<longrightarrow> Job_Name m' = Job_Name W"
    "Job_Owner m' = Job_Owner W"
    "Schedule_StartDate (Job_Schedule m') = Schedule_StartDate (Job_Schedule W)"
    "Schedule_EndDate (Job_Schedule m') = Schedule_EndDate (Job_Schedule W)"
    "Job_Behavior m' = Job_Behavior W"
    "dependencyPairs (Job_Dependencies m') =
          (\<lambda>d. (Dependency_JobName d, DependencyType_String (dependencyType (Dependency_Type d)))) `
            set (lastEntries (Job_Dependencies W))"
    "distinct (map Dependency_JobName (Job_Dependencies W)) \<and>
         (\<forall>d\<in>set (Job_Dependencies W). knownType (Dependency_Type d)) \<longrightarrow>
           dependencyPairs (Job_Dependencies m') = dependencyPairs (Job_Dependencies W)"
    "map Hook_Name (Job_Hooks m') = map Hook_Name (Job_Hooks W)"
    by (elim exE conjE) (rule that, assumption+)
  have n: "Job_Name m' = ''job''" using p(2) by (simp add: W_def exampleJob_def jobWithWindow_def t)
  have ow: "Job_Owner m' = ''owner''" using p(4) by (simp add: W_def exampleJob_def jobWithWindow_def)
  have sd: "Schedule_StartDate (Job_Schedule m') = ''2021-01-01''"
    using p(5) by (simp add: W_def)
  have ed: "Schedule_EndDate (Job_Schedule m') = ''2024-02-29''"
    using p(6) by (simp add: W_def)
  have dp: "dependencyPairs (Job_Dependencies m') = {(''x'', ''inter''), (''y'', ''intra'')}"
    using p(9) [THEN mp, OF k] unfolding deps by (simp add: dependencyPairs_def)
  have hk: "map Hook_Name (Job_Hooks m') = [''hook'']"
    using p(10) by (simp add: W_def exampleJob_def)
  show ?thesis
    unfolding W_def [symmetric]
    by (intro exI [of _ spec] exI [of _ m'] conjI) (fact s namesAgree_example v p(1) n ow sd ed dp hk)+
qed

theorem round_trip_changes_unknown_dependency_type:
  "(case roundTrip exampleModels exampleAdapter [''x'']
           (exampleJob [\<lparr>Dependency_JobName = ''x'', Dependency_Type = ''bogus''\<rparr>] []) of
      Returns (m', None) \<Rightarrow> dependencyPairs (Job_Dependencies m') = {(''x'', ''intra'')}
    | _ \<Rightarrow> False) \<and>
   dependencyPairs (Job_Dependencies
      (exampleJob [\<lparr>Dependency_JobName = ''x'', Dependency_Type = ''bogus''\<rparr>] [])) = {(''x'', ''bogus'')} \<and>
   {(''x'', ''intra'')} \<noteq> {(''x'', ''bogus'')}"
proof -
  define J where "J = exampleJob [\<lparr>Dependency_JobName = ''x'', Dependency_Type = ''bogus''\<rparr>] []"
  obtain spec where s: "ToSpec exampleModels exampleAdapter J = Returns (spec, None)"
    unfolding J_def using ToSpec_example by blast
  have deps: "Job_Dependencies J = [\<lparr>Dependency_JobName = ''x'', Dependency_Type = ''bogus''\<rparr>]"
    by (simp add: J_def exampleJob_def)
  have v: "visitsKeysOf [''x''] (JobSpec_Dependencies spec)"
    unfolding ToSpec_dependencies [OF s] deps by (auto simp: visitsKeysOf_def)
  from round_trip_core [OF s namesAgree_example v] obtain m' where
    m': "FromSpec exampleModels [''x''] spec = Returns (m', None)"
    "dependencyPairs (Job_Dependencies m') =
        (\<lambda>d. (Dependency_JobName d, DependencyType_String (dependencyType (Dependency_Type d)))) `
          set (lastEntries (Job_Dependencies J))"
    by blast
  have "dependencyPairs (Job_Dependencies m') = {(''x'', ''intra'')}"
    unfolding m'(2) deps by (simp add: dependencyType_def dependencyType_strings)
  with s m'(1) have "(case roundTrip exampleModels exampleAdapter [''x''] J of
      Returns (m', None) \<Rightarrow> dependencyPairs (Job_Dependencies m') = {(''x'', ''intra'')}
    | _ \<Rightarrow> False)"
    by (simp add: roundTrip_def)
  moreover have "dependencyPairs (Job_Dependencies J) = {(''x'', ''bogus'')}"
    unfolding deps by (simp add: dependencyPairs_def)
  ultimately show ?thesis unfolding J_def by simp
qed

section \<open>The loops that read a response stream\<close>








section \<open>The passes of the deployment\<close>



















section \<open>The run of postDeploymentRequest\<close>







section \<open>Registration comes first\<close>

text \<open>
  Claim C8. Once the connection is made, when \<open>RegisterProject\<close> returns an error of
  the transport, or a response whose \<open>success\<close> is false, \<open>postDeploymentRequest\<close>
  returns an error: the transport error wrapped in "failed to update project
  configurations", or that message followed by the message of the response. All it has
  done by then is to dial and to call \<open>RegisterProject\<close>: no repository was read, no
  specification adapted, no deployment request of resources or of jobs sent and no stream
  read, whatever the two flags say.
\<close>

theorem registration_precedes_deployment:
  "createConnection env = None \<and>
   (RegisterProject env projectName = Inl err \<or>
    (RegisterProject env projectName = Inr registerResponse \<and> \<not> Register_Success registerResponse)) \<longrightarrow>
     postDeploymentRequest env projectName ignoreJobDeployment ignoreResources =
       (Returned (Some (case RegisterProject env projectName of
                          Inl err \<Rightarrow> Wrap err ''failed to update project configurations''
                        | Inr registerResponse \<Rightarrow>
                            ErrorNew (''failed to update project configurations, ''
                                      @ Register_Message registerResponse))),
        [Dial, CallRegisterProject projectName]) \<and>
     \<not> list_ex resourceEvent (snd (postDeploymentRequest env projectName ignoreJobDeployment ignoreResources)) \<and>
     \<not> list_ex jobEvent (snd (postDeploymentRequest env projectName ignoreJobDeployment ignoreResources))"
proof (intro impI, elim conjE)
  assume c: "createConnection env = None"
    and r: "RegisterProject env projectName = Inl err \<or>
            (RegisterProject env projectName = Inr registerResponse \<and> \<not> Register_Success registerResponse)"
  have e: "postDeploymentRequest env projectName ignoreJobDeployment ignoreResources =
       (Returned (Some (case RegisterProject env projectName of
                          Inl err \<Rightarrow> Wrap err ''failed to update project configurations''
                        | Inr registerResponse \<Rightarrow>
                            ErrorNew (''failed to update project configurations, ''
                                      @ Register_Message registerResponse))),
        [Dial, CallRegisterProject projectName])"
    using r unfolding postDeploymentRequest_def c by auto
  show "postDeploymentRequest env projectName ignoreJobDeployment ignoreResources =
       (Returned (Some (case RegisterProject env projectName of
                          Inl err \<Rightarrow> Wrap err ''failed to update project configurations''
                        | Inr registerResponse \<Rightarrow>
                            ErrorNew (''failed to update project configurations, ''
                                      @ Register_Message registerResponse))),
        [Dial, CallRegisterProject projectName]) \<and>
     \<not> list_ex resourceEvent (snd (postDeploymentRequest env projectName ignoreJobDeployment ignoreResources)) \<and>
     \<not> list_ex jobEvent (snd (postDeploymentRequest env projectName ignoreJobDeployment ignoreResources))"
    unfolding e by simp
qed

theorem registration_precedes_deployment_witness:
  "createConnection (exampleEnv (Inl (ErrorNew ''unavailable'')) ([], EOF) ([], EOF)) = None \<and>
   postDeploymentRequest (exampleEnv (Inl (ErrorNew ''unavailable'')) ([], EOF) ([], EOF)) ''project'' False False =
     (Returned (Some (Wrap (ErrorNew ''unavailable'') ''failed to update project configurations'')),
      [Dial, CallRegisterProject ''project'']) \<and>
   \<not> Register_Success \<lparr>Register_Success = False, Register_Message = ''denied''\<rparr> \<and>
   postDeploymentRequest
     (exampleEnv (Inr \<lparr>Register_Success = False, Register_Message = ''denied''\<rparr>) ([], EOF) ([], EOF))
     ''project'' False False =
     (Returned (Some (ErrorNew ''failed to update project configurations, denied'')),
      [Dial, CallRegisterProject ''project''])"
  using registration_precedes_deployment [of "exampleEnv (Inl (ErrorNew ''unavailable'')) ([], EOF) ([], EOF)"
          "''project''" "ErrorNew ''unavailable''"
          "\<lparr>Register_Success = False, Register_Message = ''denied''\<rparr>" False False]
    registration_precedes_deployment [of "exampleEnv (Inr \<lparr>Register_Success = False, Register_Message = ''denied''\<rparr>) ([], EOF) ([], EOF)"
          "''project''" "ErrorNew ''unavailable''"
          "\<lparr>Register_Success = False, Register_Message = ''denied''\<rparr>" False False]
  by (simp add: exampleEnv_def)

section \<open>Acknowledgements on a response stream\<close>






section \<open>Resources first, then jobs\<close>







end
